theory Spec2Isabelle
  imports Complex_Main "HOL-Library.AList"
begin

section \<open>Configuration of the model daemon\<close>

text \<open>
  The constants of \<^verbatim>\<open>ModelConstants\<close> and the FrogPilot toggles are read by
  \<^verbatim>\<open>selfdrive/modeld/modeld.py\<close> but declared elsewhere. They are parameters of the
  model: a record of constants and a record of toggles, both fixed for the lifetime of
  the process. Tensors of 32-bit floats are lists of reals; a two-dimensional array is
  the list of its rows.
\<close>

record ModelConstants =
  DESIRE_LEN :: nat
  FEATURE_LEN :: nat
  FULL_HISTORY_BUFFER_LEN :: nat
  HISTORY_BUFFER_LEN :: nat
  HISTORY_BUFFER_LEN_SECRET :: nat
  PREV_DESIRED_CURV_LEN :: nat
  TRAFFIC_CONVENTION_LEN :: nat
  LATERAL_CONTROL_PARAMS_LEN :: nat
  NAV_FEATURE_LEN :: nat
  NAV_INSTRUCTION_LEN :: nat
  RADAR_TRACKS_LEN :: nat
  RADAR_TRACKS_WIDTH :: nat
  MODEL_FREQ :: real

record toggles =
  DISABLE_NAV :: bool
  DISABLE_POSE :: bool
  DISABLE_RADAR :: bool
  GAS_BRAKE :: bool
  SECRET_GOOD_OPENPILOT :: bool
  USE_VELOCITY :: bool

datatype error = IndexError | KeyError | ValueError | ZeroDivisionError

type_synonym ndarray = "real list"
type_synonym tensor_dict = "(string \<times> ndarray) list"

definition zeros :: "nat \<Rightarrow> ndarray" where
  "zeros n = replicate n 0"

definition zeros2 :: "nat \<Rightarrow> nat \<Rightarrow> ndarray list" where
  "zeros2 r c = replicate r (zeros c)"

section \<open>ModelState\<close>

record ModelState =
  prev_desire :: ndarray
  full_features_20Hz :: "ndarray list"
  desire_20Hz :: "ndarray list"
  prev_desired_curv_20hz :: "ndarray list"
  inputs :: tensor_dict

text \<open>
  The dict literal of \<^verbatim>\<open>ModelState.__init__\<close> (lines 84 to 93), in insertion order.
  The two \<^verbatim>\<open>**({...} if c else {})\<close> spreads become conditional segments.
\<close>

definition init_inputs :: "toggles \<Rightarrow> ModelConstants \<Rightarrow> tensor_dict" where
  "init_inputs tg mc =
     [(''desire'', zeros (DESIRE_LEN mc *
          (if SECRET_GOOD_OPENPILOT tg then HISTORY_BUFFER_LEN_SECRET mc + 1
           else HISTORY_BUFFER_LEN mc + 1))),
      (''traffic_convention'', zeros (TRAFFIC_CONVENTION_LEN mc)),
      (''lateral_control_params'', zeros (LATERAL_CONTROL_PARAMS_LEN mc)),
      (''prev_desired_curv'', zeros (PREV_DESIRED_CURV_LEN mc * (HISTORY_BUFFER_LEN mc + 1)))]
     @ (if \<not> DISABLE_NAV tg
        then [(''nav_features'', zeros (NAV_FEATURE_LEN mc)),
              (''nav_instructions'', zeros (NAV_INSTRUCTION_LEN mc))]
        else [])
     @ [(''features_buffer'', zeros
          ((if SECRET_GOOD_OPENPILOT tg then HISTORY_BUFFER_LEN_SECRET mc
            else HISTORY_BUFFER_LEN mc) * FEATURE_LEN mc))]
     @ (if DISABLE_RADAR tg
        then [(''radar_tracks'', zeros (RADAR_TRACKS_LEN mc * RADAR_TRACKS_WIDTH mc))]
        else [])"

definition ModelState_init :: "toggles \<Rightarrow> ModelConstants \<Rightarrow> ModelState" where
  "ModelState_init tg mc =
     \<lparr> prev_desire = zeros (DESIRE_LEN mc),
       full_features_20Hz = zeros2 (FULL_HISTORY_BUFFER_LEN mc) (FEATURE_LEN mc),
       desire_20Hz = zeros2 (FULL_HISTORY_BUFFER_LEN mc + 1) (DESIRE_LEN mc),
       prev_desired_curv_20hz = zeros2 (FULL_HISTORY_BUFFER_LEN mc + 1) (PREV_DESIRED_CURV_LEN mc),
       inputs = init_inputs tg mc \<rparr>"

text \<open>
  The names bound on the engine by the loop \<^verbatim>\<open>for k,v in self.inputs.items():
  self.model.addInput(k, v)\<close>, after the two image inputs.
\<close>

definition bound_input_names :: "toggles \<Rightarrow> ModelConstants \<Rightarrow> string list" where
  "bound_input_names tg mc =
     [''input_imgs'', ''big_input_imgs''] @ map fst (inputs (ModelState_init tg mc))"

text \<open>
  The per-cycle dict built in \<^verbatim>\<open>main\<close> (lines 335 to 341) from the vectors encoded
  in that cycle.
\<close>

definition cycle_inputs ::
  "toggles \<Rightarrow> ndarray \<Rightarrow> ndarray \<Rightarrow> ndarray \<Rightarrow> ndarray \<Rightarrow> ndarray \<Rightarrow> ndarray \<Rightarrow> tensor_dict" where
  "cycle_inputs tg vec_desire traffic_convention lateral_control_params
       nav_features nav_instructions radar_tracks =
     [(''desire'', vec_desire),
      (''traffic_convention'', traffic_convention),
      (''lateral_control_params'', lateral_control_params)]
     @ (if \<not> DISABLE_NAV tg
        then [(''nav_features'', nav_features), (''nav_instructions'', nav_instructions)]
        else [])
     @ (if DISABLE_RADAR tg then [(''radar_tracks'', radar_tracks)] else [])"

section \<open>Array operations\<close>

text \<open>
  One-dimensional assignment \<^verbatim>\<open>dest[:] = src\<close> and elementwise arithmetic follow
  NumPy's broadcasting: equal lengths, or a source of length one that is repeated;
  anything else raises \<^verbatim>\<open>ValueError\<close>.
\<close>

definition broadcast_to :: "nat \<Rightarrow> ndarray \<Rightarrow> error + ndarray" where
  "broadcast_to n src =
     (if length src = n then Inr src
      else if length src = 1 then Inr (replicate n (hd src))
      else Inl ValueError)"

text \<open>\<^verbatim>\<open>d[k][:] = src\<close> on a dict of arrays.\<close>

definition dict_assign :: "tensor_dict \<Rightarrow> string \<Rightarrow> ndarray \<Rightarrow> error + tensor_dict" where
  "dict_assign d k src =
     (case map_of d k of
        None \<Rightarrow> Inl KeyError
      | Some dest \<Rightarrow>
          (case broadcast_to (length dest) src of
             Inl e \<Rightarrow> Inl e
           | Inr v \<Rightarrow> Inr (AList.update k v d)))"

text \<open>
  The shift-and-append of a history buffer:
  \<^verbatim>\<open>a[:-1] = a[1:]; a[-1] = v\<close>. The row width is the width of the array.
\<close>

definition roll :: "ndarray list \<Rightarrow> ndarray \<Rightarrow> error + ndarray list" where
  "roll rows v =
     (case rows of
        [] \<Rightarrow> Inl IndexError
      | r # rs \<Rightarrow>
          (case broadcast_to (length r) v of
             Inl e \<Rightarrow> Inl e
           | Inr v' \<Rightarrow> Inr (rs @ [v'])))"

text \<open>\<^verbatim>\<open>np.where(d - prev > .99, d, 0)\<close>, with the operands broadcast.\<close>

definition rising_edge :: "ndarray \<Rightarrow> ndarray \<Rightarrow> error + ndarray" where
  "rising_edge d prev =
     (if length d = length prev
      then Inr (map2 (\<lambda>x p. if x - p > 99 / 100 then x else 0) d prev)
      else if length d = 1
      then Inr (map (\<lambda>p. if hd d - p > 99 / 100 then hd d else 0) prev)
      else if length prev = 1
      then Inr (map (\<lambda>x. if x - hd prev > 99 / 100 then x else 0) d)
      else Inl ValueError)"

definition max4 :: "real \<Rightarrow> real \<Rightarrow> real \<Rightarrow> real \<Rightarrow> real" where
  "max4 a b c d = max (max (max a b) c) d"

text \<open>
  \<^verbatim>\<open>a.reshape((25,4,-1)).max(axis=1).flatten()\<close>: the array is read in row-major
  order as 25 groups of 4 samples of width \<open>w\<close>, where \<open>w\<close> is its size divided by 100;
  a size that is zero or not a multiple of 100 cannot be reshaped.
\<close>

definition pool_desire :: "ndarray list \<Rightarrow> error + ndarray" where
  "pool_desire rows =
     (let flat = concat rows; n = length flat in
      if n = 0 \<or> n mod 100 \<noteq> 0 then Inl ValueError
      else let w = n div 100 in
        Inr (concat (map (\<lambda>g. map (\<lambda>j.
               max4 (flat ! ((4 * g) * w + j)) (flat ! ((4 * g + 1) * w + j))
                    (flat ! ((4 * g + 2) * w + j)) (flat ! ((4 * g + 3) * w + j)))
             [0..<w]) [0..<25])))"

text \<open>Python indexing of the rows of an array: a negative index counts from the end.\<close>

definition row_at :: "ndarray list \<Rightarrow> int \<Rightarrow> error + ndarray" where
  "row_at rows i =
     (let n = int (length rows); j = (if i < 0 then n + i else i)
      in if 0 \<le> j \<and> j < n then Inr (rows ! nat j) else Inl IndexError)"

fun take_rows :: "ndarray list \<Rightarrow> int list \<Rightarrow> error + ndarray list" where
  "take_rows rows [] = Inr []"
| "take_rows rows (i # is) =
     (case row_at rows i of
        Inl e \<Rightarrow> Inl e
      | Inr r \<Rightarrow> (case take_rows rows is of Inl e \<Rightarrow> Inl e | Inr rs \<Rightarrow> Inr (r # rs)))"

text \<open>\<^verbatim>\<open>np.arange(-4,-100,-4)[::-1]\<close>, that is \<open>-96, -92, \<dots>, -4\<close>.\<close>

definition idxs :: "int list" where
  "idxs = rev (map (\<lambda>k. - 4 - 4 * int k) [0..<24])"

text \<open>
  \<^verbatim>\<open>dest[-k:] = src\<close>. For \<open>k = 0\<close> the slice \<^verbatim>\<open>dest[-0:]\<close> is the whole array.
\<close>

definition assign_tail :: "ndarray \<Rightarrow> nat \<Rightarrow> ndarray \<Rightarrow> error + ndarray" where
  "assign_tail dest k src =
     (let n = length dest; m = (if k = 0 then n else min k n) in
      case broadcast_to m src of
        Inl e \<Rightarrow> Inl e
      | Inr v \<Rightarrow> Inr (take (n - m) dest @ v))"

section \<open>ModelState.run\<close>

text \<open>
  The inference engine and the output parser are external. Together they are a function
  from what is bound at the time of \<^verbatim>\<open>execute\<close> (the two camera buffers with their
  warp transforms, and the dict \<^verbatim>\<open>self.inputs\<close>) to the parsed outputs, of which
  \<^verbatim>\<open>run\<close> reads row 0 of \<^verbatim>\<open>hidden_state\<close> and of \<^verbatim>\<open>desired_curvature\<close>.
\<close>

record model_outputs =
  hidden_state :: ndarray
  desired_curvature :: ndarray

type_synonym ('b, 't) engine = "'b \<Rightarrow> 't \<Rightarrow> 'b \<Rightarrow> 't \<Rightarrow> tensor_dict \<Rightarrow> model_outputs"

text \<open>
  Lines 123 to 129: the rising-edge pulse and the pooled desire input. The result holds
  the new state, the caller's dict (whose \<^verbatim>\<open>desire\<close> array line 123 changes in
  place) and the pulse \<^verbatim>\<open>new_desire\<close>.
\<close>

definition run_desire :: "ModelState \<Rightarrow> tensor_dict \<Rightarrow> error + (ModelState \<times> tensor_dict \<times> ndarray)" where
  "run_desire st inp =
     (case map_of inp ''desire'' of
        None \<Rightarrow> Inl KeyError
      | Some d0 \<Rightarrow>
          if d0 = [] then Inl IndexError
          else
            let d = d0[0 := 0]; inp' = AList.update ''desire'' d inp in
            (case rising_edge d (prev_desire st) of
               Inl e \<Rightarrow> Inl e
             | Inr new_desire \<Rightarrow>
            (case broadcast_to (length (prev_desire st)) d of
               Inl e \<Rightarrow> Inl e
             | Inr prev' \<Rightarrow>
            (case roll (desire_20Hz st) new_desire of
               Inl e \<Rightarrow> Inl e
             | Inr hist \<Rightarrow>
            (case pool_desire hist of
               Inl e \<Rightarrow> Inl e
             | Inr pooled \<Rightarrow>
            (case dict_assign (inputs st) ''desire'' pooled of
               Inl e \<Rightarrow> Inl e
             | Inr ins \<Rightarrow>
                 Inr (st\<lparr>prev_desire := prev', desire_20Hz := hist, inputs := ins\<rparr>,
                      inp', new_desire)))))))"

text \<open>Lines 131 and 132: two arrays of the caller's dict are copied into the bound ones.\<close>

definition run_copy :: "ModelState \<Rightarrow> tensor_dict \<Rightarrow> error + ModelState" where
  "run_copy st inp =
     (case map_of inp ''traffic_convention'' of
        None \<Rightarrow> Inl KeyError
      | Some tc \<Rightarrow>
     (case dict_assign (inputs st) ''traffic_convention'' tc of
        Inl e \<Rightarrow> Inl e
      | Inr ins1 \<Rightarrow>
     (case map_of inp ''lateral_control_params'' of
        None \<Rightarrow> Inl KeyError
      | Some lcp \<Rightarrow>
     (case dict_assign ins1 ''lateral_control_params'' lcp of
        Inl e \<Rightarrow> Inl e
      | Inr ins2 \<Rightarrow> Inr (st\<lparr>inputs := ins2\<rparr>)))))"

text \<open>
  Lines 143 to 152: the histories take the outputs of this execution, then the
  \<^verbatim>\<open>features_buffer\<close> and \<^verbatim>\<open>prev_desired_curv\<close> inputs are rewritten for the
  next one.
\<close>

definition run_update :: "ModelConstants \<Rightarrow> ModelState \<Rightarrow> model_outputs \<Rightarrow> error + ModelState" where
  "run_update mc st outputs =
     (case roll (full_features_20Hz st) (hidden_state outputs) of
        Inl e \<Rightarrow> Inl e
      | Inr feats \<Rightarrow>
     (case roll (prev_desired_curv_20hz st) (desired_curvature outputs) of
        Inl e \<Rightarrow> Inl e
      | Inr curvs \<Rightarrow>
     (case take_rows feats idxs of
        Inl e \<Rightarrow> Inl e
      | Inr sel \<Rightarrow>
     (case dict_assign (inputs st) ''features_buffer'' (concat sel) of
        Inl e \<Rightarrow> Inl e
      | Inr ins1 \<Rightarrow>
     (case row_at curvs (- 4) of
        Inl e \<Rightarrow> Inl e
      | Inr c \<Rightarrow>
     (case map_of ins1 ''prev_desired_curv'' of
        None \<Rightarrow> Inl KeyError
      | Some pdc \<Rightarrow>
     (case assign_tail pdc (PREV_DESIRED_CURV_LEN mc) (map (\<lambda>x. 0 * x) c) of
        Inl e \<Rightarrow> Inl e
      | Inr pdc' \<Rightarrow>
          Inr (st\<lparr>full_features_20Hz := feats, prev_desired_curv_20hz := curvs,
                  inputs := AList.update ''prev_desired_curv'' pdc' ins1\<rparr>))))))))"

text \<open>
  \<^verbatim>\<open>ModelState.run\<close>. Preparing the two image inputs (lines 134 and 135) happens in
  the external transform code; the engine receives the buffers and transforms it was
  given. With \<^verbatim>\<open>prepare_only\<close> the method returns \<^verbatim>\<open>None\<close> before
  \<^verbatim>\<open>execute\<close>.
\<close>

definition run ::
  "ModelConstants \<Rightarrow> ('b, 't) engine \<Rightarrow> ModelState \<Rightarrow> 'b \<Rightarrow> 'b \<Rightarrow> 't \<Rightarrow> 't \<Rightarrow> tensor_dict \<Rightarrow> bool
     \<Rightarrow> error + (ModelState \<times> tensor_dict \<times> model_outputs option)" where
  "run mc execute st buf wbuf transform transform_wide inp prepare_only =
     (case run_desire st inp of
        Inl e \<Rightarrow> Inl e
      | Inr (st1, inp', new_desire) \<Rightarrow>
     (case run_copy st1 inp' of
        Inl e \<Rightarrow> Inl e
      | Inr st2 \<Rightarrow>
          if prepare_only then Inr (st2, inp', None)
          else
            let outputs = execute buf transform wbuf transform_wide (inputs st2) in
            (case run_update mc st2 outputs of
               Inl e \<Rightarrow> Inl e
             | Inr st3 \<Rightarrow> Inr (st3, inp', Some outputs))))"

text \<open>
  A sequence of calls of \<^verbatim>\<open>run\<close> on one \<^verbatim>\<open>ModelState\<close>, each with its own
  arguments: the cycles of the process, in order. An exception ends the process.
\<close>

record ('b, 't) call =
  c_buf :: 'b
  c_wbuf :: 'b
  c_transform :: 't
  c_transform_wide :: 't
  c_inputs :: tensor_dict
  c_prepare_only :: bool

definition run_call ::
  "ModelConstants \<Rightarrow> ('b, 't) engine \<Rightarrow> ModelState \<Rightarrow> ('b, 't) call
     \<Rightarrow> error + (ModelState \<times> tensor_dict \<times> model_outputs option)" where
  "run_call mc execute st c =
     run mc execute st (c_buf c) (c_wbuf c) (c_transform c) (c_transform_wide c)
       (c_inputs c) (c_prepare_only c)"

fun run_calls ::
  "ModelConstants \<Rightarrow> ('b, 't) engine \<Rightarrow> ModelState \<Rightarrow> ('b, 't) call list
     \<Rightarrow> error + (ModelState \<times> (tensor_dict \<times> model_outputs option) list)" where
  "run_calls mc execute st [] = Inr (st, [])"
| "run_calls mc execute st (c # cs) =
     (case run_call mc execute st c of
        Inl e \<Rightarrow> Inl e
      | Inr (st', inp', out) \<Rightarrow>
          (case run_calls mc execute st' cs of
             Inl e \<Rightarrow> Inl e
           | Inr (st'', rs) \<Rightarrow> Inr (st'', (inp', out) # rs)))"

section \<open>Encoding of the desire in main\<close>

text \<open>
  Lines 286 to 288: the one-hot vector of the maneuver index, all zero when the index is
  out of range.
\<close>

definition vec_desire :: "ModelConstants \<Rightarrow> int \<Rightarrow> ndarray" where
  "vec_desire mc desire =
     (if desire \<ge> 0 \<and> desire < int (DESIRE_LEN mc)
      then (zeros (DESIRE_LEN mc))[nat desire := 1]
      else zeros (DESIRE_LEN mc))"

section \<open>What the array operations compute on well-shaped arrays\<close>

text \<open>
  On arrays of the allocated shapes no broadcasting happens and the operations of
  \<^verbatim>\<open>run\<close> are these: the pulse of a desire vector against the previous one, the
  maximum over each group of 4 rows, and the 24 rows selected by \<^verbatim>\<open>idxs\<close> from a
  history of 99 rows.
\<close>

definition pulse :: "ndarray \<Rightarrow> ndarray \<Rightarrow> ndarray" where
  "pulse d prev = map2 (\<lambda>x p. if x - p > 99 / 100 then x else 0) d prev"

definition pool_rows :: "ndarray list \<Rightarrow> nat \<Rightarrow> ndarray" where
  "pool_rows rows w =
     concat (map (\<lambda>g. map (\<lambda>j.
        max4 (rows ! (4 * g) ! j) (rows ! (4 * g + 1) ! j)
             (rows ! (4 * g + 2) ! j) (rows ! (4 * g + 3) ! j)) [0..<w]) [0..<25])"

definition strided :: "ndarray list \<Rightarrow> ndarray" where
  "strided rows = concat (map (\<lambda>k. rows ! (4 * k + 3)) [0..<24])"

section \<open>Shapes\<close>

text \<open>
  The literals of \<^verbatim>\<open>run\<close> (the reshape to 25 groups of 4, the 24 strided indices down
  to \<open>-96\<close>) fit the arrays allocated by \<^verbatim>\<open>__init__\<close> only for these values of the
  history lengths; a desire vector has at least the slot 0 that line 123 writes.
\<close>

definition consistent :: "toggles \<Rightarrow> ModelConstants \<Rightarrow> bool" where
  "consistent tg mc \<longleftrightarrow>
     0 < DESIRE_LEN mc \<and> FULL_HISTORY_BUFFER_LEN mc = 99 \<and>
     (if SECRET_GOOD_OPENPILOT tg then HISTORY_BUFFER_LEN_SECRET mc else HISTORY_BUFFER_LEN mc) = 24"

definition shape :: "ndarray list \<Rightarrow> nat \<Rightarrow> nat \<Rightarrow> bool" where
  "shape rows r c \<longleftrightarrow> length rows = r \<and> list_all (\<lambda>x. length x = c) rows"

definition has_len :: "tensor_dict \<Rightarrow> string \<Rightarrow> nat \<Rightarrow> bool" where
  "has_len d k n \<longleftrightarrow> (case map_of d k of None \<Rightarrow> False | Some v \<Rightarrow> length v = n)"

text \<open>The shapes that \<^verbatim>\<open>__init__\<close> gives the arrays of a \<^verbatim>\<open>ModelState\<close>.\<close>

definition wf_state :: "ModelConstants \<Rightarrow> ModelState \<Rightarrow> bool" where
  "wf_state mc st \<longleftrightarrow>
     length (prev_desire st) = DESIRE_LEN mc \<and>
     shape (full_features_20Hz st) 99 (FEATURE_LEN mc) \<and>
     shape (desire_20Hz st) 100 (DESIRE_LEN mc) \<and>
     shape (prev_desired_curv_20hz st) 100 (PREV_DESIRED_CURV_LEN mc) \<and>
     has_len (inputs st) ''desire'' (25 * DESIRE_LEN mc) \<and>
     has_len (inputs st) ''traffic_convention'' (TRAFFIC_CONVENTION_LEN mc) \<and>
     has_len (inputs st) ''lateral_control_params'' (LATERAL_CONTROL_PARAMS_LEN mc) \<and>
     has_len (inputs st) ''prev_desired_curv''
       (PREV_DESIRED_CURV_LEN mc * (HISTORY_BUFFER_LEN mc + 1)) \<and>
     has_len (inputs st) ''features_buffer'' (24 * FEATURE_LEN mc)"

text \<open>
  Arguments of a call that fit those shapes: the three arrays \<^verbatim>\<open>run\<close> reads from
  the caller's dict, as \<^verbatim>\<open>main\<close> builds them.
\<close>

definition wf_inputs :: "ModelConstants \<Rightarrow> tensor_dict \<Rightarrow> bool" where
  "wf_inputs mc inp \<longleftrightarrow>
     has_len inp ''desire'' (DESIRE_LEN mc) \<and>
     has_len inp ''traffic_convention'' (TRAFFIC_CONVENTION_LEN mc) \<and>
     has_len inp ''lateral_control_params'' (LATERAL_CONTROL_PARAMS_LEN mc)"

text \<open>An engine whose parsed outputs have the widths of the two histories.\<close>

definition wf_engine :: "ModelConstants \<Rightarrow> ('b, 't) engine \<Rightarrow> bool" where
  "wf_engine mc execute \<longleftrightarrow>
     (\<forall>b t wb wt ins. length (hidden_state (execute b t wb wt ins)) = FEATURE_LEN mc \<and>
        length (desired_curvature (execute b t wb wt ins)) = PREV_DESIRED_CURV_LEN mc)"

section \<open>Sequences of calls: what is observed and what is invariant\<close>

text \<open>
  Of the results of a sequence of calls, the parsed outputs of those that executed the
  engine, in order; and the feature history they leave: 99 rows, zero rows first where
  fewer than 99 executions have happened, the most recent hidden state last.
\<close>

definition executed :: "(tensor_dict \<times> model_outputs option) list \<Rightarrow> model_outputs list" where
  "executed rs = concat (map (\<lambda>r. case snd r of None \<Rightarrow> [] | Some out \<Rightarrow> [out]) rs)"

definition history :: "ModelConstants \<Rightarrow> model_outputs list \<Rightarrow> ndarray list" where
  "history mc outs =
     drop (length outs) (zeros2 99 (FEATURE_LEN mc) @ map hidden_state outs)"

text \<open>
  What holds of a \<^verbatim>\<open>ModelState\<close> after a sequence of calls with results \<open>rs\<close>: the
  feature history and the two inputs derived from outputs are functions of the outputs of
  those calls.
\<close>

definition lag_inv :: "ModelConstants \<Rightarrow> ModelState \<Rightarrow> (tensor_dict \<times> model_outputs option) list \<Rightarrow> bool" where
  "lag_inv mc st rs \<longleftrightarrow>
     wf_state mc st \<and>
     full_features_20Hz st = history mc (executed rs) \<and>
     map_of (inputs st) ''features_buffer'' = Some (strided (history mc (executed rs))) \<and>
     map_of (inputs st) ''prev_desired_curv'' =
       Some (zeros (PREV_DESIRED_CURV_LEN mc * (HISTORY_BUFFER_LEN mc + 1)))"

text \<open>
  Slot 0 is zero in \<^verbatim>\<open>prev_desire\<close> and in every row of the desire history, and the
  bound desire input is the pooled history.
\<close>

definition slot0_inv :: "ModelConstants \<Rightarrow> ModelState \<Rightarrow> bool" where
  "slot0_inv mc st \<longleftrightarrow>
     wf_state mc st \<and> prev_desire st ! 0 = 0 \<and>
     list_all (\<lambda>r. r ! 0 = 0) (desire_20Hz st) \<and>
     map_of (inputs st) ''desire'' = Some (pool_rows (desire_20Hz st) (DESIRE_LEN mc))"

text \<open>
  Calls that pass, as \<^verbatim>\<open>main\<close> does, the one-hot vectors of a sequence of maneuver
  indices, one index per call.
\<close>

definition desire_calls ::
  "ModelConstants \<Rightarrow> ('b, 't) call list \<Rightarrow> int list \<Rightarrow> bool" where
  "desire_calls mc cs ds \<longleftrightarrow>
     list_all2 (\<lambda>c d. wf_inputs mc (c_inputs c) \<and>
                 map_of (c_inputs c) ''desire'' = Some (vec_desire mc d)) cs ds"

text \<open>
  The desire vector of an index after line 123 has cleared slot 0, and the value of
  \<^verbatim>\<open>prev_desire\<close> after calls with the indices \<open>ds\<close>.
\<close>

definition edge_vec :: "ModelConstants \<Rightarrow> int \<Rightarrow> ndarray" where
  "edge_vec mc d =
     (if 0 < d \<and> d < int (DESIRE_LEN mc) then (zeros (DESIRE_LEN mc))[nat d := 1]
      else zeros (DESIRE_LEN mc))"

definition prev_of :: "ModelConstants \<Rightarrow> int list \<Rightarrow> ndarray" where
  "prev_of mc ds = (if ds = [] then zeros (DESIRE_LEN mc) else edge_vec mc (last ds))"

text \<open>No sample of the history is negative.\<close>

definition nonneg_rows :: "ndarray list \<Rightarrow> bool" where
  "nonneg_rows rows \<longleftrightarrow> list_all (list_all (\<lambda>x. 0 \<le> x)) rows"

definition pulse_inv :: "ModelConstants \<Rightarrow> ModelState \<Rightarrow> int list \<Rightarrow> bool" where
  "pulse_inv mc st ds \<longleftrightarrow>
     slot0_inv mc st \<and> prev_desire st = prev_of mc ds \<and> nonneg_rows (desire_20Hz st)"

section \<open>The vision streams\<close>

record FrameMeta =
  frame_id :: int
  timestamp_sof :: int
  timestamp_eof :: int

text \<open>\<^verbatim>\<open>FrameMeta()\<close> without a client: the class defaults.\<close>

definition FrameMeta_default :: FrameMeta where
  "FrameMeta_default = \<lparr> frame_id = 0, timestamp_sof = 0, timestamp_eof = 0 \<rparr>"

text \<open>
  The vision client is external. At its boundary it is a queue of what the successive
  calls of \<^verbatim>\<open>recv\<close> will return, a buffer with its metadata or \<^verbatim>\<open>None\<close> when no
  frame arrives in time (also once the queue is used up), together with the attributes
  \<^verbatim>\<open>frame_id\<close>, \<^verbatim>\<open>timestamp_sof\<close> and \<^verbatim>\<open>timestamp_eof\<close> of the client, which
  hold the metadata of the last frame received. \<^verbatim>\<open>FrameMeta(client)\<close> copies them.
\<close>

record 'b VisionIpcClient =
  pending :: "('b \<times> FrameMeta) option list"
  attrs :: FrameMeta

definition recv :: "'b VisionIpcClient \<Rightarrow> 'b option \<times> 'b VisionIpcClient" where
  "recv c =
     (case pending c of
        [] \<Rightarrow> (None, c)
      | None # q \<Rightarrow> (None, c\<lparr>pending := q\<rparr>)
      | Some (b, m) # q \<Rightarrow> (Some b, c\<lparr>pending := q, attrs := m\<rparr>))"

text \<open>
  Lines 239 to 243: receive main frames until one is at least 25 ms ahead of the previous
  extra frame, or none arrives.
\<close>

function recv_main ::
  "FrameMeta \<Rightarrow> 'b option \<times> FrameMeta \<times> 'b VisionIpcClient
     \<Rightarrow> 'b option \<times> FrameMeta \<times> 'b VisionIpcClient" where
  "recv_main meta_extra (buf_main, meta_main, c) =
     (if timestamp_sof meta_main < timestamp_sof meta_extra + 25000000
      then (case recv c of
              (None, c') \<Rightarrow> (None, attrs c', c')
            | (Some b, c') \<Rightarrow> recv_main meta_extra (Some b, attrs c', c'))
      else (buf_main, meta_main, c))"
  by pat_completeness auto
termination
  by (relation "measure (\<lambda>(me, b, m, c). length (pending c))")
     (auto simp: recv_def split: list.splits option.splits)

declare recv_main.simps [simp del]

text \<open>
  Lines 251 to 255: receive extra frames until one is less than 25 ms behind the main
  frame, or none arrives.
\<close>

function recv_extra ::
  "FrameMeta \<Rightarrow> 'b VisionIpcClient \<Rightarrow> 'b option \<times> FrameMeta \<times> 'b VisionIpcClient" where
  "recv_extra meta_main c =
     (case recv c of
        (None, c') \<Rightarrow> (None, attrs c', c')
      | (Some b, c') \<Rightarrow>
          if timestamp_sof meta_main < timestamp_sof (attrs c') + 25000000
          then (Some b, attrs c', c')
          else recv_extra meta_main c')"
  by pat_completeness auto
termination
  by (relation "measure (\<lambda>(m, c). length (pending c))")
     (auto simp: recv_def split: list.splits option.splits)

declare recv_extra.simps [simp del]

section \<open>The state of the main loop and what it emits\<close>

text \<open>
  The messages handed to the publisher carry what \<^verbatim>\<open>fill_model_msg\<close> and
  \<^verbatim>\<open>fill_pose_msg\<close> are given, except the measured execution time. The lane-change
  helper is an external collaborator: the desire it holds is an input of each cycle and
  the state and direction it adds to the messages are left out.
\<close>

record model_msg =
  mm_model_output :: model_outputs
  mm_vipc_frame_id :: int
  mm_vipc_frame_id_extra :: int
  mm_frame_id :: int
  mm_frame_drop_ratio :: real
  mm_timestamp_eof :: int
  mm_live_calib_seen :: bool

record pose_msg =
  pm_model_output :: model_outputs
  pm_vipc_frame_id :: int
  pm_vipc_dropped_frames :: int
  pm_timestamp_eof :: int
  pm_live_calib_seen :: bool

datatype message = ModelV2 model_msg | DrivingModelData model_msg | CameraOdometry pose_msg

datatype event =
    MainNoFrame
  | ExtraNoFrame
  | FramesOutOfSync FrameMeta FrameMeta
  | SkippingModelEval int
  | Send message

record ('b, 't) main_state =
  model :: ModelState
  vipc_client_main :: "'b VisionIpcClient"
  vipc_client_extra :: "'b VisionIpcClient"
  frame_dropped_filter_x :: real
  last_vipc_frame_id :: int
  run_count :: nat
  model_transform_main :: 't
  model_transform_extra :: 't
  live_calib_seen :: bool
  nav_features :: ndarray
  nav_instructions :: ndarray
  buf_main :: "'b option"
  buf_extra :: "'b option"
  meta_main :: FrameMeta
  meta_extra :: FrameMeta
  events :: "event list"

text \<open>
  Lines 237 to 268. The result says whether the cycle goes on with the pair of frames
  (\<^verbatim>\<open>continue\<close> restarts the loop otherwise).
\<close>

definition await_frames :: "bool \<Rightarrow> ('b, 't) main_state \<Rightarrow> bool \<times> ('b, 't) main_state" where
  "await_frames use_extra_client s =
     (case recv_main (meta_extra s) (buf_main s, meta_main s, vipc_client_main s) of
        (bm, mm, cm) \<Rightarrow>
          let s1 = s\<lparr>buf_main := bm, meta_main := mm, vipc_client_main := cm\<rparr> in
          if bm = None then (False, s1\<lparr>events := events s1 @ [MainNoFrame]\<rparr>)
          else if use_extra_client then
            (case recv_extra mm (vipc_client_extra s1) of
               (be, me, ce) \<Rightarrow>
                 let s2 = s1\<lparr>buf_extra := be, meta_extra := me, vipc_client_extra := ce\<rparr> in
                 if be = None then (False, s2\<lparr>events := events s2 @ [ExtraNoFrame]\<rparr>)
                 else if \<bar>timestamp_sof mm - timestamp_sof me\<bar> > 10000000
                 then (True, s2\<lparr>events := events s2 @ [FramesOutOfSync mm me]\<rparr>)
                 else (True, s2))
          else (True, s1\<lparr>buf_extra := bm, meta_extra := mm\<rparr>))"

section \<open>Encoding of the upstream signals\<close>

record maneuver =
  distance :: real
  modifier :: string

record track =
  dRel :: real
  yRel :: real
  vRel :: real

text \<open>
  What one \<^verbatim>\<open>sm.update(0)\<close> leaves to be read in the cycle. The warp matrices are
  computed by external code: \<open>calib\<close> holds them when \<^verbatim>\<open>liveCalibration\<close> was updated
  and \<^verbatim>\<open>roadCameraState\<close> and \<^verbatim>\<open>deviceState\<close> have been seen.
\<close>

record 't sm_snapshot =
  sm_desire :: int
  isRHD :: bool
  frameId :: int
  vEgo :: real
  calib :: "('t \<times> 't) option"
  navModel_valid :: bool
  navModel_updated :: bool
  navModel_features :: ndarray
  navInstruction_updated :: bool
  allManeuvers :: "maneuver list"
  liveTracks_updated :: bool
  liveTracks :: "track list"

text \<open>Python's \<^verbatim>\<open>int()\<close> of a float truncates towards zero.\<close>

definition py_int :: "real \<Rightarrow> int" where
  "py_int x = (if 0 \<le> x then \<lfloor>x\<rfloor> else \<lceil>x\<rceil>)"

text \<open>Lines 304 to 312: one slot of the grid per maneuver whose bucket is in range.\<close>

fun encode_maneuvers :: "ndarray \<Rightarrow> maneuver list \<Rightarrow> error + ndarray" where
  "encode_maneuvers ni [] = Inr ni"
| "encode_maneuvers ni (m # ms) =
     (let distance_idx = 25 + py_int (distance m / 20);
          direction_idx0 = (if modifier m \<in> set [''left'', ''slight left'', ''sharp left'']
                            then 1 else 0);
          direction_idx = (if modifier m \<in> set [''right'', ''slight right'', ''sharp right'']
                           then 2 else direction_idx0)
      in if 0 \<le> distance_idx \<and> distance_idx < 50
         then (if nat (distance_idx * 3 + direction_idx) < length ni
               then encode_maneuvers (ni[nat (distance_idx * 3 + direction_idx) := 1]) ms
               else Inl IndexError)
         else encode_maneuvers ni ms)"

text \<open>Lines 291 to 312. The result is the pair of navigation vectors after the cycle.\<close>

definition encode_nav ::
  "toggles \<Rightarrow> 't sm_snapshot \<Rightarrow> ndarray \<Rightarrow> ndarray \<Rightarrow> error + (ndarray \<times> ndarray)" where
  "encode_nav tg sm nf ni =
     (let nav_enabled = (navModel_valid sm \<and> \<not> DISABLE_NAV tg);
          nf1 = (if \<not> nav_enabled then zeros (length nf) else nf);
          ni1 = (if \<not> nav_enabled then zeros (length ni) else ni);
          nf2 = (if nav_enabled \<and> navModel_updated sm then navModel_features sm else nf1)
      in if nav_enabled \<and> navInstruction_updated sm
         then (case encode_maneuvers (zeros (length ni1)) (allManeuvers sm) of
                 Inl e \<Rightarrow> Inl e
               | Inr ni2 \<Rightarrow> Inr (nf2, ni2))
         else Inr (nf2, ni1))"

text \<open>
  Lines 314 to 320: the first \<^verbatim>\<open>RADAR_TRACKS_LEN\<close> tracks, three values each, written
  into slices of width \<^verbatim>\<open>RADAR_TRACKS_WIDTH\<close>.
\<close>

definition assign_slice :: "ndarray \<Rightarrow> nat \<Rightarrow> nat \<Rightarrow> ndarray \<Rightarrow> error + ndarray" where
  "assign_slice dest start width src =
     (let lo = min start (length dest); hi = min (start + width) (length dest) in
      case broadcast_to (hi - lo) src of
        Inl e \<Rightarrow> Inl e
      | Inr v \<Rightarrow> Inr (take lo dest @ v @ drop hi dest))"

fun encode_tracks :: "ModelConstants \<Rightarrow> ndarray \<Rightarrow> nat \<Rightarrow> track list \<Rightarrow> error + ndarray" where
  "encode_tracks mc rt i [] = Inr rt"
| "encode_tracks mc rt i (t # ts) =
     (if i \<ge> RADAR_TRACKS_LEN mc then Inr rt
      else (case assign_slice rt (i * RADAR_TRACKS_WIDTH mc) (RADAR_TRACKS_WIDTH mc)
                   [dRel t, yRel t, vRel t] of
              Inl e \<Rightarrow> Inl e
            | Inr rt' \<Rightarrow> encode_tracks mc rt' (i + 1) ts))"

definition encode_radar :: "ModelConstants \<Rightarrow> 't sm_snapshot \<Rightarrow> error + ndarray" where
  "encode_radar mc sm =
     (let radar_tracks = zeros (RADAR_TRACKS_LEN mc * RADAR_TRACKS_WIDTH mc) in
      if liveTracks_updated sm then encode_tracks mc radar_tracks 0 (liveTracks sm)
      else Inr radar_tracks)"

section \<open>Tracking of dropped frames\<close>

text \<open>
  Modelled from the spec: \<^verbatim>\<open>FirstOrderFilter\<close> of \<^verbatim>\<open>common/filter_simple.py\<close> is
  not among the sources. The spec describes a first-order low-pass filter (exponential
  smoothing) with a time constant of about 10 s at the cycle rate; line 207 constructs
  it with initial state 0, time constant 10 and step \<open>1 / MODEL_FREQ\<close>.
\<close>

definition filter_alpha :: "ModelConstants \<Rightarrow> real" where
  "filter_alpha mc = (1 / MODEL_FREQ mc) / (10 + 1 / MODEL_FREQ mc)"

definition filter_update :: "ModelConstants \<Rightarrow> real \<Rightarrow> real \<Rightarrow> real" where
  "filter_update mc x u = (1 - filter_alpha mc) * x + filter_alpha mc * u"

record drop_stats =
  vipc_dropped_frames :: int
  filter_x :: real
  new_run_count :: nat
  frame_drop_ratio :: real
  prepare_only :: bool

text \<open>
  Lines 323 to 331, from the id of the accepted main frame, the id of the last one, the
  state of the filter and the cycle counter. The division is a division of floats.
\<close>

definition track_dropped :: "ModelConstants \<Rightarrow> int \<Rightarrow> int \<Rightarrow> real \<Rightarrow> nat \<Rightarrow> error + drop_stats" where
  "track_dropped mc main_frame_id last_id x rc =
     (let dropped = max 0 (main_frame_id - last_id - 1);
          x1 = filter_update mc x (real_of_int (min dropped 10));
          x2 = (if rc < 10 then 0 else x1);
          frames_dropped = (if rc < 10 then 0 else x1)
      in if 1 + frames_dropped = 0 then Inl ZeroDivisionError
         else Inr \<lparr> vipc_dropped_frames = dropped, filter_x = x2, new_run_count = rc + 1,
                    frame_drop_ratio = frames_dropped / (1 + frames_dropped),
                    prepare_only = (dropped > 0) \<rparr>)"

text \<open>
  The tracking over a sequence of accepted main frames, given by their ids: the statistics
  of each cycle. \<open>no_gaps\<close> says that the raw dropped count is 0 at every cycle of the
  sequence, and \<open>decayed\<close> is the filter state after \<open>k\<close> such cycles.
\<close>

fun no_gaps :: "int \<Rightarrow> int list \<Rightarrow> bool" where
  "no_gaps last_id [] = True"
| "no_gaps last_id (f # fs) = (max 0 (f - last_id - 1) = 0 \<and> no_gaps f fs)"

fun drop_cycles :: "ModelConstants \<Rightarrow> real \<Rightarrow> int \<Rightarrow> nat \<Rightarrow> int list \<Rightarrow> error + drop_stats list" where
  "drop_cycles mc x last_id rc [] = Inr []"
| "drop_cycles mc x last_id rc (f # fs) =
     (case track_dropped mc f last_id x rc of
        Inl e \<Rightarrow> Inl e
      | Inr ds \<Rightarrow>
          (case drop_cycles mc (filter_x ds) f (new_run_count ds) fs of
             Inl e \<Rightarrow> Inl e
           | Inr r \<Rightarrow> Inr (ds # r)))"

definition decayed :: "ModelConstants \<Rightarrow> real \<Rightarrow> nat \<Rightarrow> nat \<Rightarrow> real" where
  "decayed mc x rc k = (if rc < 10 then 0 else (1 - filter_alpha mc) ^ k * x)"

section \<open>One cycle of main\<close>

text \<open>
  Lines 270 to 370, for a cycle that goes on with an accepted pair of frames. The steering
  delay is fixed at start-up from \<^verbatim>\<open>CarParams\<close>.
\<close>

definition publish ::
  "('b, 't) main_state \<Rightarrow> int \<Rightarrow> drop_stats \<Rightarrow> bool \<Rightarrow> model_outputs option \<Rightarrow> event list" where
  "publish s sm_frame_id ds calib_seen model_output =
     (case model_output of
        None \<Rightarrow> []
      | Some out \<Rightarrow>
          (let mm = \<lparr> mm_model_output = out,
                      mm_vipc_frame_id = frame_id (meta_main s),
                      mm_vipc_frame_id_extra = frame_id (meta_extra s),
                      mm_frame_id = sm_frame_id,
                      mm_frame_drop_ratio = frame_drop_ratio ds,
                      mm_timestamp_eof = timestamp_eof (meta_main s),
                      mm_live_calib_seen = calib_seen \<rparr>;
               pm = \<lparr> pm_model_output = out,
                      pm_vipc_frame_id = frame_id (meta_main s),
                      pm_vipc_dropped_frames = vipc_dropped_frames ds,
                      pm_timestamp_eof = timestamp_eof (meta_main s),
                      pm_live_calib_seen = calib_seen \<rparr>
           in [Send (ModelV2 mm), Send (DrivingModelData mm), Send (CameraOdometry pm)]))"

definition model_cycle ::
  "toggles \<Rightarrow> ModelConstants \<Rightarrow> ('b option, 't) engine \<Rightarrow> real \<Rightarrow> 't sm_snapshot
     \<Rightarrow> ('b, 't) main_state \<Rightarrow> error + ('b, 't) main_state" where
  "model_cycle tg mc execute steer_delay sm s =
     (let desire = sm_desire sm;
          is_rhd = isRHD sm;
          v_ego = max (vEgo sm) 0;
          lateral_control_params = [v_ego, steer_delay];
          tm = (case calib sm of None \<Rightarrow> model_transform_main s | Some (a, b) \<Rightarrow> a);
          te = (case calib sm of None \<Rightarrow> model_transform_extra s | Some (a, b) \<Rightarrow> b);
          seen = (case calib sm of None \<Rightarrow> live_calib_seen s | Some (a, b) \<Rightarrow> True);
          traffic_convention = (zeros 2)[(if is_rhd then 1 else 0) := 1];
          vec = vec_desire mc desire
      in
      case encode_nav tg sm (nav_features s) (nav_instructions s) of
        Inl e \<Rightarrow> Inl e
      | Inr (nf, ni) \<Rightarrow>
      (case encode_radar mc sm of
        Inl e \<Rightarrow> Inl e
      | Inr radar_tracks \<Rightarrow>
      (case track_dropped mc (frame_id (meta_main s)) (last_vipc_frame_id s)
              (frame_dropped_filter_x s) (run_count s) of
        Inl e \<Rightarrow> Inl e
      | Inr ds \<Rightarrow>
      (case run mc execute (model s) (buf_main s) (buf_extra s) tm te
              (cycle_inputs tg vec traffic_convention lateral_control_params nf ni radar_tracks)
              (prepare_only ds) of
        Inl e \<Rightarrow> Inl e
      | Inr (m', inp', model_output) \<Rightarrow>
          Inr (s\<lparr>model := m',
                  frame_dropped_filter_x := filter_x ds,
                  last_vipc_frame_id := frame_id (meta_main s),
                  run_count := new_run_count ds,
                  model_transform_main := tm,
                  model_transform_extra := te,
                  live_calib_seen := seen,
                  nav_features := nf,
                  nav_instructions := ni,
                  events := events s
                    @ (if prepare_only ds then [SkippingModelEval (vipc_dropped_frames ds)] else [])
                    @ publish s (frameId sm) ds seen model_output\<rparr>)))))"

text \<open>One iteration of the \<^verbatim>\<open>while True\<close> loop, and one iteration per snapshot of a list.\<close>

definition main_iteration ::
  "toggles \<Rightarrow> ModelConstants \<Rightarrow> ('b option, 't) engine \<Rightarrow> real \<Rightarrow> bool \<Rightarrow> 't sm_snapshot
     \<Rightarrow> ('b, 't) main_state \<Rightarrow> error + ('b, 't) main_state" where
  "main_iteration tg mc execute steer_delay use_extra_client sm s =
     (case await_frames use_extra_client s of
        (False, s') \<Rightarrow> Inr s'
      | (True, s') \<Rightarrow> model_cycle tg mc execute steer_delay sm s')"

fun main_iterations ::
  "toggles \<Rightarrow> ModelConstants \<Rightarrow> ('b option, 't) engine \<Rightarrow> real \<Rightarrow> bool \<Rightarrow> 't sm_snapshot list
     \<Rightarrow> ('b, 't) main_state \<Rightarrow> error + ('b, 't) main_state" where
  "main_iterations tg mc execute steer_delay use_extra_client [] s = Inr s"
| "main_iterations tg mc execute steer_delay use_extra_client (sm # sms) s =
     (case main_iteration tg mc execute steer_delay use_extra_client sm s of
        Inl e \<Rightarrow> Inl e
      | Inr s' \<Rightarrow> main_iterations tg mc execute steer_delay use_extra_client sms s')"

text \<open>
  The values of the constants that the literals of \<^verbatim>\<open>main\<close> fit: vectors of two
  entries for the traffic convention and the lateral control parameters, three values per
  radar track, a navigation grid of 50 buckets by 3 directions, a positive model rate.
\<close>

definition consistent_main :: "toggles \<Rightarrow> ModelConstants \<Rightarrow> bool" where
  "consistent_main tg mc \<longleftrightarrow>
     consistent tg mc \<and> TRAFFIC_CONVENTION_LEN mc = 2 \<and> LATERAL_CONTROL_PARAMS_LEN mc = 2 \<and>
     RADAR_TRACKS_WIDTH mc = 3 \<and> 150 \<le> NAV_INSTRUCTION_LEN mc \<and> 0 < MODEL_FREQ mc"

definition wf_main :: "ModelConstants \<Rightarrow> ('b, 't) main_state \<Rightarrow> bool" where
  "wf_main mc s \<longleftrightarrow>
     wf_state mc (model s) \<and> 0 \<le> frame_dropped_filter_x s \<and>
     length (nav_instructions s) = NAV_INSTRUCTION_LEN mc"

text \<open>
  What a cycle on the main frame with id \<open>fid\<close> does between two states, when it
  publishes and when it only prepares. A publishing cycle sends the three messages for
  that frame and appends the hidden state it sent to the feature history. A skipping
  cycle logs the number \<open>n\<close> of dropped frames and sends nothing; the feature and
  curvature histories and the two inputs built from them stay as they are.
\<close>

definition published :: "('b, 't) main_state \<Rightarrow> ('b, 't) main_state \<Rightarrow> int \<Rightarrow> bool" where
  "published s s' fid \<longleftrightarrow>
     (\<exists>mm pm.
        events s' = events s @ [Send (ModelV2 mm), Send (DrivingModelData mm), Send (CameraOdometry pm)] \<and>
        mm_vipc_frame_id mm = fid \<and> pm_vipc_frame_id pm = fid \<and>
        pm_vipc_dropped_frames pm = 0 \<and> pm_model_output pm = mm_model_output mm \<and>
        full_features_20Hz (model s') =
          tl (full_features_20Hz (model s)) @ [hidden_state (mm_model_output mm)])"

definition skipped :: "('b, 't) main_state \<Rightarrow> ('b, 't) main_state \<Rightarrow> int \<Rightarrow> bool" where
  "skipped s s' n \<longleftrightarrow>
     events s' = events s @ [SkippingModelEval n] \<and>
     full_features_20Hz (model s') = full_features_20Hz (model s) \<and>
     prev_desired_curv_20hz (model s') = prev_desired_curv_20hz (model s) \<and>
     map_of (inputs (model s')) ''features_buffer'' = map_of (inputs (model s)) ''features_buffer'' \<and>
     map_of (inputs (model s')) ''prev_desired_curv'' = map_of (inputs (model s)) ''prev_desired_curv''"

text \<open>
  What every cycle, publishing or not, does to the buffers on the input side, from the
  snapshot \<open>sm\<close> it reads: \<^verbatim>\<open>prev_desire\<close> becomes the cleared desire vector, the
  desire history takes the pulse, and the bound \<^verbatim>\<open>desire\<close>,
  \<^verbatim>\<open>traffic_convention\<close> and \<^verbatim>\<open>lateral_control_params\<close> inputs are rewritten.
\<close>

definition encoded ::
  "ModelConstants \<Rightarrow> real \<Rightarrow> 't sm_snapshot \<Rightarrow> ('b, 't) main_state \<Rightarrow> ('b, 't) main_state \<Rightarrow> bool" where
  "encoded mc steer_delay sm s s' \<longleftrightarrow>
     prev_desire (model s') = (vec_desire mc (sm_desire sm))[0 := 0] \<and>
     desire_20Hz (model s') =
       tl (desire_20Hz (model s))
         @ [pulse ((vec_desire mc (sm_desire sm))[0 := 0]) (prev_desire (model s))] \<and>
     map_of (inputs (model s')) ''desire'' =
       Some (pool_rows (desire_20Hz (model s')) (DESIRE_LEN mc)) \<and>
     map_of (inputs (model s')) ''traffic_convention'' =
       Some ((zeros 2)[(if isRHD sm then 1 else 0) := 1]) \<and>
     map_of (inputs (model s')) ''lateral_control_params'' = Some [max (vEgo sm) 0, steer_delay]"

text \<open>The effect of a cycle on the main frame with id \<open>fid\<close>, by the gap before it.\<close>

definition cycle_effect ::
  "ModelConstants \<Rightarrow> real \<Rightarrow> 't sm_snapshot \<Rightarrow> ('b, 't) main_state \<Rightarrow> ('b, 't) main_state
     \<Rightarrow> int \<Rightarrow> bool" where
  "cycle_effect mc steer_delay sm s s' fid \<longleftrightarrow>
     encoded mc steer_delay sm s s' \<and>
     (if 0 < fid - last_vipc_frame_id s - 1
      then skipped s s' (fid - last_vipc_frame_id s - 1)
      else published s s' fid)"

text \<open>The state in which \<^verbatim>\<open>main\<close> enters its loop (lines 206 to 219).\<close>

definition main_init ::
  "toggles \<Rightarrow> ModelConstants \<Rightarrow> 't \<Rightarrow> 'b VisionIpcClient \<Rightarrow> 'b VisionIpcClient
     \<Rightarrow> ('b, 't) main_state" where
  "main_init tg mc zero_transform cm ce =
     \<lparr> model = ModelState_init tg mc,
       vipc_client_main = cm,
       vipc_client_extra = ce,
       frame_dropped_filter_x = 0,
       last_vipc_frame_id = 0,
       run_count = 0,
       model_transform_main = zero_transform,
       model_transform_extra = zero_transform,
       live_calib_seen = False,
       nav_features = zeros (NAV_FEATURE_LEN mc),
       nav_instructions = zeros (NAV_INSTRUCTION_LEN mc),
       buf_main = None,
       buf_extra = None,
       meta_main = FrameMeta_default,
       meta_extra = FrameMeta_default,
       events = [] \<rparr>"

text \<open>
  A configuration with every auxiliary channel enabled (no toggle set), and the values
  the constants have upstream, used to evaluate the definitions on concrete inputs.
\<close>

definition all_enabled :: toggles where
  "all_enabled =
     \<lparr> DISABLE_NAV = False, DISABLE_POSE = False, DISABLE_RADAR = False,
       GAS_BRAKE = False, SECRET_GOOD_OPENPILOT = False, USE_VELOCITY = False \<rparr>"

definition upstream_constants :: ModelConstants where
  "upstream_constants =
     \<lparr> DESIRE_LEN = 8, FEATURE_LEN = 512, FULL_HISTORY_BUFFER_LEN = 99,
       HISTORY_BUFFER_LEN = 24, HISTORY_BUFFER_LEN_SECRET = 99,
       PREV_DESIRED_CURV_LEN = 1, TRAFFIC_CONVENTION_LEN = 2,
       LATERAL_CONTROL_PARAMS_LEN = 2, NAV_FEATURE_LEN = 256,
       NAV_INSTRUCTION_LEN = 150, RADAR_TRACKS_LEN = 16, RADAR_TRACKS_WIDTH = 3,
       MODEL_FREQ = 20 \<rparr>"

text \<open>
  An engine with constant outputs of the right widths, and a call as \<^verbatim>\<open>main\<close>
  makes it: left-hand traffic, speed 0 with a steering delay of 0.2 s, no navigation or
  radar data.
\<close>

definition example_engine :: "ModelConstants \<Rightarrow> ('b, 't) engine" where
  "example_engine mc buf transform wbuf transform_wide ins =
     \<lparr> hidden_state = replicate (FEATURE_LEN mc) 1,
       desired_curvature = replicate (PREV_DESIRED_CURV_LEN mc) 1 \<rparr>"

definition example_call :: "int \<Rightarrow> bool \<Rightarrow> (unit, unit) call" where
  "example_call desire po =
     \<lparr> c_buf = (), c_wbuf = (), c_transform = (), c_transform_wide = (),
       c_inputs = cycle_inputs all_enabled (vec_desire upstream_constants desire)
                    [1, 0] [0, 1 / 5] (zeros 256) (zeros 150) (zeros 48),
       c_prepare_only = po \<rparr>"

text \<open>
  A snapshot of the upstream topics in which only a navigation instruction was updated,
  with the given maneuvers.
\<close>

definition example_sm :: "maneuver list \<Rightarrow> unit sm_snapshot" where
  "example_sm ms =
     \<lparr> sm_desire = 0, isRHD = False, frameId = 0, vEgo = 0, calib = None,
       navModel_valid = True, navModel_updated = False, navModel_features = [],
       navInstruction_updated = True, allManeuvers = ms,
       liveTracks_updated = False, liveTracks = [] \<rparr>"

text \<open>
  Two streams with one frame each, buffers numbered 1 and 2: the main frame starts at
  100 ms, the extra frame at the given time.
\<close>

definition example_frame :: "int \<Rightarrow> int \<Rightarrow> FrameMeta" where
  "example_frame fid sof = \<lparr> frame_id = fid, timestamp_sof = sof, timestamp_eof = sof + 500000 \<rparr>"

definition example_pair :: "int \<Rightarrow> (nat, unit) main_state" where
  "example_pair extra_sof =
     main_init all_enabled upstream_constants ()
       \<lparr> pending = [Some (1, example_frame 7 100000000)], attrs = FrameMeta_default \<rparr>
       \<lparr> pending = [Some (2, example_frame 7 extra_sof)], attrs = FrameMeta_default \<rparr>"

text \<open>
  A single-camera process after its warm-up, whose main stream holds five frames 50 ms
  apart (the fourth after a gap of two frames), with ids 100, 101, 102, 105 and 106.
\<close>

definition example_stream :: "(nat, unit) main_state" where
  "example_stream =
     (main_init all_enabled upstream_constants ()
        \<lparr> pending = [Some (1, example_frame 100 50000000), Some (2, example_frame 101 100000000),
                     Some (3, example_frame 102 150000000), Some (4, example_frame 105 300000000),
                     Some (5, example_frame 106 350000000)],
          attrs = FrameMeta_default \<rparr>
        \<lparr> pending = [], attrs = FrameMeta_default \<rparr>)
     \<lparr> run_count := 10 \<rparr>"

text \<open>
  The example snapshot without maneuvers, with the given maneuver index as its desire, for
  a cycle in which a desire sets in.
\<close>

definition example_desire :: "int \<Rightarrow> unit sm_snapshot" where
  "example_desire d = (example_sm [])\<lparr> sm_desire := d \<rparr>"

text \<open>The state a call leaves, when it returns; and the result of a run, when there is one.\<close>

definition final :: "error + 'a \<Rightarrow> 'a option" where
  "final r = (case r of Inl e \<Rightarrow> None | Inr s \<Rightarrow> Some s)"


definition result_state :: "error + (ModelState \<times> 'a) \<Rightarrow> ModelState option" where
  "result_state r = (case r of Inl e \<Rightarrow> None | Inr (st, x) \<Rightarrow> Some st)"

section \<open>Keys of the input mappings\<close>

lemma init_inputs_keys:
  "map fst (init_inputs tg mc) =
     [''desire'', ''traffic_convention'', ''lateral_control_params'', ''prev_desired_curv'']
     @ (if \<not> DISABLE_NAV tg then [''nav_features'', ''nav_instructions''] else [])
     @ [''features_buffer'']
     @ (if DISABLE_RADAR tg then [''radar_tracks''] else [])"
  by (simp add: init_inputs_def)

lemma cycle_inputs_keys:
  "map fst (cycle_inputs tg d tc lcp nf ni rt) =
     [''desire'', ''traffic_convention'', ''lateral_control_params'']
     @ (if \<not> DISABLE_NAV tg then [''nav_features'', ''nav_instructions''] else [])
     @ (if DISABLE_RADAR tg then [''radar_tracks''] else [])"
  by (simp add: cycle_inputs_def)

lemma nav_keys_iff:
  "(''nav_features'' \<in> set (map fst (init_inputs tg mc)) \<longleftrightarrow> \<not> DISABLE_NAV tg) \<and>
   (''nav_instructions'' \<in> set (map fst (init_inputs tg mc)) \<longleftrightarrow> \<not> DISABLE_NAV tg) \<and>
   (''nav_features'' \<in> set (map fst (cycle_inputs tg d tc lcp nf ni rt)) \<longleftrightarrow> \<not> DISABLE_NAV tg) \<and>
   (''nav_instructions'' \<in> set (map fst (cycle_inputs tg d tc lcp nf ni rt)) \<longleftrightarrow> \<not> DISABLE_NAV tg)"
  unfolding init_inputs_keys cycle_inputs_keys by simp

lemma radar_key_iff:
  "(''radar_tracks'' \<in> set (map fst (init_inputs tg mc)) \<longleftrightarrow> DISABLE_RADAR tg) \<and>
   (''radar_tracks'' \<in> set (map fst (cycle_inputs tg d tc lcp nf ni rt)) \<longleftrightarrow> DISABLE_RADAR tg)"
  unfolding init_inputs_keys cycle_inputs_keys by simp

text \<open>
  Claim C1. A disabled auxiliary channel is an absent key: the key \<^verbatim>\<open>radar_tracks\<close>
  should be present in the frozen input set and in the per-cycle dict exactly when radar
  is enabled. Evaluated on the configuration with radar enabled
  (\<^verbatim>\<open>DISABLE_RADAR = False\<close>), the code leaves the key out of both mappings, while
  the navigation keys, guarded by \<^verbatim>\<open>not DISABLE_NAV\<close>, are present.
\<close>

theorem radar_enabled_key_absent:
  "\<not> DISABLE_RADAR all_enabled \<and>
   map fst (inputs (ModelState_init all_enabled upstream_constants)) =
     [''desire'', ''traffic_convention'', ''lateral_control_params'', ''prev_desired_curv'',
      ''nav_features'', ''nav_instructions'', ''features_buffer''] \<and>
   map fst (cycle_inputs all_enabled d tc lcp nf ni rt) =
     [''desire'', ''traffic_convention'', ''lateral_control_params'',
      ''nav_features'', ''nav_instructions'']"
  by (simp add: ModelState_init_def init_inputs_keys cycle_inputs_keys all_enabled_def)

section \<open>Lemmas on the array operations and on run\<close>

subsection \<open>Arrays of uniform rows\<close>

lemma broadcast_to_same: "length src = n \<Longrightarrow> broadcast_to n src = Inr src"
  by (simp add: broadcast_to_def)

lemma concat_nth_uniform:
  "list_all (\<lambda>x. length x = w) rows \<Longrightarrow> i < length rows \<Longrightarrow> j < w \<Longrightarrow>
   concat rows ! (i * w + j) = rows ! i ! j"
proof (induction rows arbitrary: i)
  case Nil then show ?case by simp
next
  case (Cons r rows)
  show ?case
  proof (cases i)
    case 0 with Cons.prems show ?thesis by (simp add: nth_append)
  next
    case (Suc k)
    with Cons.prems have "concat rows ! (k * w + j) = rows ! k ! j"
      using Cons.IH[of k] by simp
    with Suc Cons.prems show ?thesis by (simp add: nth_append add.assoc)
  qed
qed

lemma length_concat_uniform:
  "list_all (\<lambda>x. length x = w) rows \<Longrightarrow> length (concat rows) = length rows * w"
  by (induction rows) auto

lemma shapeD: "shape rows r c \<Longrightarrow> length rows = r \<and> list_all (\<lambda>x. length x = c) rows"
  by (simp add: shape_def)

subsection \<open>Pooling a history of 100 rows\<close>

text \<open>On 100 rows of width \<open>w\<close> the reshape groups whole rows, four at a time.\<close>

lemma pool_desire_shape:
  assumes sh: "shape rows 100 w" and w: "0 < w"
  shows "pool_desire rows = Inr (pool_rows rows w)"
proof -
  from sh have len: "length rows = 100" and un: "list_all (\<lambda>x. length x = w) rows"
    by (simp_all add: shape_def)
  have n: "length (concat rows) = 100 * w"
    using length_concat_uniform[OF un] len by simp
  have cell: "concat rows ! (i * w + j) = rows ! i ! j" if "i < 100" "j < w" for i j
    using concat_nth_uniform[OF un, of i j] that len by simp
  have grp: "map (\<lambda>j. max4 (concat rows ! ((4 * g) * w + j)) (concat rows ! ((4 * g + 1) * w + j))
                    (concat rows ! ((4 * g + 2) * w + j)) (concat rows ! ((4 * g + 3) * w + j))) [0..<w]
           = map (\<lambda>j. max4 (rows ! (4 * g) ! j) (rows ! (4 * g + 1) ! j)
                    (rows ! (4 * g + 2) ! j) (rows ! (4 * g + 3) ! j)) [0..<w]"
    if "g < 25" for g
  proof (rule map_cong[OF refl])
    fix j assume "j \<in> set [0..<w]"
    then have j: "j < w" by simp
    have c0: "concat rows ! ((4 * g) * w + j) = rows ! (4 * g) ! j"
      by (rule cell) (use that j in simp_all)
    have c1: "concat rows ! ((4 * g + 1) * w + j) = rows ! (4 * g + 1) ! j"
      by (rule cell) (use that j in simp_all)
    have c2: "concat rows ! ((4 * g + 2) * w + j) = rows ! (4 * g + 2) ! j"
      by (rule cell) (use that j in simp_all)
    have c3: "concat rows ! ((4 * g + 3) * w + j) = rows ! (4 * g + 3) ! j"
      by (rule cell) (use that j in simp_all)
    show "max4 (concat rows ! ((4 * g) * w + j)) (concat rows ! ((4 * g + 1) * w + j))
                    (concat rows ! ((4 * g + 2) * w + j)) (concat rows ! ((4 * g + 3) * w + j))
             = max4 (rows ! (4 * g) ! j) (rows ! (4 * g + 1) ! j)
                    (rows ! (4 * g + 2) ! j) (rows ! (4 * g + 3) ! j)"
      by (simp only: c0 c1 c2 c3)
  qed
  have "map (\<lambda>g. map (\<lambda>j. max4 (concat rows ! ((4 * g) * w + j)) (concat rows ! ((4 * g + 1) * w + j))
                    (concat rows ! ((4 * g + 2) * w + j)) (concat rows ! ((4 * g + 3) * w + j))) [0..<w]) [0..<25]
      = map (\<lambda>g. map (\<lambda>j. max4 (rows ! (4 * g) ! j) (rows ! (4 * g + 1) ! j)
                    (rows ! (4 * g + 2) ! j) (rows ! (4 * g + 3) ! j)) [0..<w]) [0..<25]"
    by (rule map_cong[OF refl]) (use grp in simp)
  note meq = this
  have nz: "\<not> (length (concat rows) = 0 \<or> length (concat rows) mod 100 \<noteq> 0)"
    using n w by simp
  have dv: "length (concat rows) div 100 = w" using n by simp
  show ?thesis
    unfolding pool_desire_def pool_rows_def Let_def by (simp only: nz dv if_False meq)
qed

lemma length_pool_rows: "length (pool_rows rows w) = 25 * w"
proof -
  have "list_all (\<lambda>x. length x = w) (map (\<lambda>g. map (\<lambda>j.
        max4 (rows ! (4 * g) ! j) (rows ! (4 * g + 1) ! j)
             (rows ! (4 * g + 2) ! j) (rows ! (4 * g + 3) ! j)) [0..<w]) [0..<25])"
    by (simp add: list_all_iff)
  from length_concat_uniform[OF this] show ?thesis by (simp add: pool_rows_def)
qed

lemma pool_rows_nth:
  assumes "g < 25" "j < w"
  shows "pool_rows rows w ! (g * w + j) =
         max4 (rows ! (4 * g) ! j) (rows ! (4 * g + 1) ! j)
              (rows ! (4 * g + 2) ! j) (rows ! (4 * g + 3) ! j)"
proof -
  let ?f = "\<lambda>g. map (\<lambda>j. max4 (rows ! (4 * g) ! j) (rows ! (4 * g + 1) ! j)
             (rows ! (4 * g + 2) ! j) (rows ! (4 * g + 3) ! j)) [0..<w]"
  have un: "list_all (\<lambda>x. length x = w) (map ?f [0..<25])"
    by (simp add: list_all_iff)
  have "concat (map ?f [0..<25]) ! (g * w + j) = map ?f [0..<25] ! g ! j"
    using concat_nth_uniform[OF un, of g j] assms by simp
  also have "\<dots> = ?f g ! j" using assms by simp
  also have "\<dots> = max4 (rows ! (4 * g) ! j) (rows ! (4 * g + 1) ! j)
              (rows ! (4 * g + 2) ! j) (rows ! (4 * g + 3) ! j)"
    using assms by simp
  finally show ?thesis by (simp add: pool_rows_def)
qed

subsection \<open>The desire part of run never fails on the allocated shapes\<close>

lemma roll_shape:
  assumes "shape rows (Suc r) c" "length v = c"
  shows "roll rows v = Inr (tl rows @ [v])" "shape (tl rows @ [v]) (Suc r) c"
  using assms by (cases rows; simp add: roll_def shape_def broadcast_to_def)+

lemma rising_edge_same:
  "length d = length prev \<Longrightarrow> rising_edge d prev = Inr (pulse d prev)"
  by (simp add: rising_edge_def pulse_def)

lemma length_pulse: "length d = length prev \<Longrightarrow> length (pulse d prev) = length prev"
  by (simp add: pulse_def)

lemma has_lenD: "has_len d k n \<Longrightarrow> \<exists>v. map_of d k = Some v \<and> length v = n"
  by (auto simp: has_len_def split: option.splits)

lemma dict_assign_len:
  "has_len d k n \<Longrightarrow> length src = n \<Longrightarrow> dict_assign d k src = Inr (AList.update k src d)"
  by (auto simp: has_len_def dict_assign_def broadcast_to_def split: option.splits)

lemma has_len_update:
  "has_len (AList.update k v d) k' n \<longleftrightarrow> (if k' = k then length v = n else has_len d k' n)"
  by (simp add: has_len_def update_conv')

lemma run_desire_wf:
  assumes wf: "wf_state mc st" and D: "0 < DESIRE_LEN mc"
    and d0: "map_of inp ''desire'' = Some d0" and len: "length d0 = DESIRE_LEN mc"
  shows "run_desire st inp =
         Inr (st\<lparr>prev_desire := d0[0 := 0],
                desire_20Hz := tl (desire_20Hz st) @ [pulse (d0[0 := 0]) (prev_desire st)],
                inputs := AList.update ''desire''
                  (pool_rows (tl (desire_20Hz st) @ [pulse (d0[0 := 0]) (prev_desire st)]) (DESIRE_LEN mc))
                  (inputs st)\<rparr>,
              AList.update ''desire'' (d0[0 := 0]) inp,
              pulse (d0[0 := 0]) (prev_desire st))"
proof -
  let ?d = "d0[0 := 0]" let ?p = "pulse ?d (prev_desire st)"
  let ?h = "tl (desire_20Hz st) @ [?p]"
  from wf have lp: "length (prev_desire st) = DESIRE_LEN mc"
    and sh: "shape (desire_20Hz st) (Suc 99) (DESIRE_LEN mc)"
    and hl: "has_len (inputs st) ''desire'' (25 * DESIRE_LEN mc)"
    by (simp_all add: wf_state_def)
  have ne: "d0 \<noteq> []" using len D by auto
  have re: "rising_edge ?d (prev_desire st) = Inr ?p"
    by (rule rising_edge_same) (simp add: len lp)
  have bc: "broadcast_to (length (prev_desire st)) ?d = Inr ?d"
    by (rule broadcast_to_same) (simp add: len lp)
  have lpul: "length ?p = DESIRE_LEN mc" using length_pulse[of ?d "prev_desire st"] len lp by simp
  have ro: "roll (desire_20Hz st) ?p = Inr ?h" and sh': "shape ?h 100 (DESIRE_LEN mc)"
    using roll_shape[OF sh lpul] by simp_all
  have po: "pool_desire ?h = Inr (pool_rows ?h (DESIRE_LEN mc))"
    by (rule pool_desire_shape[OF sh' D])
  have da: "dict_assign (inputs st) ''desire'' (pool_rows ?h (DESIRE_LEN mc))
            = Inr (AList.update ''desire'' (pool_rows ?h (DESIRE_LEN mc)) (inputs st))"
    by (rule dict_assign_len[OF hl]) (simp add: length_pool_rows)
  show ?thesis
    unfolding run_desire_def by (simp add: d0 ne re bc ro po da Let_def)
qed

subsection \<open>The strided selection and the update after execution\<close>

lemma idxs_eval: "idxs = map (\<lambda>k. int (4 * k + 3) - 99) [0..<24]"
  unfolding idxs_def by (simp add: upt_rec numeral_eq_Suc)

lemma row_at_neg:
  assumes "length rows = 99" "k < 24"
  shows "row_at rows (int (4 * k + 3) - 99) = Inr (rows ! (4 * k + 3))"
proof -
  have "nat (3 + 4 * int k) = 4 * k + 3" by linarith
  with assms show ?thesis by (simp add: row_at_def Let_def)
qed

lemma take_rows_map:
  "(\<And>k. k \<in> set ks \<Longrightarrow> row_at rows (f k) = Inr (rows ! g k)) \<Longrightarrow>
   take_rows rows (map f ks) = Inr (map (\<lambda>k. rows ! g k) ks)"
  by (induction ks) simp_all

lemma take_rows_idxs:
  assumes "length rows = 99"
  shows "take_rows rows idxs = Inr (map (\<lambda>k. rows ! (4 * k + 3)) [0..<24])"
  unfolding idxs_eval
  by (rule take_rows_map) (use assms in \<open>simp add: row_at_neg del: of_nat_add of_nat_mult\<close>)

lemma has_len_map_of: "map_of d k = Some v \<Longrightarrow> has_len d k (length v)"
  by (simp add: has_len_def)

lemma run_copy_wf:
  assumes tc: "has_len (inputs st) ''traffic_convention'' n1"
    and lcp: "has_len (inputs st) ''lateral_control_params'' n2"
    and itc: "map_of inp ''traffic_convention'' = Some tc" "length tc = n1"
    and ilcp: "map_of inp ''lateral_control_params'' = Some lcp" "length lcp = n2"
  shows "run_copy st inp =
         Inr (st\<lparr>inputs := AList.update ''lateral_control_params'' lcp
                    (AList.update ''traffic_convention'' tc (inputs st))\<rparr>)"
proof -
  have a1: "dict_assign (inputs st) ''traffic_convention'' tc
            = Inr (AList.update ''traffic_convention'' tc (inputs st))"
    by (rule dict_assign_len[OF tc itc(2)])
  have "has_len (AList.update ''traffic_convention'' tc (inputs st)) ''lateral_control_params'' n2"
    using lcp by (simp add: has_len_update)
  from dict_assign_len[OF this ilcp(2)]
  have a2: "dict_assign (AList.update ''traffic_convention'' tc (inputs st)) ''lateral_control_params'' lcp
            = Inr (AList.update ''lateral_control_params'' lcp
                    (AList.update ''traffic_convention'' tc (inputs st)))" .
  show ?thesis unfolding run_copy_def by (simp add: itc ilcp a1 a2)
qed

lemma assign_tail_zero:
  assumes "length dest = p * (h + 1)" "length c = p"
  shows "assign_tail dest p (map (\<lambda>x. 0 * x) c) = Inr (take (p * h) dest @ zeros p)"
proof (cases "p = 0")
  case True
  with assms show ?thesis by (simp add: assign_tail_def broadcast_to_def zeros_def)
next
  case False
  have z: "map (\<lambda>x. 0 * x) c = zeros p"
    using assms(2) by (simp add: zeros_def map_replicate_const)
  have b: "broadcast_to p (zeros p) = Inr (zeros p)"
    by (simp add: broadcast_to_def zeros_def)
  have m: "(if p = 0 then length dest else min p (length dest)) = p"
    using False assms(1) by simp
  have t: "length dest - p = p * h" using assms(1) by simp
  show ?thesis
    unfolding assign_tail_def Let_def z m by (simp add: b t)
qed

lemma row_at_m4: "length rows = 100 \<Longrightarrow> row_at rows (- 4) = Inr (rows ! 96)"
  by (simp add: row_at_def Let_def)

lemma shape_nth: "shape rows r c \<Longrightarrow> i < r \<Longrightarrow> length (rows ! i) = c"
  by (auto simp: shape_def list_all_length)

lemma length_strided:
  assumes "shape rows 99 c"
  shows "length (strided rows) = 24 * c"
proof -
  have "list_all (\<lambda>x. length x = c) (map (\<lambda>k. rows ! (4 * k + 3)) [0..<24])"
    using shape_nth[OF assms] by (simp add: list_all_iff)
  from length_concat_uniform[OF this] show ?thesis by (simp add: strided_def)
qed

lemma run_update_wf:
  assumes wf: "wf_state mc st"
    and h: "length (hidden_state out) = FEATURE_LEN mc"
    and c: "length (desired_curvature out) = PREV_DESIRED_CURV_LEN mc"
    and pdc: "map_of (inputs st) ''prev_desired_curv'' = Some pdc"
  shows "run_update mc st out =
         Inr (st\<lparr>full_features_20Hz := tl (full_features_20Hz st) @ [hidden_state out],
                prev_desired_curv_20hz := tl (prev_desired_curv_20hz st) @ [desired_curvature out],
                inputs := AList.update ''prev_desired_curv''
                  (take (PREV_DESIRED_CURV_LEN mc * HISTORY_BUFFER_LEN mc) pdc
                     @ zeros (PREV_DESIRED_CURV_LEN mc))
                  (AList.update ''features_buffer''
                     (strided (tl (full_features_20Hz st) @ [hidden_state out])) (inputs st))\<rparr>)"
proof -
  let ?f = "tl (full_features_20Hz st) @ [hidden_state out]"
  let ?c = "tl (prev_desired_curv_20hz st) @ [desired_curvature out]"
  from wf have shf: "shape (full_features_20Hz st) (Suc 98) (FEATURE_LEN mc)"
    and shc: "shape (prev_desired_curv_20hz st) (Suc 99) (PREV_DESIRED_CURV_LEN mc)"
    and hf: "has_len (inputs st) ''features_buffer'' (24 * FEATURE_LEN mc)"
    and hp: "has_len (inputs st) ''prev_desired_curv''
               (PREV_DESIRED_CURV_LEN mc * (HISTORY_BUFFER_LEN mc + 1))"
    by (simp_all add: wf_state_def)
  have r1: "roll (full_features_20Hz st) (hidden_state out) = Inr ?f"
    and s1: "shape ?f 99 (FEATURE_LEN mc)"
    using roll_shape[OF shf h] by simp_all
  have r2: "roll (prev_desired_curv_20hz st) (desired_curvature out) = Inr ?c"
    and s2: "shape ?c 100 (PREV_DESIRED_CURV_LEN mc)"
    using roll_shape[OF shc c] by simp_all
  have lf: "length ?f = 99" using s1 by (simp add: shape_def)
  have t: "take_rows ?f idxs = Inr (map (\<lambda>k. ?f ! (4 * k + 3)) [0..<24])"
    by (rule take_rows_idxs[OF lf])
  have cs: "concat (map (\<lambda>k. ?f ! (4 * k + 3)) [0..<24]) = strided ?f"
    by (simp add: strided_def)
  have da: "dict_assign (inputs st) ''features_buffer'' (strided ?f)
            = Inr (AList.update ''features_buffer'' (strided ?f) (inputs st))"
    by (rule dict_assign_len[OF hf length_strided[OF s1]])
  have lc: "length ?c = 100" using s2 by (simp add: shape_def)
  have ra: "row_at ?c (- 4) = Inr (?c ! 96)" by (rule row_at_m4[OF lc])
  have l96: "length (?c ! 96) = PREV_DESIRED_CURV_LEN mc"
    by (rule shape_nth[OF s2]) simp
  have mo: "map_of (AList.update ''features_buffer'' (strided ?f) (inputs st)) ''prev_desired_curv''
            = Some pdc"
    using pdc by (simp add: update_conv')
  have lpdc: "length pdc = PREV_DESIRED_CURV_LEN mc * (HISTORY_BUFFER_LEN mc + 1)"
    using hp pdc by (simp add: has_len_def)
  have at: "assign_tail pdc (PREV_DESIRED_CURV_LEN mc) (map (\<lambda>x. 0 * x) (?c ! 96))
            = Inr (take (PREV_DESIRED_CURV_LEN mc * HISTORY_BUFFER_LEN mc) pdc
                     @ zeros (PREV_DESIRED_CURV_LEN mc))"
    by (rule assign_tail_zero[OF lpdc l96])
  show ?thesis
    unfolding run_update_def
    by (simp only: r1 r2 t cs da ra mo at sum.case option.case)
qed

subsection \<open>One call of run on a well-shaped state\<close>

text \<open>
  The initial state is well shaped, and a call with well-shaped arguments returns; the
  two lemmas say what it returns and what it leaves, with and without execution.
\<close>

lemma shape_zeros2: "shape (zeros2 r c) r c"
  by (simp add: shape_def zeros2_def zeros_def list_all_iff)

lemma wf_state_init:
  assumes "consistent tg mc"
  shows "wf_state mc (ModelState_init tg mc)"
  using assms
  by (simp add: wf_state_def ModelState_init_def shape_zeros2 consistent_def zeros_def
      has_len_def init_inputs_def split: if_splits)

lemma run_prepare_only:
  assumes wf: "wf_state mc st" and D: "0 < DESIRE_LEN mc" and wi: "wf_inputs mc inp"
    and d0: "map_of inp ''desire'' = Some d0"
  shows "\<exists>st'. run mc execute st buf wbuf t tw inp True
                 = Inr (st', AList.update ''desire'' (d0[0 := 0]) inp, None) \<and>
           wf_state mc st' \<and>
           prev_desire st' = d0[0 := 0] \<and>
           desire_20Hz st' = tl (desire_20Hz st) @ [pulse (d0[0 := 0]) (prev_desire st)] \<and>
           map_of (inputs st') ''desire'' = Some (pool_rows (desire_20Hz st') (DESIRE_LEN mc)) \<and>
           full_features_20Hz st' = full_features_20Hz st \<and>
           prev_desired_curv_20hz st' = prev_desired_curv_20hz st \<and>
           map_of (inputs st') ''features_buffer'' = map_of (inputs st) ''features_buffer'' \<and>
           map_of (inputs st') ''prev_desired_curv'' = map_of (inputs st) ''prev_desired_curv'' \<and>
           map_of (inputs st') ''traffic_convention'' = map_of inp ''traffic_convention'' \<and>
           map_of (inputs st') ''lateral_control_params'' = map_of inp ''lateral_control_params''"
proof -
  let ?d = "d0[0 := 0]" let ?p = "pulse ?d (prev_desire st)"
  let ?h = "tl (desire_20Hz st) @ [?p]"
  define st1 where "st1 = st\<lparr>prev_desire := ?d, desire_20Hz := ?h,
      inputs := AList.update ''desire'' (pool_rows ?h (DESIRE_LEN mc)) (inputs st)\<rparr>"
  from wi d0 have len: "length d0 = DESIRE_LEN mc" by (simp add: wf_inputs_def has_len_def)
  from wi obtain tc lcp where tc: "map_of inp ''traffic_convention'' = Some tc"
      "length tc = TRAFFIC_CONVENTION_LEN mc"
    and lcp: "map_of inp ''lateral_control_params'' = Some lcp"
      "length lcp = LATERAL_CONTROL_PARAMS_LEN mc"
    by (auto simp: wf_inputs_def dest!: has_lenD)
  have rd: "run_desire st inp = Inr (st1, AList.update ''desire'' ?d inp, ?p)"
    unfolding st1_def by (rule run_desire_wf[OF wf D d0 len])
  from wf have lp: "length (prev_desire st) = DESIRE_LEN mc"
    and sh: "shape (desire_20Hz st) (Suc 99) (DESIRE_LEN mc)" by (simp_all add: wf_state_def)
  have lpul: "length ?p = DESIRE_LEN mc" using length_pulse[of ?d "prev_desire st"] len lp by simp
  have sh': "shape ?h 100 (DESIRE_LEN mc)" using roll_shape(2)[OF sh lpul] by simp
  have wf1: "wf_state mc st1"
    using wf sh' len by (simp add: wf_state_def st1_def has_len_update length_pool_rows)
  define st2 where "st2 = st1\<lparr>inputs := AList.update ''lateral_control_params'' lcp
                    (AList.update ''traffic_convention'' tc (inputs st1))\<rparr>"
  have rc: "run_copy st1 (AList.update ''desire'' ?d inp) = Inr st2"
    unfolding st2_def
    by (rule run_copy_wf[where ?n1.0="TRAFFIC_CONVENTION_LEN mc" and ?n2.0="LATERAL_CONTROL_PARAMS_LEN mc"])
       (use wf1 tc lcp in \<open>simp_all add: wf_state_def update_conv'\<close>)
  have wf2: "wf_state mc st2"
    using wf1 tc lcp by (simp add: wf_state_def st2_def has_len_update)
  have r: "run mc execute st buf wbuf t tw inp True = Inr (st2, AList.update ''desire'' ?d inp, None)"
    unfolding run_def by (simp add: rd rc)
  show ?thesis
    by (rule exI[of _ st2]) (simp add: r wf2, simp add: st2_def st1_def update_conv' tc(1) lcp(1))
qed

lemma run_execute:
  assumes wf: "wf_state mc st" and D: "0 < DESIRE_LEN mc" and wi: "wf_inputs mc inp"
    and we: "wf_engine mc execute"
    and d0: "map_of inp ''desire'' = Some d0"
  shows "\<exists>st' ins pdc. run mc execute st buf wbuf t tw inp False
                 = Inr (st', AList.update ''desire'' (d0[0 := 0]) inp,
                        Some (execute buf t wbuf tw ins)) \<and>
           wf_state mc st' \<and>
           prev_desire st' = d0[0 := 0] \<and>
           desire_20Hz st' = tl (desire_20Hz st) @ [pulse (d0[0 := 0]) (prev_desire st)] \<and>
           map_of (inputs st') ''desire'' = Some (pool_rows (desire_20Hz st') (DESIRE_LEN mc)) \<and>
           map_of ins ''desire'' = Some (pool_rows (desire_20Hz st') (DESIRE_LEN mc)) \<and>
           map_of ins ''features_buffer'' = map_of (inputs st) ''features_buffer'' \<and>
           map_of ins ''prev_desired_curv'' = map_of (inputs st) ''prev_desired_curv'' \<and>
           full_features_20Hz st' =
             tl (full_features_20Hz st) @ [hidden_state (execute buf t wbuf tw ins)] \<and>
           prev_desired_curv_20hz st' =
             tl (prev_desired_curv_20hz st) @ [desired_curvature (execute buf t wbuf tw ins)] \<and>
           map_of (inputs st') ''features_buffer'' = Some (strided (full_features_20Hz st')) \<and>
           map_of (inputs st) ''prev_desired_curv'' = Some pdc \<and>
           map_of (inputs st') ''prev_desired_curv'' =
             Some (take (PREV_DESIRED_CURV_LEN mc * HISTORY_BUFFER_LEN mc) pdc
                     @ zeros (PREV_DESIRED_CURV_LEN mc)) \<and>
           map_of (inputs st') ''traffic_convention'' = map_of inp ''traffic_convention'' \<and>
           map_of (inputs st') ''lateral_control_params'' = map_of inp ''lateral_control_params''"
proof -
  from run_prepare_only[OF wf D wi d0, of execute buf wbuf t tw]
  obtain st2 where r2: "run mc execute st buf wbuf t tw inp True
                 = Inr (st2, AList.update ''desire'' (d0[0 := 0]) inp, None)"
    and wf2: "wf_state mc st2"
    and f2: "prev_desire st2 = d0[0 := 0]"
      "desire_20Hz st2 = tl (desire_20Hz st) @ [pulse (d0[0 := 0]) (prev_desire st)]"
      "map_of (inputs st2) ''desire'' = Some (pool_rows (desire_20Hz st2) (DESIRE_LEN mc))"
      "full_features_20Hz st2 = full_features_20Hz st"
      "prev_desired_curv_20hz st2 = prev_desired_curv_20hz st"
      "map_of (inputs st2) ''features_buffer'' = map_of (inputs st) ''features_buffer''"
      "map_of (inputs st2) ''prev_desired_curv'' = map_of (inputs st) ''prev_desired_curv''"
      "map_of (inputs st2) ''traffic_convention'' = map_of inp ''traffic_convention''"
      "map_of (inputs st2) ''lateral_control_params'' = map_of inp ''lateral_control_params''"
    by blast
  let ?out = "execute buf t wbuf tw (inputs st2)"
  from we have h: "length (hidden_state ?out) = FEATURE_LEN mc"
    and c: "length (desired_curvature ?out) = PREV_DESIRED_CURV_LEN mc"
    by (simp_all add: wf_engine_def)
  from wf2 obtain pdc where pdc: "map_of (inputs st2) ''prev_desired_curv'' = Some pdc"
    by (auto simp: wf_state_def dest!: has_lenD)
  note ru = run_update_wf[OF wf2 h c pdc]
  define st3 where "st3 = st2\<lparr>full_features_20Hz := tl (full_features_20Hz st2) @ [hidden_state ?out],
                prev_desired_curv_20hz := tl (prev_desired_curv_20hz st2) @ [desired_curvature ?out],
                inputs := AList.update ''prev_desired_curv''
                  (take (PREV_DESIRED_CURV_LEN mc * HISTORY_BUFFER_LEN mc) pdc
                     @ zeros (PREV_DESIRED_CURV_LEN mc))
                  (AList.update ''features_buffer''
                     (strided (tl (full_features_20Hz st2) @ [hidden_state ?out])) (inputs st2))\<rparr>"
  have ru': "run_update mc st2 ?out = Inr st3" unfolding st3_def by (rule ru)
  from r2 have pre: "\<exists>nd. run_desire st inp = Inr (fst nd, AList.update ''desire'' (d0[0 := 0]) inp, snd nd)
       \<and> run_copy (fst nd) (AList.update ''desire'' (d0[0 := 0]) inp) = Inr st2"
    unfolding run_def by (auto split: sum.splits prod.splits)
  then have r: "run mc execute st buf wbuf t tw inp False
       = Inr (st3, AList.update ''desire'' (d0[0 := 0]) inp, Some ?out)"
    unfolding run_def using ru' by (auto simp: Let_def)
  from wf2 have shf: "shape (full_features_20Hz st2) (Suc 98) (FEATURE_LEN mc)"
    and shc: "shape (prev_desired_curv_20hz st2) (Suc 99) (PREV_DESIRED_CURV_LEN mc)"
    by (simp_all add: wf_state_def)
  have s1: "shape (tl (full_features_20Hz st2) @ [hidden_state ?out]) 99 (FEATURE_LEN mc)"
    using roll_shape(2)[OF shf h] by simp
  have s2: "shape (tl (prev_desired_curv_20hz st2) @ [desired_curvature ?out]) 100 (PREV_DESIRED_CURV_LEN mc)"
    using roll_shape(2)[OF shc c] by simp
  have lpdc: "length pdc = PREV_DESIRED_CURV_LEN mc * (HISTORY_BUFFER_LEN mc + 1)"
    using wf2 pdc by (simp add: wf_state_def has_len_def)
  have wf3: "wf_state mc st3"
    using wf2 s1 s2 lpdc
    by (simp add: wf_state_def st3_def has_len_update length_strided zeros_def min_def)
  show ?thesis
    apply (rule exI[of _ st3], rule exI[of _ "inputs st2"], rule exI[of _ pdc])
    apply (simp add: r wf3)
    apply (simp add: st3_def f2 update_conv' pdc[unfolded f2(7)])
    done
qed

subsection \<open>The feature history along a sequence of calls\<close>

lemma run_calls_snoc:
  "run_calls mc e st (cs @ [c]) =
     (case run_calls mc e st cs of
        Inl err \<Rightarrow> Inl err
      | Inr (st', rs) \<Rightarrow>
          (case run_call mc e st' c of
             Inl err \<Rightarrow> Inl err
           | Inr (st'', inp', out) \<Rightarrow> Inr (st'', rs @ [(inp', out)])))"
  by (induction cs arbitrary: st) (auto split: sum.splits prod.splits)

lemma executed_snoc:
  "executed (rs @ [(i, None)]) = executed rs"
  "executed (rs @ [(i, Some out)]) = executed rs @ [out]"
  by (simp_all add: executed_def)

lemma history_snoc:
  "tl (history mc outs) @ [hidden_state out] = history mc (outs @ [out])"
proof -
  let ?xs = "zeros2 99 (FEATURE_LEN mc) @ map hidden_state outs"
  have l: "length ?xs = 99 + length outs" by (simp add: zeros2_def)
  have g: "tl (drop n xs) = drop (Suc n) xs" for n and xs :: "ndarray list"
    by (simp add: drop_Suc tl_drop)
  have "tl (drop (length outs) ?xs) @ [hidden_state out]
        = drop (Suc (length outs)) ?xs @ [hidden_state out]"
    by (simp only: g)
  also have "\<dots> = drop (Suc (length outs)) (?xs @ [hidden_state out])"
    using l by simp
  finally show ?thesis by (simp add: history_def)
qed

lemma concat_replicate_zeros: "concat (replicate n (zeros m)) = zeros (n * m)"
  by (induction n) (simp_all add: zeros_def replicate_add)

lemma strided_zeros: "strided (zeros2 99 c) = zeros (24 * c)"
proof -
  have "map (\<lambda>k. zeros2 99 c ! (4 * k + 3)) [0..<24] = map (\<lambda>k. zeros c) [0..<24]"
    by (rule map_cong[OF refl]) (simp add: zeros2_def)
  also have "\<dots> = replicate 24 (zeros c)" by (simp add: map_replicate_const)
  finally show ?thesis by (simp add: strided_def concat_replicate_zeros)
qed

lemma take_zeros_tail: "take (p * h) (zeros (p * (h + 1))) @ zeros p = zeros (p * (h + 1))"
  by (simp add: zeros_def min_def flip: replicate_add)

lemma lag_inv_init:
  assumes "consistent tg mc"
  shows "lag_inv mc (ModelState_init tg mc) []"
  unfolding lag_inv_def
proof (intro conjI)
  show "wf_state mc (ModelState_init tg mc)" by (rule wf_state_init[OF assms])
  show "full_features_20Hz (ModelState_init tg mc) = history mc (executed [])"
    using assms by (simp add: ModelState_init_def history_def executed_def consistent_def)
  show "map_of (inputs (ModelState_init tg mc)) ''features_buffer''
        = Some (strided (history mc (executed [])))"
    using assms
    by (simp add: ModelState_init_def init_inputs_def history_def executed_def consistent_def
        strided_zeros split: if_splits)
  show "map_of (inputs (ModelState_init tg mc)) ''prev_desired_curv'' =
       Some (zeros (PREV_DESIRED_CURV_LEN mc * (HISTORY_BUFFER_LEN mc + 1)))"
    by (simp add: ModelState_init_def init_inputs_def)
qed

lemma lag_inv_step:
  assumes inv: "lag_inv mc st rs" and D: "0 < DESIRE_LEN mc"
    and wi: "wf_inputs mc (c_inputs c)" and we: "wf_engine mc e"
  shows "\<exists>st' inp' out. run_call mc e st c = Inr (st', inp', out) \<and>
           lag_inv mc st' (rs @ [(inp', out)])"
proof -
  from inv have wf: "wf_state mc st" by (simp add: lag_inv_def)
  from wi obtain d0 where d0: "map_of (c_inputs c) ''desire'' = Some d0"
    by (auto simp: wf_inputs_def dest!: has_lenD)
  show ?thesis
  proof (cases "c_prepare_only c")
    case True
    from run_prepare_only[OF wf D wi d0, of e "c_buf c" "c_wbuf c" "c_transform c" "c_transform_wide c"]
    obtain st' where r: "run_call mc e st c = Inr (st', AList.update ''desire'' (d0[0 := 0]) (c_inputs c), None)"
      and f: "wf_state mc st'" "full_features_20Hz st' = full_features_20Hz st"
        "map_of (inputs st') ''features_buffer'' = map_of (inputs st) ''features_buffer''"
        "map_of (inputs st') ''prev_desired_curv'' = map_of (inputs st) ''prev_desired_curv''"
      unfolding run_call_def using True by auto
    have "lag_inv mc st' (rs @ [(AList.update ''desire'' (d0[0 := 0]) (c_inputs c), None)])"
      using inv f by (simp add: lag_inv_def executed_snoc)
    with r show ?thesis by blast
  next
    case False
    from run_execute[OF wf D wi we d0, of "c_buf c" "c_wbuf c" "c_transform c" "c_transform_wide c"]
    obtain st' ins pdc where
      r: "run_call mc e st c = Inr (st', AList.update ''desire'' (d0[0 := 0]) (c_inputs c),
            Some (e (c_buf c) (c_transform c) (c_wbuf c) (c_transform_wide c) ins))"
      and f: "wf_state mc st'"
        "full_features_20Hz st' = tl (full_features_20Hz st)
           @ [hidden_state (e (c_buf c) (c_transform c) (c_wbuf c) (c_transform_wide c) ins)]"
        "map_of (inputs st') ''features_buffer'' = Some (strided (full_features_20Hz st'))"
        "map_of (inputs st) ''prev_desired_curv'' = Some pdc"
        "map_of (inputs st') ''prev_desired_curv'' =
             Some (take (PREV_DESIRED_CURV_LEN mc * HISTORY_BUFFER_LEN mc) pdc
                     @ zeros (PREV_DESIRED_CURV_LEN mc))"
      unfolding run_call_def using False by auto
    let ?out = "e (c_buf c) (c_transform c) (c_wbuf c) (c_transform_wide c) ins"
    from inv f(4) have pdc: "pdc = zeros (PREV_DESIRED_CURV_LEN mc * (HISTORY_BUFFER_LEN mc + 1))"
      by (simp add: lag_inv_def)
    from inv f(2) have ff: "full_features_20Hz st' = history mc (executed rs @ [?out])"
      by (simp add: lag_inv_def history_snoc)
    have tz: "take (PREV_DESIRED_CURV_LEN mc * HISTORY_BUFFER_LEN mc) pdc
                @ zeros (PREV_DESIRED_CURV_LEN mc)
              = zeros (PREV_DESIRED_CURV_LEN mc * (HISTORY_BUFFER_LEN mc + 1))"
      unfolding pdc by (rule take_zeros_tail)
    have "lag_inv mc st' (rs @ [(AList.update ''desire'' (d0[0 := 0]) (c_inputs c), Some ?out)])"
      unfolding lag_inv_def executed_snoc
      using f(1) ff f(3) f(5)[unfolded tz] by simp
    with r show ?thesis by blast
  qed
qed

lemma run_calls_lag:
  assumes co: "consistent tg mc" and we: "wf_engine mc e"
    and wi: "list_all (\<lambda>c. wf_inputs mc (c_inputs c)) cs"
  shows "\<exists>st rs. run_calls mc e (ModelState_init tg mc) cs = Inr (st, rs) \<and> lag_inv mc st rs
          \<and> length rs = length cs"
  using wi
proof (induction cs rule: rev_induct)
  case Nil
  show ?case using lag_inv_init[OF co] by simp
next
  case (snoc c cs)
  then obtain st rs where r: "run_calls mc e (ModelState_init tg mc) cs = Inr (st, rs)"
    and inv: "lag_inv mc st rs" and l: "length rs = length cs" by auto
  from co have D: "0 < DESIRE_LEN mc" by (simp add: consistent_def)
  from snoc.prems have wic: "wf_inputs mc (c_inputs c)" by simp
  from lag_inv_step[OF inv D wic we]
  obtain st' inp' out where s: "run_call mc e st c = Inr (st', inp', out)"
    and inv': "lag_inv mc st' (rs @ [(inp', out)])" by blast
  have "run_calls mc e (ModelState_init tg mc) (cs @ [c]) = Inr (st', rs @ [(inp', out)])"
    by (simp add: run_calls_snoc r s)
  with inv' l show ?case by auto
qed

subsection \<open>Slot 0 along a sequence of calls\<close>

lemma max4_zero: "max4 0 0 0 0 = 0" by (simp add: max4_def)

lemma pool_rows_zeros: "pool_rows (zeros2 100 w) w = zeros (25 * w)"
proof -
  have cell: "zeros2 100 w ! i ! j = 0" if "i < 100" "j < w" for i j
    using that by (simp add: zeros2_def zeros_def)
  have row: "map (\<lambda>j. max4 (zeros2 100 w ! (4 * g) ! j) (zeros2 100 w ! (4 * g + 1) ! j)
             (zeros2 100 w ! (4 * g + 2) ! j) (zeros2 100 w ! (4 * g + 3) ! j)) [0..<w] = zeros w"
    if "g < 25" for g
  proof -
    have "map (\<lambda>j. max4 (zeros2 100 w ! (4 * g) ! j) (zeros2 100 w ! (4 * g + 1) ! j)
             (zeros2 100 w ! (4 * g + 2) ! j) (zeros2 100 w ! (4 * g + 3) ! j)) [0..<w]
          = map (\<lambda>j. 0) [0..<w]"
      by (rule map_cong[OF refl]) (use that in \<open>simp add: cell max4_zero\<close>)
    then show ?thesis by (simp add: zeros_def map_replicate_const)
  qed
  have "map (\<lambda>g. map (\<lambda>j. max4 (zeros2 100 w ! (4 * g) ! j) (zeros2 100 w ! (4 * g + 1) ! j)
             (zeros2 100 w ! (4 * g + 2) ! j) (zeros2 100 w ! (4 * g + 3) ! j)) [0..<w]) [0..<25]
        = map (\<lambda>g. zeros w) [0..<25]"
  proof (rule map_cong[OF refl])
    fix g assume "g \<in> set [0..<25]"
    then have "g < 25" by simp
    from row[OF this]
    show "map (\<lambda>j. max4 (zeros2 100 w ! (4 * g) ! j) (zeros2 100 w ! (4 * g + 1) ! j)
             (zeros2 100 w ! (4 * g + 2) ! j) (zeros2 100 w ! (4 * g + 3) ! j)) [0..<w] = zeros w" .
  qed
  then show ?thesis
    unfolding pool_rows_def by (simp add: map_replicate_const concat_replicate_zeros)
qed

lemma slot0_inv_init:
  assumes "consistent tg mc"
  shows "slot0_inv mc (ModelState_init tg mc)"
  unfolding slot0_inv_def
proof (intro conjI)
  from assms have D: "0 < DESIRE_LEN mc" and F: "FULL_HISTORY_BUFFER_LEN mc = 99"
    and H: "(if SECRET_GOOD_OPENPILOT tg then HISTORY_BUFFER_LEN_SECRET mc else HISTORY_BUFFER_LEN mc) = 24"
    by (simp_all add: consistent_def)
  show "wf_state mc (ModelState_init tg mc)" by (rule wf_state_init[OF assms])
  show "prev_desire (ModelState_init tg mc) ! 0 = 0"
    using D by (simp add: ModelState_init_def zeros_def)
  show "list_all (\<lambda>r. r ! 0 = 0) (desire_20Hz (ModelState_init tg mc))"
    using D by (simp add: ModelState_init_def zeros2_def zeros_def list_all_iff)
  have "desire_20Hz (ModelState_init tg mc) = zeros2 100 (DESIRE_LEN mc)"
    by (simp add: ModelState_init_def F)
  moreover have "map_of (inputs (ModelState_init tg mc)) ''desire'' = Some (zeros (25 * DESIRE_LEN mc))"
    using H by (simp add: ModelState_init_def init_inputs_def mult.commute split: if_splits)
  ultimately show "map_of (inputs (ModelState_init tg mc)) ''desire'' =
    Some (pool_rows (desire_20Hz (ModelState_init tg mc)) (DESIRE_LEN mc))"
    by (simp add: pool_rows_zeros)
qed

lemma pulse_nth:
  "length d = length prev \<Longrightarrow> i < length d \<Longrightarrow>
   pulse d prev ! i = (if d ! i - prev ! i > 99 / 100 then d ! i else 0)"
  by (simp add: pulse_def)

lemma pulse_slot0:
  assumes "length d0 = length prev" "d0 \<noteq> []"
  shows "pulse (d0[0 := 0]) prev ! 0 = 0"
proof -
  have "pulse (d0[0 := 0]) prev ! 0
        = (if d0[0 := 0] ! 0 - prev ! 0 > 99 / 100 then d0[0 := 0] ! 0 else 0)"
    by (rule pulse_nth) (use assms in auto)
  moreover have "d0[0 := 0] ! 0 = 0" using assms(2) by (cases d0) simp_all
  ultimately show ?thesis by simp
qed

lemma list_all_tl_snoc:
  "list_all P xs \<Longrightarrow> P v \<Longrightarrow> list_all P (tl xs @ [v])"
  by (cases xs) simp_all

lemma run_call_facts:
  assumes wf: "wf_state mc st" and D: "0 < DESIRE_LEN mc"
    and wi: "wf_inputs mc (c_inputs c)" and we: "wf_engine mc e"
  shows "\<exists>st' inp' out d0. run_call mc e st c = Inr (st', inp', out) \<and>
           map_of (c_inputs c) ''desire'' = Some d0 \<and> length d0 = DESIRE_LEN mc \<and>
           inp' = AList.update ''desire'' (d0[0 := 0]) (c_inputs c) \<and>
           wf_state mc st' \<and>
           prev_desire st' = d0[0 := 0] \<and>
           desire_20Hz st' = tl (desire_20Hz st) @ [pulse (d0[0 := 0]) (prev_desire st)] \<and>
           map_of (inputs st') ''desire'' = Some (pool_rows (desire_20Hz st') (DESIRE_LEN mc))"
proof -
  from wi obtain d0 where d0: "map_of (c_inputs c) ''desire'' = Some d0"
    and len: "length d0 = DESIRE_LEN mc"
    by (auto simp: wf_inputs_def dest!: has_lenD)
  show ?thesis
  proof (cases "c_prepare_only c")
    case True
    from run_prepare_only[OF wf D wi d0, of e "c_buf c" "c_wbuf c" "c_transform c" "c_transform_wide c"]
    show ?thesis unfolding run_call_def using True d0 len by auto
  next
    case False
    from run_execute[OF wf D wi we d0, of "c_buf c" "c_wbuf c" "c_transform c" "c_transform_wide c"]
    show ?thesis unfolding run_call_def using False d0 len by auto
  qed
qed

lemma slot0_inv_step:
  assumes inv: "slot0_inv mc st" and D: "0 < DESIRE_LEN mc"
    and wi: "wf_inputs mc (c_inputs c)" and we: "wf_engine mc e"
  shows "\<exists>st' inp' out d0. run_call mc e st c = Inr (st', inp', out) \<and>
           map_of (c_inputs c) ''desire'' = Some d0 \<and>
           map_of inp' ''desire'' = Some (d0[0 := 0]) \<and> d0[0 := 0] ! 0 = 0 \<and>
           prev_desire st' = d0[0 := 0] \<and>
           last (desire_20Hz st') = pulse (d0[0 := 0]) (prev_desire st) \<and>
           pulse (d0[0 := 0]) (prev_desire st) ! 0 = 0 \<and>
           slot0_inv mc st'"
proof -
  from inv have wf: "wf_state mc st" and la: "list_all (\<lambda>r. r ! 0 = 0) (desire_20Hz st)"
    by (simp_all add: slot0_inv_def)
  from run_call_facts[OF wf D wi we]
  obtain st' inp' out d0 where r: "run_call mc e st c = Inr (st', inp', out)"
    and d0: "map_of (c_inputs c) ''desire'' = Some d0" and len: "length d0 = DESIRE_LEN mc"
    and inp': "inp' = AList.update ''desire'' (d0[0 := 0]) (c_inputs c)"
    and wf': "wf_state mc st'" and pd: "prev_desire st' = d0[0 := 0]"
    and h: "desire_20Hz st' = tl (desire_20Hz st) @ [pulse (d0[0 := 0]) (prev_desire st)]"
    and po: "map_of (inputs st') ''desire'' = Some (pool_rows (desire_20Hz st') (DESIRE_LEN mc))"
    by blast
  from wf have lp: "length (prev_desire st) = DESIRE_LEN mc" by (simp add: wf_state_def)
  have ne: "d0 \<noteq> []" using len D by auto
  have z: "d0[0 := 0] ! 0 = 0" using ne by simp
  have p0: "pulse (d0[0 := 0]) (prev_desire st) ! 0 = 0"
    by (rule pulse_slot0) (simp_all add: len lp ne)
  have la': "list_all (\<lambda>r. r ! 0 = 0) (desire_20Hz st')"
    unfolding h by (rule list_all_tl_snoc[OF la p0])
  have "slot0_inv mc st'"
    unfolding slot0_inv_def using wf' pd z la' po by simp
  moreover have "map_of inp' ''desire'' = Some (d0[0 := 0])"
    by (simp add: inp' update_conv')
  moreover have "last (desire_20Hz st') = pulse (d0[0 := 0]) (prev_desire st)"
    by (simp add: h)
  ultimately show ?thesis using r d0 z pd p0 by blast
qed

lemma pooled_slot0:
  assumes "slot0_inv mc st" "0 < DESIRE_LEN mc" "g < 25"
  shows "pool_rows (desire_20Hz st) (DESIRE_LEN mc) ! (g * DESIRE_LEN mc) = 0"
proof -
  from assms(1) have la: "list_all (\<lambda>r. r ! 0 = 0) (desire_20Hz st)"
    and l: "length (desire_20Hz st) = 100"
    by (simp_all add: slot0_inv_def wf_state_def shape_def)
  have c: "desire_20Hz st ! i ! 0 = 0" if "i < 100" for i
    using la l that by (simp add: list_all_length)
  have "pool_rows (desire_20Hz st) (DESIRE_LEN mc) ! (g * DESIRE_LEN mc + 0)
        = max4 (desire_20Hz st ! (4 * g) ! 0) (desire_20Hz st ! (4 * g + 1) ! 0)
               (desire_20Hz st ! (4 * g + 2) ! 0) (desire_20Hz st ! (4 * g + 3) ! 0)"
    by (rule pool_rows_nth[OF assms(3) assms(2)])
  also have "\<dots> = 0"
    using assms(3) by (simp add: c max4_zero)
  finally show ?thesis by simp
qed

lemma run_calls_slot0:
  assumes co: "consistent tg mc" and we: "wf_engine mc e"
    and wi: "list_all (\<lambda>c. wf_inputs mc (c_inputs c)) cs"
  shows "\<exists>st rs. run_calls mc e (ModelState_init tg mc) cs = Inr (st, rs) \<and> slot0_inv mc st"
  using wi
proof (induction cs rule: rev_induct)
  case Nil
  show ?case using slot0_inv_init[OF co] by simp
next
  case (snoc c cs)
  then obtain st rs where r: "run_calls mc e (ModelState_init tg mc) cs = Inr (st, rs)"
    and inv: "slot0_inv mc st" by auto
  from co have D: "0 < DESIRE_LEN mc" by (simp add: consistent_def)
  from snoc.prems have wic: "wf_inputs mc (c_inputs c)" by simp
  from slot0_inv_step[OF inv D wic we]
  obtain st' inp' out where s: "run_call mc e st c = Inr (st', inp', out)"
    and inv': "slot0_inv mc st'" by blast
  have "run_calls mc e (ModelState_init tg mc) (cs @ [c]) = Inr (st', rs @ [(inp', out)])"
    by (simp add: run_calls_snoc r s)
  with inv' show ?case by auto
qed

subsection \<open>The pulse for one-hot desire vectors\<close>

lemma length_vec_desire: "length (vec_desire mc d) = DESIRE_LEN mc"
  by (simp add: vec_desire_def zeros_def)

lemma vec_desire_clear0: "(vec_desire mc d)[0 := 0] = edge_vec mc d"
proof (cases "0 < d \<and> d < int (DESIRE_LEN mc)")
  case True
  then have "nat d \<noteq> 0" by simp
  then have "(zeros (DESIRE_LEN mc))[nat d := 1, 0 := 0] = (zeros (DESIRE_LEN mc))[0 := 0, nat d := 1]"
    by (simp add: list_update_swap)
  also have "(zeros (DESIRE_LEN mc))[0 := 0] = zeros (DESIRE_LEN mc)"
    by (cases "DESIRE_LEN mc") (simp_all add: zeros_def)
  finally show ?thesis using True by (simp add: vec_desire_def edge_vec_def)
next
  case False
  have z: "(zeros (DESIRE_LEN mc))[0 := 0] = zeros (DESIRE_LEN mc)"
    by (cases "DESIRE_LEN mc") (simp_all add: zeros_def)
  show ?thesis
  proof (cases "d = 0 \<and> 0 < DESIRE_LEN mc")
    case True
    then show ?thesis by (simp add: vec_desire_def edge_vec_def z)
  next
    case F2: False
    with False show ?thesis by (auto simp: vec_desire_def edge_vec_def z)
  qed
qed

lemma length_edge_vec: "length (edge_vec mc d) = DESIRE_LEN mc"
  by (simp add: edge_vec_def zeros_def)

lemma edge_vec_nth:
  "i < DESIRE_LEN mc \<Longrightarrow>
   edge_vec mc d ! i = (if 0 < d \<and> d < int (DESIRE_LEN mc) \<and> i = nat d then 1 else 0)"
  by (auto simp: edge_vec_def zeros_def nth_list_update)

lemma zeros_nth: "i < n \<Longrightarrow> zeros n ! i = 0"
  by (simp add: zeros_def)

lemma pulse_edge_zeros: "pulse (edge_vec mc d) (zeros (DESIRE_LEN mc)) = edge_vec mc d"
proof (rule nth_equalityI)
  show "length (pulse (edge_vec mc d) (zeros (DESIRE_LEN mc))) = length (edge_vec mc d)"
    by (simp add: pulse_def length_edge_vec zeros_def)
next
  fix i assume "i < length (pulse (edge_vec mc d) (zeros (DESIRE_LEN mc)))"
  then have i: "i < DESIRE_LEN mc" by (simp add: pulse_def length_edge_vec zeros_def)
  have "pulse (edge_vec mc d) (zeros (DESIRE_LEN mc)) ! i
        = (if edge_vec mc d ! i - zeros (DESIRE_LEN mc) ! i > 99 / 100 then edge_vec mc d ! i else 0)"
    by (rule pulse_nth) (simp_all add: length_edge_vec zeros_def i)
  then show "pulse (edge_vec mc d) (zeros (DESIRE_LEN mc)) ! i = edge_vec mc d ! i"
    using i by (simp add: edge_vec_nth zeros_nth)
qed

lemma pulse_edge_edge:
  "pulse (edge_vec mc d) (edge_vec mc d') = (if d' = d then zeros (DESIRE_LEN mc) else edge_vec mc d)"
proof (rule nth_equalityI)
  show "length (pulse (edge_vec mc d) (edge_vec mc d'))
        = length (if d' = d then zeros (DESIRE_LEN mc) else edge_vec mc d)"
    by (simp add: pulse_def length_edge_vec zeros_def)
next
  fix i assume "i < length (pulse (edge_vec mc d) (edge_vec mc d'))"
  then have i: "i < DESIRE_LEN mc" by (simp add: pulse_def length_edge_vec)
  have "pulse (edge_vec mc d) (edge_vec mc d') ! i
        = (if edge_vec mc d ! i - edge_vec mc d' ! i > 99 / 100 then edge_vec mc d ! i else 0)"
    by (rule pulse_nth) (simp_all add: length_edge_vec i)
  then show "pulse (edge_vec mc d) (edge_vec mc d') ! i
             = (if d' = d then zeros (DESIRE_LEN mc) else edge_vec mc d) ! i"
    using i by (auto simp: edge_vec_nth zeros_nth)
qed

lemma edge_vec_nonzero:
  "edge_vec mc d \<noteq> zeros (DESIRE_LEN mc) \<longleftrightarrow> 0 < d \<and> d < int (DESIRE_LEN mc)"
proof (cases "0 < d \<and> d < int (DESIRE_LEN mc)")
  case True
  then have "nat d < DESIRE_LEN mc" by linarith
  then have "edge_vec mc d ! nat d = 1" "zeros (DESIRE_LEN mc) ! nat d = 0"
    using True by (simp_all add: edge_vec_nth zeros_nth)
  then have "edge_vec mc d \<noteq> zeros (DESIRE_LEN mc)" by auto
  with True show ?thesis by simp
next
  case False
  then show ?thesis by (auto simp: edge_vec_def)
qed

lemma pulse_inv_init:
  assumes "consistent tg mc"
  shows "pulse_inv mc (ModelState_init tg mc) []"
  using slot0_inv_init[OF assms]
  by (simp add: pulse_inv_def prev_of_def nonneg_rows_def ModelState_init_def zeros2_def zeros_def
      list_all_iff)

lemma edge_vec_nonneg: "list_all (\<lambda>x. 0 \<le> x) (edge_vec mc d)"
  by (auto simp: list_all_length length_edge_vec edge_vec_nth)

lemma zeros_nonneg: "list_all (\<lambda>x. 0 \<le> x) (zeros n)"
  by (simp add: zeros_def list_all_iff)

lemma pulse_of_prev:
  "pulse (edge_vec mc d) (prev_of mc ds)
   = (if ds \<noteq> [] \<and> last ds = d then zeros (DESIRE_LEN mc) else edge_vec mc d)"
  by (simp add: prev_of_def pulse_edge_zeros pulse_edge_edge)

lemma pulse_inv_step:
  assumes inv: "pulse_inv mc st ds" and D: "0 < DESIRE_LEN mc"
    and wi: "wf_inputs mc (c_inputs c)" and we: "wf_engine mc e"
    and d: "map_of (c_inputs c) ''desire'' = Some (vec_desire mc d)"
  shows "\<exists>st' inp' out. run_call mc e st c = Inr (st', inp', out) \<and>
           last (desire_20Hz st') =
             (if ds \<noteq> [] \<and> last ds = d then zeros (DESIRE_LEN mc) else edge_vec mc d) \<and>
           pulse_inv mc st' (ds @ [d])"
proof -
  from inv have s0: "slot0_inv mc st" and pd: "prev_desire st = prev_of mc ds"
    and ur: "nonneg_rows (desire_20Hz st)" by (simp_all add: pulse_inv_def)
  from s0 have wf: "wf_state mc st" by (simp add: slot0_inv_def)
  from slot0_inv_step[OF s0 D wi we]
  obtain st' inp' out d0 where r: "run_call mc e st c = Inr (st', inp', out)"
    and d0: "map_of (c_inputs c) ''desire'' = Some d0"
    and pd': "prev_desire st' = d0[0 := 0]"
    and l: "last (desire_20Hz st') = pulse (d0[0 := 0]) (prev_desire st)"
    and s0': "slot0_inv mc st'" by blast
  from d d0 have e: "d0[0 := 0] = edge_vec mc d" by (simp add: vec_desire_clear0)
  from run_call_facts[OF wf D wi we] r d0
  have h: "desire_20Hz st' = tl (desire_20Hz st) @ [pulse (d0[0 := 0]) (prev_desire st)]"
    by auto
  have pv: "pulse (d0[0 := 0]) (prev_desire st)
            = (if ds \<noteq> [] \<and> last ds = d then zeros (DESIRE_LEN mc) else edge_vec mc d)"
    unfolding e pd by (rule pulse_of_prev)
  have nn: "list_all (\<lambda>x. 0 \<le> x) (pulse (d0[0 := 0]) (prev_desire st))"
    unfolding pv by (simp add: edge_vec_nonneg zeros_nonneg)
  have ur': "nonneg_rows (desire_20Hz st')"
    unfolding nonneg_rows_def h using ur nn
    by (intro list_all_tl_snoc) (simp_all add: nonneg_rows_def)
  have "pulse_inv mc st' (ds @ [d])"
    unfolding pulse_inv_def using s0' pd' ur' by (simp add: e prev_of_def)
  with r l pv show ?thesis by auto
qed

lemma desire_calls_snoc:
  "desire_calls mc (cs @ [c]) ds' \<longleftrightarrow>
   (\<exists>ds d. ds' = ds @ [d] \<and> desire_calls mc cs ds \<and> wf_inputs mc (c_inputs c) \<and>
            map_of (c_inputs c) ''desire'' = Some (vec_desire mc d))"
proof
  assume "desire_calls mc (cs @ [c]) ds'"
  then obtain us vs where u: "ds' = us @ vs" "list_all2 (\<lambda>c d. wf_inputs mc (c_inputs c) \<and>
                 map_of (c_inputs c) ''desire'' = Some (vec_desire mc d)) cs us"
      "list_all2 (\<lambda>c d. wf_inputs mc (c_inputs c) \<and>
                 map_of (c_inputs c) ''desire'' = Some (vec_desire mc d)) [c] vs"
    unfolding desire_calls_def list_all2_append1 by blast
  from u(3) obtain z where "vs = [z]" "wf_inputs mc (c_inputs c)"
      "map_of (c_inputs c) ''desire'' = Some (vec_desire mc z)"
    by (auto simp: list_all2_Cons1)
  with u show "\<exists>ds d. ds' = ds @ [d] \<and> desire_calls mc cs ds \<and> wf_inputs mc (c_inputs c) \<and>
            map_of (c_inputs c) ''desire'' = Some (vec_desire mc d)"
    unfolding desire_calls_def by blast
next
  assume "\<exists>ds d. ds' = ds @ [d] \<and> desire_calls mc cs ds \<and> wf_inputs mc (c_inputs c) \<and>
            map_of (c_inputs c) ''desire'' = Some (vec_desire mc d)"
  then show "desire_calls mc (cs @ [c]) ds'"
    unfolding desire_calls_def by (auto intro!: list_all2_appendI)
qed

lemma run_calls_pulse:
  assumes co: "consistent tg mc" and we: "wf_engine mc e"
    and dc: "desire_calls mc cs ds"
  shows "\<exists>st rs. run_calls mc e (ModelState_init tg mc) cs = Inr (st, rs) \<and> pulse_inv mc st ds"
  using dc
proof (induction cs arbitrary: ds rule: rev_induct)
  case Nil
  then show ?case using pulse_inv_init[OF co] by (simp add: desire_calls_def)
next
  case (snoc c cs)
  from snoc.prems obtain ds0 d where ds: "ds = ds0 @ [d]" and dc0: "desire_calls mc cs ds0"
    and wic: "wf_inputs mc (c_inputs c)"
    and dd: "map_of (c_inputs c) ''desire'' = Some (vec_desire mc d)"
    by (auto simp: desire_calls_snoc)
  from snoc.IH[OF dc0] obtain st rs where r: "run_calls mc e (ModelState_init tg mc) cs = Inr (st, rs)"
    and inv: "pulse_inv mc st ds0" by auto
  from co have D: "0 < DESIRE_LEN mc" by (simp add: consistent_def)
  from pulse_inv_step[OF inv D wic we dd]
  obtain st' inp' out where s: "run_call mc e st c = Inr (st', inp', out)"
    and inv': "pulse_inv mc st' (ds0 @ [d])" by blast
  have "run_calls mc e (ModelState_init tg mc) (cs @ [c]) = Inr (st', rs @ [(inp', out)])"
    by (simp add: run_calls_snoc r s)
  with inv' ds show ?case by auto
qed

lemma max4_single:
  assumes "0 \<le> a" "0 \<le> b" "0 \<le> c" "0 \<le> d"
  shows "b = 0 \<Longrightarrow> c = 0 \<Longrightarrow> d = 0 \<Longrightarrow> max4 a b c d = a"
    and "a = 0 \<Longrightarrow> c = 0 \<Longrightarrow> d = 0 \<Longrightarrow> max4 a b c d = b"
    and "a = 0 \<Longrightarrow> b = 0 \<Longrightarrow> d = 0 \<Longrightarrow> max4 a b c d = c"
    and "a = 0 \<Longrightarrow> b = 0 \<Longrightarrow> c = 0 \<Longrightarrow> max4 a b c d = d"
  using assms by (simp_all add: max4_def max_def)

section \<open>The example configuration is well formed\<close>

lemma consistent_example: "consistent all_enabled upstream_constants"
  by (simp add: consistent_def all_enabled_def upstream_constants_def)

lemma wf_engine_example: "wf_engine mc (example_engine mc)"
  by (simp add: wf_engine_def example_engine_def)

lemma wf_inputs_example: "wf_inputs upstream_constants (c_inputs (example_call d po))"
  by (simp add: wf_inputs_def example_call_def cycle_inputs_def all_enabled_def has_len_def
      length_vec_desire, simp add: upstream_constants_def)

lemma desire_example:
  "map_of (c_inputs (example_call d po)) ''desire'' = Some (vec_desire upstream_constants d)"
  by (simp add: example_call_def cycle_inputs_def)

section \<open>Causal lag of the feature history\<close>

text \<open>
  Claim C2. In any sequence of cycles that ends with an executing call, the engine of that
  last cycle is executed on a \<^verbatim>\<open>features_buffer\<close> that is the strided selection from the
  history of the hidden states returned in the earlier cycles \<open>rs\<close> (zero rows where
  there are fewer than 99), and on an all-zero \<^verbatim>\<open>prev_desired_curv\<close>; only after this
  execution does the history take the cycle's own hidden state, and the buffer is rewritten
  from it for the next cycle.
\<close>

theorem causal_lag:
  assumes "consistent tg mc" and "wf_engine mc execute"
    and "list_all (\<lambda>c. wf_inputs mc (c_inputs c)) (cs @ [c])"
    and "\<not> c_prepare_only c"
  shows "\<exists>st rs ins st' inp'.
           run_calls mc execute (ModelState_init tg mc) cs = Inr (st, rs) \<and>
           run_call mc execute st c =
             Inr (st', inp', Some (execute (c_buf c) (c_transform c) (c_wbuf c)
                                    (c_transform_wide c) ins)) \<and>
           map_of ins ''features_buffer'' = Some (strided (history mc (executed rs))) \<and>
           map_of ins ''prev_desired_curv'' =
             Some (zeros (PREV_DESIRED_CURV_LEN mc * (HISTORY_BUFFER_LEN mc + 1))) \<and>
           full_features_20Hz st' =
             history mc (executed rs @ [execute (c_buf c) (c_transform c) (c_wbuf c)
                                          (c_transform_wide c) ins]) \<and>
           map_of (inputs st') ''features_buffer'' = Some (strided (full_features_20Hz st'))"
proof -
  from assms(3) have wcs: "list_all (\<lambda>c. wf_inputs mc (c_inputs c)) cs"
    and wc: "wf_inputs mc (c_inputs c)" by simp_all
  from run_calls_lag[OF assms(1,2) wcs]
  obtain st rs where r: "run_calls mc execute (ModelState_init tg mc) cs = Inr (st, rs)"
    and inv: "lag_inv mc st rs" by blast
  from inv have wf: "wf_state mc st"
    and ff: "full_features_20Hz st = history mc (executed rs)"
    and fb: "map_of (inputs st) ''features_buffer'' = Some (strided (history mc (executed rs)))"
    and pc: "map_of (inputs st) ''prev_desired_curv'' =
       Some (zeros (PREV_DESIRED_CURV_LEN mc * (HISTORY_BUFFER_LEN mc + 1)))"
    by (simp_all add: lag_inv_def)
  from assms(1) have D: "0 < DESIRE_LEN mc" by (simp add: consistent_def)
  from wc obtain d0 where d0: "map_of (c_inputs c) ''desire'' = Some d0"
    by (auto simp: wf_inputs_def dest!: has_lenD)
  from run_execute[OF wf D wc assms(2) d0,
      of "c_buf c" "c_wbuf c" "c_transform c" "c_transform_wide c"]
  obtain st' ins where
    s: "run_call mc execute st c = Inr (st', AList.update ''desire'' (d0[0 := 0]) (c_inputs c),
          Some (execute (c_buf c) (c_transform c) (c_wbuf c) (c_transform_wide c) ins))"
    and i1: "map_of ins ''features_buffer'' = map_of (inputs st) ''features_buffer''"
    and i2: "map_of ins ''prev_desired_curv'' = map_of (inputs st) ''prev_desired_curv''"
    and f1: "full_features_20Hz st' = tl (full_features_20Hz st)
           @ [hidden_state (execute (c_buf c) (c_transform c) (c_wbuf c) (c_transform_wide c) ins)]"
    and f2: "map_of (inputs st') ''features_buffer'' = Some (strided (full_features_20Hz st'))"
    unfolding run_call_def using assms(4) by auto
  have f1': "full_features_20Hz st' =
             history mc (executed rs @ [execute (c_buf c) (c_transform c) (c_wbuf c)
                                          (c_transform_wide c) ins])"
    unfolding f1 ff by (rule history_snoc)
  show ?thesis
    using r s i1[unfolded fb] i2[unfolded pc] f1' f2 by blast
qed

theorem causal_lag_witness:
  "consistent all_enabled upstream_constants \<and>
   wf_engine upstream_constants (example_engine upstream_constants) \<and>
   list_all (\<lambda>c. wf_inputs upstream_constants (c_inputs c))
     ([example_call 3 False, example_call 3 True] @ [example_call 3 False]) \<and>
   \<not> c_prepare_only (example_call 3 False) \<and>
   (\<exists>st rs ins st' inp'.
           run_calls upstream_constants (example_engine upstream_constants)
             (ModelState_init all_enabled upstream_constants)
             [example_call 3 False, example_call 3 True] = Inr (st, rs) \<and>
           run_call upstream_constants (example_engine upstream_constants) st (example_call 3 False) =
             Inr (st', inp', Some (example_engine upstream_constants () () () () ins)) \<and>
           map_of ins ''features_buffer'' = Some (strided (history upstream_constants (executed rs))) \<and>
           map_of ins ''prev_desired_curv'' =
             Some (zeros (PREV_DESIRED_CURV_LEN upstream_constants *
                     (HISTORY_BUFFER_LEN upstream_constants + 1))) \<and>
           full_features_20Hz st' =
             history upstream_constants
               (executed rs @ [example_engine upstream_constants () () () () ins]) \<and>
           map_of (inputs st') ''features_buffer'' = Some (strided (full_features_20Hz st')))"
proof -
  have h1: "consistent all_enabled upstream_constants" by (rule consistent_example)
  have h2: "wf_engine upstream_constants (example_engine upstream_constants)"
    by (rule wf_engine_example)
  have h3: "list_all (\<lambda>c. wf_inputs upstream_constants (c_inputs c))
     ([example_call 3 False, example_call 3 True] @ [example_call 3 False])"
    by (simp add: wf_inputs_example)
  have h4: "\<not> c_prepare_only (example_call 3 False)" by (simp add: example_call_def)
  from causal_lag[OF h1 h2 h3 h4] h1 h2 h3 h4 show ?thesis
    by (simp add: example_call_def)
qed

section \<open>Slot 0 of the desire\<close>

text \<open>
  Claim C10. In any sequence of cycles, the last call (hence every call) leaves element 0
  of the caller's desire vector at 0 and stores that vector as \<^verbatim>\<open>prev_desire\<close>; the pulse
  it appends to the high-rate history is computed from the cleared vector and has slot 0
  equal to 0, as has every row of the history and slot 0 of each of the 25 groups of the
  pooled desire input.
\<close>

theorem desire_slot0_zero:
  assumes "consistent tg mc" and "wf_engine mc execute"
    and "list_all (\<lambda>c. wf_inputs mc (c_inputs c)) (cs @ [c])"
  shows "\<exists>st rs st' inp' out d0 pooled.
           run_calls mc execute (ModelState_init tg mc) cs = Inr (st, rs) \<and>
           run_call mc execute st c = Inr (st', inp', out) \<and>
           map_of (c_inputs c) ''desire'' = Some d0 \<and>
           map_of inp' ''desire'' = Some (d0[0 := 0]) \<and> d0[0 := 0] ! 0 = 0 \<and>
           prev_desire st' = d0[0 := 0] \<and>
           last (desire_20Hz st') = pulse (d0[0 := 0]) (prev_desire st) \<and>
           pulse (d0[0 := 0]) (prev_desire st) ! 0 = 0 \<and>
           list_all (\<lambda>r. r ! 0 = 0) (desire_20Hz st') \<and>
           map_of (inputs st') ''desire'' = Some pooled \<and>
           list_all (\<lambda>g. pooled ! (g * DESIRE_LEN mc) = 0) [0..<25]"
proof -
  from assms(3) have wcs: "list_all (\<lambda>c. wf_inputs mc (c_inputs c)) cs"
    and wc: "wf_inputs mc (c_inputs c)" by simp_all
  from assms(1) have D: "0 < DESIRE_LEN mc" by (simp add: consistent_def)
  from run_calls_slot0[OF assms(1,2) wcs]
  obtain st rs where r: "run_calls mc execute (ModelState_init tg mc) cs = Inr (st, rs)"
    and inv: "slot0_inv mc st" by blast
  from slot0_inv_step[OF inv D wc assms(2)]
  obtain st' inp' out d0 where s: "run_call mc execute st c = Inr (st', inp', out)"
    and f: "map_of (c_inputs c) ''desire'' = Some d0"
      "map_of inp' ''desire'' = Some (d0[0 := 0])" "d0[0 := 0] ! 0 = 0"
      "prev_desire st' = d0[0 := 0]"
      "last (desire_20Hz st') = pulse (d0[0 := 0]) (prev_desire st)"
      "pulse (d0[0 := 0]) (prev_desire st) ! 0 = 0"
    and inv': "slot0_inv mc st'" by blast
  from inv' have la: "list_all (\<lambda>r. r ! 0 = 0) (desire_20Hz st')"
    and po: "map_of (inputs st') ''desire'' = Some (pool_rows (desire_20Hz st') (DESIRE_LEN mc))"
    by (simp_all add: slot0_inv_def)
  have pz: "list_all (\<lambda>g. pool_rows (desire_20Hz st') (DESIRE_LEN mc) ! (g * DESIRE_LEN mc) = 0) [0..<25]"
    using pooled_slot0[OF inv' D] by (simp add: list_all_iff)
  show ?thesis using r s f la po pz by blast
qed

theorem desire_slot0_zero_witness:
  "consistent all_enabled upstream_constants \<and>
   wf_engine upstream_constants (example_engine upstream_constants) \<and>
   list_all (\<lambda>c. wf_inputs upstream_constants (c_inputs c))
     ([example_call 0 False, example_call 3 True] @ [example_call 0 False]) \<and>
   (\<exists>st rs st' inp' out d0 pooled.
           run_calls upstream_constants (example_engine upstream_constants)
             (ModelState_init all_enabled upstream_constants)
             [example_call 0 False, example_call 3 True] = Inr (st, rs) \<and>
           run_call upstream_constants (example_engine upstream_constants) st
             (example_call 0 False) = Inr (st', inp', out) \<and>
           map_of (c_inputs (example_call 0 False)) ''desire'' = Some d0 \<and>
           map_of inp' ''desire'' = Some (d0[0 := 0]) \<and> d0[0 := 0] ! 0 = 0 \<and>
           prev_desire st' = d0[0 := 0] \<and>
           last (desire_20Hz st') = pulse (d0[0 := 0]) (prev_desire st) \<and>
           pulse (d0[0 := 0]) (prev_desire st) ! 0 = 0 \<and>
           list_all (\<lambda>r. r ! 0 = 0) (desire_20Hz st') \<and>
           map_of (inputs st') ''desire'' = Some pooled \<and>
           list_all (\<lambda>g. pooled ! (g * DESIRE_LEN upstream_constants) = 0) [0..<25])"
proof -
  have h1: "consistent all_enabled upstream_constants" by (rule consistent_example)
  have h2: "wf_engine upstream_constants (example_engine upstream_constants)"
    by (rule wf_engine_example)
  have h3: "list_all (\<lambda>c. wf_inputs upstream_constants (c_inputs c))
     ([example_call 0 False, example_call 3 True] @ [example_call 0 False])"
    by (simp add: wf_inputs_example)
  from desire_slot0_zero[OF h1 h2 h3] h1 h2 h3 show ?thesis by blast
qed

section \<open>What prev_desire holds after a call\<close>

lemma run_call_prev_desire:
  assumes "wf_state mc st" and "0 < DESIRE_LEN mc"
    and "wf_inputs mc (c_inputs c)" and "wf_engine mc execute"
    and "map_of (c_inputs c) ''desire'' = Some d0"
  shows "\<exists>st' inp' out. run_call mc execute st c = Inr (st', inp', out) \<and>
           prev_desire st' = d0[0 := 0] \<and> map_of inp' ''desire'' = Some (prev_desire st')"
proof -
  from run_call_facts[OF assms(1-4)] assms(5)
  show ?thesis by (auto simp: update_conv')
qed

lemma zeros_8: "zeros 8 = [0, 0, 0, 0, 0, 0, 0, 0]"
  by (simp add: zeros_def numeral_eq_Suc)

lemma vec_desire_upstream_0: "vec_desire upstream_constants 0 = [1, 0, 0, 0, 0, 0, 0, 0]"
  by (simp add: vec_desire_def upstream_constants_def zeros_8)

lemma first_call_prev_desire:
  "map_option prev_desire
     (result_state (run_call upstream_constants (example_engine upstream_constants)
        (ModelState_init all_enabled upstream_constants) (example_call 0 False)))
   = Some [0, 0, 0, 0, 0, 0, 0, 0]"
proof -
  have wf: "wf_state upstream_constants (ModelState_init all_enabled upstream_constants)"
    by (rule wf_state_init[OF consistent_example])
  have D: "0 < DESIRE_LEN upstream_constants" by (simp add: upstream_constants_def)
  from run_call_prev_desire[OF wf D wf_inputs_example wf_engine_example desire_example]
  obtain st' inp' out where
    "run_call upstream_constants (example_engine upstream_constants)
        (ModelState_init all_enabled upstream_constants) (example_call 0 False) = Inr (st', inp', out)"
    "prev_desire st' = (vec_desire upstream_constants 0)[0 := 0]" by blast
  then show ?thesis by (simp add: result_state_def vec_desire_upstream_0)
qed

text \<open>
  Claim C6, as stated, fails on the first call with maneuver index 0: \<^verbatim>\<open>main\<close>
  passes the one-hot vector with a 1 in slot 0, and \<^verbatim>\<open>prev_desire\<close> is all zero
  after the call.
\<close>

theorem prev_desire_not_raw_input:
  "map_of (c_inputs (example_call 0 False)) ''desire'' = Some [1, 0, 0, 0, 0, 0, 0, 0] \<and>
   map_option prev_desire
     (result_state (run_call upstream_constants (example_engine upstream_constants)
        (ModelState_init all_enabled upstream_constants) (example_call 0 False)))
   = Some [0, 0, 0, 0, 0, 0, 0, 0]"
  using first_call_prev_desire by (simp add: desire_example vec_desire_upstream_0)

text \<open>
  Claim C6, amended. On every call, \<^verbatim>\<open>prev_desire\<close> becomes the input desire vector
  with element 0 forced to 0, which is what the caller's array holds after the call; it
  depends on neither the pulse nor the previous \<^verbatim>\<open>prev_desire\<close>.
\<close>

theorem prev_desire_is_cleared_input:
  assumes "wf_state mc st" and "0 < DESIRE_LEN mc"
    and "wf_inputs mc (c_inputs c)" and "wf_engine mc execute"
    and "map_of (c_inputs c) ''desire'' = Some d0"
  shows "\<exists>st' inp' out. run_call mc execute st c = Inr (st', inp', out) \<and>
           prev_desire st' = d0[0 := 0] \<and> map_of inp' ''desire'' = Some (prev_desire st')"
  using assms by (rule run_call_prev_desire)

theorem prev_desire_is_cleared_input_witness:
  "wf_state upstream_constants (ModelState_init all_enabled upstream_constants) \<and>
   0 < DESIRE_LEN upstream_constants \<and>
   wf_inputs upstream_constants (c_inputs (example_call 3 True)) \<and>
   wf_engine upstream_constants (example_engine upstream_constants) \<and>
   map_of (c_inputs (example_call 3 True)) ''desire'' = Some [0, 0, 0, 1, 0, 0, 0, 0] \<and>
   (\<exists>st' inp' out.
      run_call upstream_constants (example_engine upstream_constants)
        (ModelState_init all_enabled upstream_constants) (example_call 3 True)
        = Inr (st', inp', out) \<and>
      prev_desire st' = [0, 0, 0, 1, 0, 0, 0, 0] \<and>
      map_of inp' ''desire'' = Some (prev_desire st'))"
proof -
  have wf: "wf_state upstream_constants (ModelState_init all_enabled upstream_constants)"
    by (rule wf_state_init[OF consistent_example])
  have D: "0 < DESIRE_LEN upstream_constants" by (simp add: upstream_constants_def)
  have v: "vec_desire upstream_constants 3 = [0, 0, 0, 1, 0, 0, 0, 0]"
    by (simp add: vec_desire_def upstream_constants_def zeros_8)
  have d: "map_of (c_inputs (example_call 3 True)) ''desire'' = Some [0, 0, 0, 1, 0, 0, 0, 0]"
    by (simp add: desire_example v)
  from prev_desire_is_cleared_input[OF wf D wf_inputs_example wf_engine_example d]
  show ?thesis using wf D wf_inputs_example[of 3 True] wf_engine_example d by simp
qed

section \<open>The pulse along a sequence of maneuver indices\<close>

lemma run_calls_last_pulse:
  assumes co: "consistent tg mc" and we: "wf_engine mc execute"
    and dc: "desire_calls mc (cs @ [c]) (ds @ [d])"
  shows "\<exists>st rs. run_calls mc execute (ModelState_init tg mc) (cs @ [c]) = Inr (st, rs) \<and>
           last (desire_20Hz st) =
             (if 0 < d \<and> d < int (DESIRE_LEN mc) \<and> (ds = [] \<or> last ds \<noteq> d)
              then (zeros (DESIRE_LEN mc))[nat d := 1] else zeros (DESIRE_LEN mc)) \<and>
           (last (desire_20Hz st) \<noteq> zeros (DESIRE_LEN mc) \<longleftrightarrow>
              0 < d \<and> d < int (DESIRE_LEN mc) \<and> (ds = [] \<or> last ds \<noteq> d))"
proof -
  from dc have dcs: "desire_calls mc cs ds" and wic: "wf_inputs mc (c_inputs c)"
    and dd: "map_of (c_inputs c) ''desire'' = Some (vec_desire mc d)"
    by (auto simp: desire_calls_snoc)
  from run_calls_pulse[OF co we dcs]
  obtain st rs where r: "run_calls mc execute (ModelState_init tg mc) cs = Inr (st, rs)"
    and inv: "pulse_inv mc st ds" by blast
  from co have D: "0 < DESIRE_LEN mc" by (simp add: consistent_def)
  from pulse_inv_step[OF inv D wic we dd]
  obtain st' inp' out where s: "run_call mc execute st c = Inr (st', inp', out)"
    and l: "last (desire_20Hz st') =
             (if ds \<noteq> [] \<and> last ds = d then zeros (DESIRE_LEN mc) else edge_vec mc d)"
    by blast
  have rc: "run_calls mc execute (ModelState_init tg mc) (cs @ [c]) = Inr (st', rs @ [(inp', out)])"
    by (simp add: run_calls_snoc r s)
  have l1: "last (desire_20Hz st') =
             (if 0 < d \<and> d < int (DESIRE_LEN mc) \<and> (ds = [] \<or> last ds \<noteq> d)
              then (zeros (DESIRE_LEN mc))[nat d := 1] else zeros (DESIRE_LEN mc))"
    unfolding l by (auto simp: edge_vec_def)
  have l2: "last (desire_20Hz st') \<noteq> zeros (DESIRE_LEN mc) \<longleftrightarrow>
              0 < d \<and> d < int (DESIRE_LEN mc) \<and> (ds = [] \<or> last ds \<noteq> d)"
    unfolding l using edge_vec_nonzero[of mc d] by auto
  from rc l1 l2 show ?thesis by blast
qed

lemma desire_calls_example:
  "desire_calls upstream_constants (map (\<lambda>d. example_call d po) ds) ds"
  by (induction ds) (simp_all add: desire_calls_def wf_inputs_example desire_example)

lemma zeros_upstream: "zeros (DESIRE_LEN upstream_constants) = [0, 0, 0, 0, 0, 0, 0, 0]"
  by (simp add: upstream_constants_def zeros_8)

text \<open>
  Claim C3, as stated, fails when the maneuver index goes from 1 to 0: relative to the
  previous call, slot 0 of the vector that \<^verbatim>\<open>main\<close> passes goes from 0 to 1, a first
  transition into the desire of index 0, and the pulse of that cycle is all zero.
\<close>

theorem no_pulse_on_onset_of_index_0:
  "vec_desire upstream_constants 1 ! 0 = 0 \<and> vec_desire upstream_constants 0 ! 0 = 1 \<and>
   map_option (last \<circ> desire_20Hz)
     (result_state (run_calls upstream_constants (example_engine upstream_constants)
        (ModelState_init all_enabled upstream_constants)
        [example_call 1 False, example_call 0 False]))
   = Some [0, 0, 0, 0, 0, 0, 0, 0]"
proof -
  have dc: "desire_calls upstream_constants ([example_call 1 False] @ [example_call 0 False]) ([1] @ [0])"
    using desire_calls_example[of False "[1, 0]"] by simp
  from run_calls_last_pulse[OF consistent_example wf_engine_example dc]
  obtain st rs where "run_calls upstream_constants (example_engine upstream_constants)
        (ModelState_init all_enabled upstream_constants)
        ([example_call 1 False] @ [example_call 0 False]) = Inr (st, rs)"
    "last (desire_20Hz st) = zeros (DESIRE_LEN upstream_constants)"
    by auto
  then have "map_option (last \<circ> desire_20Hz)
     (result_state (run_calls upstream_constants (example_engine upstream_constants)
        (ModelState_init all_enabled upstream_constants)
        [example_call 1 False, example_call 0 False]))
   = Some [0, 0, 0, 0, 0, 0, 0, 0]"
    by (simp add: result_state_def zeros_upstream)
  moreover have "vec_desire upstream_constants 1 ! 0 = 0"
    by (simp add: vec_desire_def upstream_constants_def zeros_8)
  moreover have "vec_desire upstream_constants 0 ! 0 = 1"
    by (simp add: vec_desire_upstream_0)
  ultimately show ?thesis by simp
qed

text \<open>
  Claim C3, amended. For any sequence of maneuver indices, one per call, the pulse of the
  last call (the row it appends to the high-rate history) is nonzero if and only if the
  index is one of \<open>1, \<dots>, DESIRE_LEN - 1\<close> and differs from the index of the previous
  call, or there is no previous call; it is then the one-hot vector of that index. On a
  repeat of the same index, for index 0 and for an index out of range it is all zero.
\<close>

theorem pulse_iff_onset:
  assumes "consistent tg mc" and "wf_engine mc execute"
    and "desire_calls mc (cs @ [c]) (ds @ [d])"
  shows "\<exists>st rs. run_calls mc execute (ModelState_init tg mc) (cs @ [c]) = Inr (st, rs) \<and>
           last (desire_20Hz st) =
             (if 0 < d \<and> d < int (DESIRE_LEN mc) \<and> (ds = [] \<or> last ds \<noteq> d)
              then (zeros (DESIRE_LEN mc))[nat d := 1] else zeros (DESIRE_LEN mc)) \<and>
           (last (desire_20Hz st) \<noteq> zeros (DESIRE_LEN mc) \<longleftrightarrow>
              0 < d \<and> d < int (DESIRE_LEN mc) \<and> (ds = [] \<or> last ds \<noteq> d))"
  using assms by (rule run_calls_last_pulse)

theorem pulse_iff_onset_witness:
  "consistent all_enabled upstream_constants \<and>
   wf_engine upstream_constants (example_engine upstream_constants) \<and>
   desire_calls upstream_constants
     ([example_call 3 False, example_call 3 False] @ [example_call 4 False]) ([3, 3] @ [4]) \<and>
   (\<exists>st rs. run_calls upstream_constants (example_engine upstream_constants)
        (ModelState_init all_enabled upstream_constants)
        ([example_call 3 False, example_call 3 False] @ [example_call 4 False]) = Inr (st, rs) \<and>
      last (desire_20Hz st) = [0, 0, 0, 0, 1, 0, 0, 0] \<and>
      last (desire_20Hz st) \<noteq> zeros (DESIRE_LEN upstream_constants))"
proof -
  have dc: "desire_calls upstream_constants
     ([example_call 3 False, example_call 3 False] @ [example_call 4 False]) ([3, 3] @ [4])"
    using desire_calls_example[of False "[3, 3, 4]"] by simp
  from pulse_iff_onset[OF consistent_example wf_engine_example dc]
  obtain st rs where r: "run_calls upstream_constants (example_engine upstream_constants)
        (ModelState_init all_enabled upstream_constants)
        ([example_call 3 False, example_call 3 False] @ [example_call 4 False]) = Inr (st, rs)"
    and l: "last (desire_20Hz st) =
             (if 0 < (4::int) \<and> 4 < int (DESIRE_LEN upstream_constants) \<and> ([3, 3] = ([]::int list) \<or> last [3, 3] \<noteq> (4::int))
              then (zeros (DESIRE_LEN upstream_constants))[nat 4 := 1]
              else zeros (DESIRE_LEN upstream_constants))"
    and n: "last (desire_20Hz st) \<noteq> zeros (DESIRE_LEN upstream_constants) \<longleftrightarrow>
              0 < (4::int) \<and> 4 < int (DESIRE_LEN upstream_constants) \<and> ([3, 3] = ([]::int list) \<or> last [3, 3] \<noteq> (4::int))"
    by blast
  have l': "last (desire_20Hz st) = [0, 0, 0, 0, 1, 0, 0, 0]"
    unfolding l zeros_upstream by (simp add: upstream_constants_def)
  have n': "last (desire_20Hz st) \<noteq> zeros (DESIRE_LEN upstream_constants)"
    unfolding n by (simp add: upstream_constants_def)
  from r l' n' consistent_example wf_engine_example[of upstream_constants] dc
  show ?thesis by blast
qed

section \<open>Max-pooling of the high-rate desire history\<close>

lemma nonneg_rows_nth:
  assumes "nonneg_rows rows" "shape rows r c" "i < r" "j < c"
  shows "0 \<le> rows ! i ! j"
proof -
  from assms(2,3) have i: "i < length rows" and l: "length (rows ! i) = c"
    by (auto simp: shape_def list_all_length)
  from assms(1) i have "list_all (\<lambda>x. 0 \<le> x) (rows ! i)"
    by (simp add: nonneg_rows_def list_all_length)
  with l assms(4) show ?thesis by (simp add: list_all_length)
qed

lemma pool_rows_single:
  assumes ur: "nonneg_rows rows" and sh: "shape rows 100 w"
    and g: "g < 25" and j: "j < w" and k: "k < 4"
    and others: "\<forall>k'<4. k' \<noteq> k \<longrightarrow> rows ! (4 * g + k') ! j = 0"
  shows "pool_rows rows w ! (g * w + j) = rows ! (4 * g + k) ! j"
proof -
  have nn: "0 \<le> rows ! (4 * g + m) ! j" if "m < 4" for m
    by (rule nonneg_rows_nth[OF ur sh]) (use that g j in simp_all)
  from nn[of 0] nn[of 1] nn[of 2] nn[of 3]
  have n0: "0 \<le> rows ! (4 * g) ! j" and n1: "0 \<le> rows ! (4 * g + 1) ! j"
    and n2: "0 \<le> rows ! (4 * g + 2) ! j" and n3: "0 \<le> rows ! (4 * g + 3) ! j"
    by simp_all
  have p: "pool_rows rows w ! (g * w + j) =
         max4 (rows ! (4 * g) ! j) (rows ! (4 * g + 1) ! j)
              (rows ! (4 * g + 2) ! j) (rows ! (4 * g + 3) ! j)"
    by (rule pool_rows_nth[OF g j])
  from k consider "k = 0" | "k = 1" | "k = 2" | "k = 3" by linarith
  then show ?thesis
  proof cases
    case 1
    with others[rule_format, of 1] others[rule_format, of 2] others[rule_format, of 3]
    have "rows ! (4 * g + 1) ! j = 0" "rows ! (4 * g + 2) ! j = 0"
      "rows ! (4 * g + 3) ! j = 0" by simp_all
    with p 1 n0 n1 n2 n3 show ?thesis by (simp add: max4_def max_def)
  next
    case 2
    with others[rule_format, of 0] others[rule_format, of 2] others[rule_format, of 3]
    have "rows ! (4 * g) ! j = 0" "rows ! (4 * g + 2) ! j = 0"
      "rows ! (4 * g + 3) ! j = 0" by simp_all
    with p 2 n0 n1 n2 n3 show ?thesis by (simp add: max4_def max_def)
  next
    case 3
    with others[rule_format, of 0] others[rule_format, of 1] others[rule_format, of 3]
    have "rows ! (4 * g) ! j = 0" "rows ! (4 * g + 1) ! j = 0"
      "rows ! (4 * g + 3) ! j = 0" by simp_all
    with p 3 n0 n1 n2 n3 show ?thesis by (simp add: max4_def max_def)
  next
    case 4
    with others[rule_format, of 0] others[rule_format, of 1] others[rule_format, of 2]
    have "rows ! (4 * g) ! j = 0" "rows ! (4 * g + 1) ! j = 0"
      "rows ! (4 * g + 2) ! j = 0" by simp_all
    with p 4 n0 n1 n2 n3 show ?thesis by (simp add: max4_def max_def)
  qed
qed

text \<open>
  Claim C5. After any sequence of cycles, each called with the one-hot vector of a maneuver
  index, take a group \<open>g\<close> of 4 consecutive rows of the high-rate history and a slot \<open>j\<close>:
  if exactly one of the four entries, at position \<open>k\<close>, is nonzero, the pooled desire input
  holds that entry at group \<open>g\<close>, slot \<open>j\<close>, whatever \<open>k\<close> is.
\<close>

theorem pooled_single_entry:
  assumes "consistent tg mc" and "wf_engine mc execute" and "desire_calls mc cs ds"
  shows "\<exists>st rs pooled.
           run_calls mc execute (ModelState_init tg mc) cs = Inr (st, rs) \<and>
           map_of (inputs st) ''desire'' = Some pooled \<and>
           (\<forall>g<25. \<forall>j<DESIRE_LEN mc. \<forall>k<4.
              desire_20Hz st ! (4 * g + k) ! j \<noteq> 0 \<and>
              (\<forall>k'<4. k' \<noteq> k \<longrightarrow> desire_20Hz st ! (4 * g + k') ! j = 0) \<longrightarrow>
              pooled ! (g * DESIRE_LEN mc + j) = desire_20Hz st ! (4 * g + k) ! j)"
proof -
  from run_calls_pulse[OF assms]
  obtain st rs where r: "run_calls mc execute (ModelState_init tg mc) cs = Inr (st, rs)"
    and inv: "pulse_inv mc st ds" by blast
  from inv have ur: "nonneg_rows (desire_20Hz st)"
    and sh: "shape (desire_20Hz st) 100 (DESIRE_LEN mc)"
    and po: "map_of (inputs st) ''desire'' = Some (pool_rows (desire_20Hz st) (DESIRE_LEN mc))"
    by (simp_all add: pulse_inv_def slot0_inv_def wf_state_def)
  have "\<forall>g<25. \<forall>j<DESIRE_LEN mc. \<forall>k<4.
              desire_20Hz st ! (4 * g + k) ! j \<noteq> 0 \<and>
              (\<forall>k'<4. k' \<noteq> k \<longrightarrow> desire_20Hz st ! (4 * g + k') ! j = 0) \<longrightarrow>
              pool_rows (desire_20Hz st) (DESIRE_LEN mc) ! (g * DESIRE_LEN mc + j)
                = desire_20Hz st ! (4 * g + k) ! j"
    using pool_rows_single[OF ur sh] by blast
  with r po show ?thesis by blast
qed

lemma single_call_history:
  "\<exists>st rs. run_calls upstream_constants (example_engine upstream_constants)
             (ModelState_init all_enabled upstream_constants) [example_call 1 False] = Inr (st, rs) \<and>
           desire_20Hz st = replicate 99 (zeros 8) @ [[0, 1, 0, 0, 0, 0, 0, 0]]"
proof -
  have wf: "wf_state upstream_constants (ModelState_init all_enabled upstream_constants)"
    by (rule wf_state_init[OF consistent_example])
  have D: "0 < DESIRE_LEN upstream_constants" by (simp add: upstream_constants_def)
  from run_call_facts[OF wf D wf_inputs_example wf_engine_example, of 1 False]
  obtain st' inp' out where
    r: "run_call upstream_constants (example_engine upstream_constants)
        (ModelState_init all_enabled upstream_constants) (example_call 1 False) = Inr (st', inp', out)"
    and h: "desire_20Hz st' = tl (desire_20Hz (ModelState_init all_enabled upstream_constants))
        @ [pulse ((vec_desire upstream_constants 1)[0 := 0])
             (prev_desire (ModelState_init all_enabled upstream_constants))]"
    by (auto simp: desire_example)
  have p: "pulse ((vec_desire upstream_constants 1)[0 := 0])
             (prev_desire (ModelState_init all_enabled upstream_constants))
           = [0, 1, 0, 0, 0, 0, 0, 0]"
    unfolding vec_desire_clear0
    by (simp add: ModelState_init_def pulse_edge_zeros)
       (simp add: edge_vec_def upstream_constants_def zeros_8)
  have t: "tl (desire_20Hz (ModelState_init all_enabled upstream_constants)) = replicate 99 (zeros 8)"
    by (simp add: ModelState_init_def upstream_constants_def zeros2_def)
  show ?thesis using r h p t by simp
qed

theorem pooled_single_entry_witness:
  "consistent all_enabled upstream_constants \<and>
   wf_engine upstream_constants (example_engine upstream_constants) \<and>
   desire_calls upstream_constants [example_call 1 False] [1] \<and>
   (\<exists>st rs pooled.
      run_calls upstream_constants (example_engine upstream_constants)
        (ModelState_init all_enabled upstream_constants) [example_call 1 False] = Inr (st, rs) \<and>
      map_of (inputs st) ''desire'' = Some pooled \<and>
      desire_20Hz st ! 96 ! 1 = 0 \<and> desire_20Hz st ! 97 ! 1 = 0 \<and>
      desire_20Hz st ! 98 ! 1 = 0 \<and> desire_20Hz st ! 99 ! 1 = 1 \<and>
      pooled ! 193 = 1)"
proof -
  have dc: "desire_calls upstream_constants [example_call 1 False] [1]"
    using desire_calls_example[of False "[1]"] by simp
  from pooled_single_entry[OF consistent_example wf_engine_example dc]
  obtain st rs pooled where
    r: "run_calls upstream_constants (example_engine upstream_constants)
        (ModelState_init all_enabled upstream_constants) [example_call 1 False] = Inr (st, rs)"
    and po: "map_of (inputs st) ''desire'' = Some pooled"
    and a: "\<forall>g<25. \<forall>j<DESIRE_LEN upstream_constants. \<forall>k<4.
              desire_20Hz st ! (4 * g + k) ! j \<noteq> 0 \<and>
              (\<forall>k'<4. k' \<noteq> k \<longrightarrow> desire_20Hz st ! (4 * g + k') ! j = 0) \<longrightarrow>
              pooled ! (g * DESIRE_LEN upstream_constants + j) = desire_20Hz st ! (4 * g + k) ! j"
    by blast
  from single_call_history r
  have h: "desire_20Hz st = replicate 99 (zeros 8) @ [[0, 1, 0, 0, 0, 0, 0, 0]]" by auto
  have e: "desire_20Hz st ! 96 ! 1 = 0" "desire_20Hz st ! 97 ! 1 = 0"
      "desire_20Hz st ! 98 ! 1 = 0" "desire_20Hz st ! 99 ! 1 = 1"
    unfolding h by (simp_all add: nth_append zeros_def)
  have o: "\<forall>k'<4. k' \<noteq> 3 \<longrightarrow> desire_20Hz st ! (4 * 24 + k') ! 1 = 0"
  proof (intro allI impI)
    fix k' :: nat assume "k' < 4" "k' \<noteq> 3"
    then consider "k' = 0" | "k' = 1" | "k' = 2" by linarith
    then show "desire_20Hz st ! (4 * 24 + k') ! 1 = 0" using e by cases simp_all
  qed
  have "pooled ! (24 * DESIRE_LEN upstream_constants + 1) = desire_20Hz st ! (4 * 24 + 3) ! 1"
    using a[rule_format, of 24 1 3] o e(4) by (simp add: upstream_constants_def)
  then have "pooled ! 193 = 1" using e(4) by (simp add: upstream_constants_def)
  with r po e consistent_example wf_engine_example[of upstream_constants] dc
  show ?thesis by blast
qed

section \<open>Navigation grid\<close>

lemma encode_maneuvers_length:
  "encode_maneuvers ni ms = Inr ni' \<Longrightarrow> length ni' = length ni"
proof (induction ms arbitrary: ni)
  case Nil then show ?case by simp
next
  case (Cons m ms)
  then show ?case by (auto simp: Let_def split: if_splits)
qed

lemma encode_maneuvers_ok:
  "150 \<le> length ni \<Longrightarrow> \<exists>ni'. encode_maneuvers ni ms = Inr ni'"
proof (induction ms arbitrary: ni)
  case Nil then show ?case by simp
next
  case (Cons m ms)
  let ?di = "25 + py_int (distance m / 20)"
  show ?case
  proof (cases "0 \<le> ?di \<and> ?di < 50")
    case True
    then have b: "nat (?di * 3 + 2) < 150 \<and> nat (?di * 3 + 1) < 150 \<and> nat (?di * 3) < 150"
      by auto
    with Cons.prems True Cons.IH show ?thesis
      by (auto simp: Let_def)
  next
    case False
    with Cons show ?thesis by (auto simp: Let_def)
  qed
qed

lemma encode_maneuvers_out_of_range:
  "list_all (\<lambda>m. \<not> (0 \<le> 25 + py_int (distance m / 20) \<and> 25 + py_int (distance m / 20) < 50)) ms
   \<Longrightarrow> encode_maneuvers ni ms = Inr ni"
  by (induction ms) (auto simp: Let_def)

lemma py_int_12: "py_int (240 / 20) = 12"
  by (simp add: py_int_def)

lemma encode_nav_ok:
  assumes "150 \<le> length ni"
  shows "\<exists>nf' ni'. encode_nav tg sm nf ni = Inr (nf', ni') \<and> length ni' = length ni"
proof -
  from encode_maneuvers_ok[of "zeros (length ni)" "allManeuvers sm"] assms
  obtain ni2 where e: "encode_maneuvers (zeros (length ni)) (allManeuvers sm) = Inr ni2"
    by (auto simp: zeros_def)
  from encode_maneuvers_length[OF e] have "length ni2 = length ni" by (simp add: zeros_def)
  with e show ?thesis
    by (auto simp: encode_nav_def Let_def zeros_def)
qed

lemma py_int_floor: "0 \<le> x \<Longrightarrow> py_int x = \<lfloor>x\<rfloor>"
  by (simp add: py_int_def)

text \<open>
  Claim C7, as stated, fails for a negative distance that is not a multiple of 20. At
  distance \<open>- 519\<close> the bucket \<open>25 + floor (distance / 20)\<close> of the claim is \<open>- 1\<close>,
  outside 0 to 49, but line 305 truncates towards zero: its bucket is 0, and with the
  modifier \<open>right\<close> slot 2 of the instruction vector is set.
\<close>

theorem floor_bucket_out_of_range_sets_slot:
  "25 + \<lfloor>(- 519) / 20 :: real\<rfloor> = - 1 \<and>
   25 + py_int ((- 519) / 20) = 0 \<and>
   encode_nav all_enabled (example_sm [\<lparr>distance = - 519, modifier = ''right''\<rparr>])
     (zeros 256) (zeros 150) = Inr (zeros 256, (zeros 150)[2 := 1]) \<and>
   (zeros 150)[2 := 1] ! 2 = 1 \<and> zeros 150 ! 2 = 0"
proof -
  have f: "\<lfloor>(- 519) / 20 :: real\<rfloor> = - 26" by (simp add: floor_eq_iff)
  have c: "py_int ((- 519) / 20) = - 25"
    by (simp add: py_int_def ceiling_eq_iff)
  have e: "encode_maneuvers (zeros 150) [\<lparr>distance = - 519, modifier = ''right''\<rparr>]
        = Inr ((zeros 150)[2 := 1])"
    using c by (simp add: Let_def zeros_def)
  have n: "encode_nav all_enabled (example_sm [\<lparr>distance = - 519, modifier = ''right''\<rparr>])
     (zeros 256) (zeros 150) = Inr (zeros 256, (zeros 150)[2 := 1])"
    using e by (simp add: encode_nav_def example_sm_def all_enabled_def Let_def zeros_def)
  have d: "(zeros 150)[2 := 1] ! 2 = 1" "zeros 150 ! 2 = 0" by (simp_all add: zeros_def)
  from f c n d show ?thesis by simp
qed

text \<open>
  Claim C7, amended. The bucket of a maneuver is \<open>25 + int (distance / 20)\<close>, where
  \<open>int\<close> truncates towards zero (the floor for a distance that is not negative, the
  ceiling otherwise). With navigation enabled and valid and a navigation instruction
  update: a single maneuver at distance 240 with modifier \<open>slight left\<close> gives the all-zero
  vector with a 1 at index 112 (bucket \<open>25 + 12 = 37\<close>, direction 1), and maneuvers whose
  buckets all fall outside 0 to 49 leave the vector all zero.
\<close>

theorem nav_bucket_arithmetic:
  assumes "\<not> DISABLE_NAV tg" and "navModel_valid sm" and "navInstruction_updated sm"
    and "112 < length ni"
  shows "(allManeuvers sm = [\<lparr>distance = 240, modifier = ''slight left''\<rparr>] \<longrightarrow>
            (\<exists>nf'. encode_nav tg sm nf ni = Inr (nf', (zeros (length ni))[112 := 1])) \<and>
            list_all (\<lambda>i. (zeros (length ni))[112 := 1] ! i = (if i = 112 then 1 else 0))
              [0..<length ni]) \<and>
         (list_all (\<lambda>m. \<not> (0 \<le> 25 + py_int (distance m / 20) \<and>
                           25 + py_int (distance m / 20) < 50)) (allManeuvers sm) \<longrightarrow>
            (\<exists>nf'. encode_nav tg sm nf ni = Inr (nf', zeros (length ni))))"
proof (intro conjI impI)
  assume a: "allManeuvers sm = [\<lparr>distance = 240, modifier = ''slight left''\<rparr>]"
  have "encode_maneuvers (zeros (length ni)) [\<lparr>distance = 240, modifier = ''slight left''\<rparr>]
        = Inr ((zeros (length ni))[112 := 1])"
    using assms(4) by (simp add: Let_def py_int_def zeros_def)
  with assms a show "\<exists>nf'. encode_nav tg sm nf ni = Inr (nf', (zeros (length ni))[112 := 1])"
    by (simp add: encode_nav_def Let_def zeros_def)
  show "list_all (\<lambda>i. (zeros (length ni))[112 := 1] ! i = (if i = 112 then 1 else 0))
              [0..<length ni]"
    by (simp add: list_all_iff zeros_def nth_list_update)
next
  assume "list_all (\<lambda>m. \<not> (0 \<le> 25 + py_int (distance m / 20) \<and>
                           25 + py_int (distance m / 20) < 50)) (allManeuvers sm)"
  from encode_maneuvers_out_of_range[OF this, of "zeros (length ni)"] assms
  show "\<exists>nf'. encode_nav tg sm nf ni = Inr (nf', zeros (length ni))"
    by (simp add: encode_nav_def Let_def zeros_def)
qed

theorem nav_bucket_arithmetic_witness:
  "\<not> DISABLE_NAV all_enabled \<and>
   navModel_valid (example_sm [\<lparr>distance = 240, modifier = ''slight left''\<rparr>]) \<and>
   navInstruction_updated (example_sm [\<lparr>distance = 240, modifier = ''slight left''\<rparr>]) \<and>
   112 < length (zeros 150) \<and>
   (\<exists>nf'. encode_nav all_enabled (example_sm [\<lparr>distance = 240, modifier = ''slight left''\<rparr>])
            (zeros 256) (zeros 150) = Inr (nf', (zeros (length (zeros 150)))[112 := 1])) \<and>
   list_all (\<lambda>m. \<not> (0 \<le> 25 + py_int (distance m / 20) \<and> 25 + py_int (distance m / 20) < 50))
     [\<lparr>distance = 600, modifier = ''right''\<rparr>, \<lparr>distance = - 520, modifier = ''left''\<rparr>] \<and>
   (\<exists>nf'. encode_nav all_enabled
            (example_sm [\<lparr>distance = 600, modifier = ''right''\<rparr>,
                         \<lparr>distance = - 520, modifier = ''left''\<rparr>])
            (zeros 256) (zeros 150) = Inr (nf', zeros (length (zeros 150))))"
proof -
  let ?A = "[\<lparr>distance = 240, modifier = ''slight left''\<rparr>]"
  let ?B = "[\<lparr>distance = 600, modifier = ''right''\<rparr>, \<lparr>distance = - 520, modifier = ''left''\<rparr>]"
  have h1: "\<not> DISABLE_NAV all_enabled" by (simp add: all_enabled_def)
  have h2: "navModel_valid (example_sm ms)" "navInstruction_updated (example_sm ms)"
    "allManeuvers (example_sm ms) = ms" for ms
    by (simp_all add: example_sm_def)
  have h4: "112 < length (zeros 150)" by (simp add: zeros_def)
  have hB: "list_all (\<lambda>m. \<not> (0 \<le> 25 + py_int (distance m / 20) \<and>
              25 + py_int (distance m / 20) < 50)) ?B"
    by (simp add: py_int_def)
  from nav_bucket_arithmetic[OF h1 h2(1)[of ?A] h2(2)[of ?A] h4, of "zeros 256"]
  have a: "\<exists>nf'. encode_nav all_enabled (example_sm ?A) (zeros 256) (zeros 150)
             = Inr (nf', (zeros (length (zeros 150)))[112 := 1])"
    by (simp add: h2)
  from nav_bucket_arithmetic[OF h1 h2(1)[of ?B] h2(2)[of ?B] h4, of "zeros 256"] hB
  have b: "\<exists>nf'. encode_nav all_enabled (example_sm ?B) (zeros 256) (zeros 150)
             = Inr (nf', zeros (length (zeros 150)))"
    by (simp add: h2)
  from h1 h2(1)[of ?A] h2(2)[of ?A] h4 a hB b show ?thesis by blast
qed

section \<open>Synchronisation of the two streams\<close>

lemma await_frames_pair:
  assumes "recv_main (meta_extra s) (buf_main s, meta_main s, vipc_client_main s) = (Some bm, mm, cm)"
    and "recv_extra mm (vipc_client_extra s) = (Some be, me, ce)"
  shows "await_frames True s =
           (True, s\<lparr>buf_main := Some bm, meta_main := mm, vipc_client_main := cm,
                    buf_extra := Some be, meta_extra := me, vipc_client_extra := ce,
                    events := events s @
                      (if \<bar>timestamp_sof mm - timestamp_sof me\<bar> > 10000000
                       then [FramesOutOfSync mm me] else [])\<rparr>)"
  using assms by (simp add: await_frames_def Let_def)

text \<open>
  Claim C8. When the two receive loops have accepted a main frame and an extra frame, a
  desynchronisation fault is logged exactly if their start-of-frame timestamps differ by
  more than 10 ms (so not at 8 ms, and at 12 ms); in either case the iteration goes on to
  the model cycle with that same pair of buffers and metadata.
\<close>

theorem sync_fault_boundary:
  assumes "recv_main (meta_extra s) (buf_main s, meta_main s, vipc_client_main s) = (Some bm, mm, cm)"
    and "recv_extra mm (vipc_client_extra s) = (Some be, me, ce)"
  shows "await_frames True s =
           (True, s\<lparr>buf_main := Some bm, meta_main := mm, vipc_client_main := cm,
                    buf_extra := Some be, meta_extra := me, vipc_client_extra := ce,
                    events := events s @
                      (if \<bar>timestamp_sof mm - timestamp_sof me\<bar> > 10000000
                       then [FramesOutOfSync mm me] else [])\<rparr>) \<and>
         main_iteration tg mc execute steer_delay True sm s =
           model_cycle tg mc execute steer_delay sm
             (s\<lparr>buf_main := Some bm, meta_main := mm, vipc_client_main := cm,
                buf_extra := Some be, meta_extra := me, vipc_client_extra := ce,
                events := events s @
                  (if \<bar>timestamp_sof mm - timestamp_sof me\<bar> > 10000000
                   then [FramesOutOfSync mm me] else [])\<rparr>)"
  using await_frames_pair[OF assms] by (simp add: main_iteration_def)

lemma example_pair_main:
  "recv_main (meta_extra (example_pair t))
     (buf_main (example_pair t), meta_main (example_pair t), vipc_client_main (example_pair t))
   = (Some 1, example_frame 7 100000000, \<lparr>pending = [], attrs = example_frame 7 100000000\<rparr>)"
  by (simp add: example_pair_def main_init_def recv_main.simps recv_def FrameMeta_default_def
      example_frame_def)

lemma example_pair_extra:
  "75000000 < t \<Longrightarrow>
   recv_extra (example_frame 7 100000000) (vipc_client_extra (example_pair t))
   = (Some 2, example_frame 7 t, \<lparr>pending = [], attrs = example_frame 7 t\<rparr>)"
  by (simp add: example_pair_def main_init_def recv_extra.simps recv_def example_frame_def)

theorem sync_fault_boundary_witness:
  "recv_main (meta_extra (example_pair 92000000))
     (buf_main (example_pair 92000000), meta_main (example_pair 92000000),
      vipc_client_main (example_pair 92000000))
   = (Some 1, example_frame 7 100000000, \<lparr>pending = [], attrs = example_frame 7 100000000\<rparr>) \<and>
   recv_extra (example_frame 7 100000000) (vipc_client_extra (example_pair 92000000))
   = (Some 2, example_frame 7 92000000, \<lparr>pending = [], attrs = example_frame 7 92000000\<rparr>) \<and>
   fst (await_frames True (example_pair 92000000)) = True \<and>
   events (snd (await_frames True (example_pair 92000000))) = [] \<and>
   buf_main (snd (await_frames True (example_pair 92000000))) = Some 1 \<and>
   buf_extra (snd (await_frames True (example_pair 92000000))) = Some 2 \<and>
   recv_main (meta_extra (example_pair 88000000))
     (buf_main (example_pair 88000000), meta_main (example_pair 88000000),
      vipc_client_main (example_pair 88000000))
   = (Some 1, example_frame 7 100000000, \<lparr>pending = [], attrs = example_frame 7 100000000\<rparr>) \<and>
   recv_extra (example_frame 7 100000000) (vipc_client_extra (example_pair 88000000))
   = (Some 2, example_frame 7 88000000, \<lparr>pending = [], attrs = example_frame 7 88000000\<rparr>) \<and>
   fst (await_frames True (example_pair 88000000)) = True \<and>
   events (snd (await_frames True (example_pair 88000000)))
     = [FramesOutOfSync (example_frame 7 100000000) (example_frame 7 88000000)] \<and>
   buf_main (snd (await_frames True (example_pair 88000000))) = Some 1 \<and>
   buf_extra (snd (await_frames True (example_pair 88000000))) = Some 2"
proof -
  have e8: "recv_extra (example_frame 7 100000000) (vipc_client_extra (example_pair 92000000))
   = (Some 2, example_frame 7 92000000, \<lparr>pending = [], attrs = example_frame 7 92000000\<rparr>)"
    by (rule example_pair_extra) simp
  have e12: "recv_extra (example_frame 7 100000000) (vipc_client_extra (example_pair 88000000))
   = (Some 2, example_frame 7 88000000, \<lparr>pending = [], attrs = example_frame 7 88000000\<rparr>)"
    by (rule example_pair_extra) simp
  have ev: "events (example_pair t) = []" for t
    by (simp add: example_pair_def main_init_def)
  from sync_fault_boundary[OF example_pair_main e8]
  have a8: "await_frames True (example_pair 92000000) =
      (True, (example_pair 92000000)\<lparr>buf_main := Some 1, meta_main := example_frame 7 100000000,
         vipc_client_main := \<lparr>pending = [], attrs = example_frame 7 100000000\<rparr>,
         buf_extra := Some 2, meta_extra := example_frame 7 92000000,
         vipc_client_extra := \<lparr>pending = [], attrs = example_frame 7 92000000\<rparr>,
         events := []\<rparr>)"
    by (simp add: ev example_frame_def)
  from sync_fault_boundary[OF example_pair_main e12]
  have a12: "await_frames True (example_pair 88000000) =
      (True, (example_pair 88000000)\<lparr>buf_main := Some 1, meta_main := example_frame 7 100000000,
         vipc_client_main := \<lparr>pending = [], attrs = example_frame 7 100000000\<rparr>,
         buf_extra := Some 2, meta_extra := example_frame 7 88000000,
         vipc_client_extra := \<lparr>pending = [], attrs = example_frame 7 88000000\<rparr>,
         events := [FramesOutOfSync (example_frame 7 100000000) (example_frame 7 88000000)]\<rparr>)"
    by (simp add: ev example_frame_def)
  show ?thesis
    using example_pair_main[of 92000000] e8 example_pair_main[of 88000000] e12
    by (simp add: a8 a12)
qed

section \<open>The dropped-frame filter\<close>

lemma filter_alpha_range:
  assumes "0 < MODEL_FREQ mc"
  shows "0 < filter_alpha mc" "filter_alpha mc < 1"
proof -
  define d where "d = 1 / MODEL_FREQ mc"
  have d: "0 < d" using assms by (simp add: d_def)
  then have "0 < d / (10 + d)" "d / (10 + d) < 1" by simp_all
  then show "0 < filter_alpha mc" "filter_alpha mc < 1"
    by (simp_all add: filter_alpha_def d_def)
qed

lemma filter_update_zero: "filter_update mc x 0 = (1 - filter_alpha mc) * x"
  by (simp add: filter_update_def)

lemma filter_update_nonneg:
  assumes "0 < MODEL_FREQ mc" "0 \<le> x" "0 \<le> u"
  shows "0 \<le> filter_update mc x u"
  using filter_alpha_range[OF assms(1)] assms(2,3) by (simp add: filter_update_def)

lemma track_dropped_ok:
  assumes "0 < MODEL_FREQ mc" "0 \<le> x"
  shows "\<exists>ds. track_dropped mc f last_id x rc = Inr ds \<and>
           vipc_dropped_frames ds = max 0 (f - last_id - 1) \<and>
           prepare_only ds = (max 0 (f - last_id - 1) > 0) \<and>
           new_run_count ds = rc + 1 \<and> 0 \<le> filter_x ds \<and>
           (rc < 10 \<longrightarrow> filter_x ds = 0 \<and> frame_drop_ratio ds = 0)"
proof -
  let ?u = "real_of_int (min (max 0 (f - last_id - 1)) 10)"
  have "0 \<le> ?u" by simp
  from filter_update_nonneg[OF assms this]
  have n: "0 \<le> filter_update mc x ?u" .
  then have "1 + filter_update mc x ?u \<noteq> 0" by linarith
  with n show ?thesis by (simp add: track_dropped_def Let_def)
qed

lemma track_dropped_warmup:
  "rc < 10 \<Longrightarrow>
   track_dropped mc f last_id x rc =
     Inr \<lparr> vipc_dropped_frames = max 0 (f - last_id - 1), filter_x = 0, new_run_count = rc + 1,
           frame_drop_ratio = 0, prepare_only = (max 0 (f - last_id - 1) > 0) \<rparr>"
  by (simp add: track_dropped_def Let_def)

lemma track_dropped_no_gap:
  assumes "0 < MODEL_FREQ mc" "0 \<le> x" "max 0 (f - last_id - 1) = 0"
  shows "track_dropped mc f last_id x rc =
     Inr \<lparr> vipc_dropped_frames = 0, filter_x = decayed mc x rc 1, new_run_count = rc + 1,
           frame_drop_ratio = decayed mc x rc 1 / (1 + decayed mc x rc 1), prepare_only = False \<rparr>"
proof -
  from filter_alpha_range[OF assms(1)] assms(2)
  have "0 \<le> (1 - filter_alpha mc) * x" by simp
  then have "1 + (1 - filter_alpha mc) * x \<noteq> 0" by linarith
  then show ?thesis
    using assms(3) by (simp add: track_dropped_def Let_def filter_update_zero decayed_def)
qed

lemma decayed_nonneg:
  assumes "0 < MODEL_FREQ mc" "0 \<le> x"
  shows "0 \<le> decayed mc x rc k"
  using filter_alpha_range[OF assms(1)] assms(2) by (simp add: decayed_def)

lemma decayed_step: "decayed mc (decayed mc x rc 1) (rc + 1) k = decayed mc x rc (Suc k)"
  by (simp add: decayed_def)

lemma drop_cycles_no_gaps:
  assumes "0 < MODEL_FREQ mc"
  shows "0 \<le> x \<Longrightarrow> no_gaps last_id fs \<Longrightarrow>
   drop_cycles mc x last_id rc fs =
     Inr (map (\<lambda>k. \<lparr> vipc_dropped_frames = 0, filter_x = decayed mc x rc (Suc k),
                      new_run_count = rc + Suc k,
                      frame_drop_ratio = decayed mc x rc (Suc k) / (1 + decayed mc x rc (Suc k)),
                      prepare_only = False \<rparr>) [0..<length fs])"
proof (induction fs arbitrary: x last_id rc)
  case Nil
  then show ?case by simp
next
  case (Cons f fs)
  from Cons.prems have g: "max 0 (f - last_id - 1) = 0" and ng: "no_gaps f fs" by simp_all
  note t = track_dropped_no_gap[OF assms Cons.prems(1) g, of rc]
  have nn: "0 \<le> decayed mc x rc 1" by (rule decayed_nonneg[OF assms Cons.prems(1)])
  note ih = Cons.IH[OF nn ng, of "rc + 1"]
  have m: "map (\<lambda>k. \<lparr> vipc_dropped_frames = 0, filter_x = decayed mc x rc (Suc k),
                      new_run_count = rc + Suc k,
                      frame_drop_ratio = decayed mc x rc (Suc k) / (1 + decayed mc x rc (Suc k)),
                      prepare_only = False \<rparr>) [0..<length (f # fs)]
        = \<lparr> vipc_dropped_frames = 0, filter_x = decayed mc x rc 1, new_run_count = rc + 1,
           frame_drop_ratio = decayed mc x rc 1 / (1 + decayed mc x rc 1), prepare_only = False \<rparr>
          # map (\<lambda>k. \<lparr> vipc_dropped_frames = 0, filter_x = decayed mc x rc (Suc (Suc k)),
                      new_run_count = rc + Suc (Suc k),
                      frame_drop_ratio = decayed mc x rc (Suc (Suc k)) / (1 + decayed mc x rc (Suc (Suc k))),
                      prepare_only = False \<rparr>) [0..<length fs]"
    by (simp add: upt_rec[of 0] map_Suc_upt[symmetric] del: upt_Suc)
  have r: "drop_cycles mc (decayed mc x rc 1) f (rc + 1) fs =
     Inr (map (\<lambda>k. \<lparr> vipc_dropped_frames = 0, filter_x = decayed mc x rc (Suc (Suc k)),
                      new_run_count = rc + Suc (Suc k),
                      frame_drop_ratio = decayed mc x rc (Suc (Suc k)) / (1 + decayed mc x rc (Suc (Suc k))),
                      prepare_only = False \<rparr>) [0..<length fs])"
    unfolding ih decayed_step by simp
  show ?case
    unfolding m
    by (subst drop_cycles.simps) (simp only: t sum.case drop_stats.select_convs r)
qed

lemma decayed_tendsto:
  assumes "0 < MODEL_FREQ mc"
  shows "(\<lambda>n. decayed mc x rc (Suc n) / (1 + decayed mc x rc (Suc n))) \<longlonglongrightarrow> 0"
proof -
  from filter_alpha_range[OF assms]
  have "0 \<le> 1 - filter_alpha mc" "1 - filter_alpha mc < 1" by simp_all
  then have "(\<lambda>n. (1 - filter_alpha mc) ^ n) \<longlonglongrightarrow> 0" by (rule LIMSEQ_realpow_zero)
  then have "(\<lambda>n. (1 - filter_alpha mc) ^ n * x) \<longlonglongrightarrow> 0 * x"
    by (rule tendsto_mult_right)
  then have "(\<lambda>n. decayed mc x rc n) \<longlonglongrightarrow> 0"
    by (cases "rc < 10") (simp_all add: decayed_def)
  then have d: "(\<lambda>n. decayed mc x rc (Suc n)) \<longlonglongrightarrow> 0"
    by (rule LIMSEQ_Suc)
  have "(\<lambda>n. decayed mc x rc (Suc n) / (1 + decayed mc x rc (Suc n))) \<longlonglongrightarrow> 0 / (1 + 0)"
    by (intro tendsto_divide tendsto_add tendsto_const d) simp
  then show ?thesis by simp
qed

lemma no_gaps_consecutive: "no_gaps l (map (\<lambda>k. l + 1 + int k) [0..<n])"
proof (induction n arbitrary: l)
  case 0
  show ?case by simp
next
  case (Suc n)
  have "map (\<lambda>k. l + 1 + int k) [0..<Suc n]
        = (l + 1) # map (\<lambda>k. (l + 1) + 1 + int k) [0..<n]"
    by (simp add: upt_rec[of 0] map_Suc_upt[symmetric] del: upt_Suc)
  then show ?case using Suc[of "l + 1"] by simp
qed

lemma drop_ratios_no_gaps:
  assumes "0 < MODEL_FREQ mc" "0 \<le> x" "no_gaps last_id fs"
  shows "\<exists>dss. drop_cycles mc x last_id rc fs = Inr dss \<and>
           map frame_drop_ratio dss =
             map (\<lambda>k. decayed mc x rc (Suc k) / (1 + decayed mc x rc (Suc k))) [0..<length fs]"
  unfolding drop_cycles_no_gaps[OF assms] by (simp add: comp_def)

text \<open>
  Claim C9. While fewer than 10 cycles have run, the filter state and the reported ratio
  are 0 whatever the frame ids are. When the raw dropped count is 0 at every cycle, the
  reported ratios are \<open>y / (1 + y)\<close> for a filter state \<open>y\<close> that shrinks by the factor
  \<open>1 - alpha\<close> per cycle, so they tend to 0; and they are exactly 0 at every cycle when
  the filter starts at 0 or the warm-up has not ended, as at the start of the process.
\<close>

theorem drop_ratio_converges:
  assumes "0 < MODEL_FREQ mc"
  shows "(\<forall>f last_id x rc. rc < 10 \<longrightarrow>
            (\<exists>ds. track_dropped mc f last_id x rc = Inr ds \<and>
                   filter_x ds = 0 \<and> frame_drop_ratio ds = 0)) \<and>
         (\<forall>x last_id rc fid. 0 \<le> x \<and> (\<forall>n. no_gaps last_id (map fid [0..<n])) \<longrightarrow>
            (\<exists>r. r \<longlonglongrightarrow> 0 \<and>
               (\<forall>n. \<exists>dss. drop_cycles mc x last_id rc (map fid [0..<n]) = Inr dss \<and>
                           map frame_drop_ratio dss = map r [0..<n]))) \<and>
         (\<forall>x last_id rc fs. 0 \<le> x \<and> (x = 0 \<or> rc < 10) \<and> no_gaps last_id fs \<longrightarrow>
            (\<exists>dss. drop_cycles mc x last_id rc fs = Inr dss \<and>
                    map frame_drop_ratio dss = replicate (length fs) 0))"
proof (intro conjI allI impI)
  fix f last_id :: int and x :: real and rc :: nat
  assume "rc < 10"
  then show "\<exists>ds. track_dropped mc f last_id x rc = Inr ds \<and>
                   filter_x ds = 0 \<and> frame_drop_ratio ds = 0"
    by (simp add: track_dropped_warmup)
next
  fix x :: real and last_id :: int and rc :: nat and fid :: "nat \<Rightarrow> int"
  assume a: "0 \<le> x \<and> (\<forall>n. no_gaps last_id (map fid [0..<n]))"
  let ?r = "\<lambda>k. decayed mc x rc (Suc k) / (1 + decayed mc x rc (Suc k))"
  have "?r \<longlonglongrightarrow> 0" by (rule decayed_tendsto[OF assms])
  moreover have "\<forall>n. \<exists>dss. drop_cycles mc x last_id rc (map fid [0..<n]) = Inr dss \<and>
                           map frame_drop_ratio dss = map ?r [0..<n]"
  proof
    fix n
    from a have "no_gaps last_id (map fid [0..<n])" by blast
    from drop_ratios_no_gaps[OF assms _ this, of x rc] a
    show "\<exists>dss. drop_cycles mc x last_id rc (map fid [0..<n]) = Inr dss \<and>
                           map frame_drop_ratio dss = map ?r [0..<n]"
      by simp
  qed
  ultimately show "\<exists>r. r \<longlonglongrightarrow> 0 \<and>
               (\<forall>n. \<exists>dss. drop_cycles mc x last_id rc (map fid [0..<n]) = Inr dss \<and>
                           map frame_drop_ratio dss = map r [0..<n])"
    by blast
next
  fix x :: real and last_id :: int and rc :: nat and fs :: "int list"
  assume a: "0 \<le> x \<and> (x = 0 \<or> rc < 10) \<and> no_gaps last_id fs"
  then have z: "decayed mc x rc k = 0" for k by (auto simp: decayed_def)
  from a drop_ratios_no_gaps[OF assms, of x last_id fs rc]
  show "\<exists>dss. drop_cycles mc x last_id rc fs = Inr dss \<and>
                    map frame_drop_ratio dss = replicate (length fs) 0"
    by (simp add: z map_replicate_const)
qed

theorem drop_ratio_converges_witness:
  "0 < MODEL_FREQ upstream_constants \<and> (0::nat) < 10 \<and>
   (\<exists>ds. track_dropped upstream_constants 105 102 3 0 = Inr ds \<and>
          filter_x ds = 0 \<and> frame_drop_ratio ds = 0) \<and>
   (0::real) \<le> 2 \<and> no_gaps 100 (map (\<lambda>k. 100 + 1 + int k) [0..<12]) \<and>
   (\<exists>r. r \<longlonglongrightarrow> 0 \<and>
      (\<exists>dss. drop_cycles upstream_constants 2 100 10 (map (\<lambda>k. 100 + 1 + int k) [0..<12]) = Inr dss \<and>
              map frame_drop_ratio dss = map r [0..<12])) \<and>
   no_gaps 0 [1, 2, 3] \<and>
   (\<exists>dss. drop_cycles upstream_constants 0 0 0 [1, 2, 3] = Inr dss \<and>
           map frame_drop_ratio dss = replicate (length [1, 2, 3 :: int]) 0)"
proof -
  have m: "0 < MODEL_FREQ upstream_constants" by (simp add: upstream_constants_def)
  note t = drop_ratio_converges[OF m]
  from t have w: "\<exists>ds. track_dropped upstream_constants 105 102 3 0 = Inr ds \<and>
          filter_x ds = 0 \<and> frame_drop_ratio ds = 0"
    by simp
  have g: "\<forall>n. no_gaps 100 (map (\<lambda>k. 100 + 1 + int k) [0..<n])"
    using no_gaps_consecutive[of 100] by blast
  from t have "0 \<le> (2::real) \<and> (\<forall>n. no_gaps 100 (map (\<lambda>k. 100 + 1 + int k) [0..<n])) \<longrightarrow>
            (\<exists>r. r \<longlonglongrightarrow> 0 \<and>
               (\<forall>n. \<exists>dss. drop_cycles upstream_constants 2 100 10
                             (map (\<lambda>k. 100 + 1 + int k) [0..<n]) = Inr dss \<and>
                           map frame_drop_ratio dss = map r [0..<n]))"
    by blast
  with g have c: "\<exists>r. r \<longlonglongrightarrow> 0 \<and>
      (\<exists>dss. drop_cycles upstream_constants 2 100 10 (map (\<lambda>k. 100 + 1 + int k) [0..<12]) = Inr dss \<and>
              map frame_drop_ratio dss = map r [0..<12])"
    by (simp, blast)
  have g3: "no_gaps 0 [1, 2, 3]" by simp
  from t have "0 \<le> (0::real) \<and> ((0::real) = 0 \<or> (0::nat) < 10) \<and> no_gaps 0 [1, 2, 3] \<longrightarrow>
            (\<exists>dss. drop_cycles upstream_constants 0 0 0 [1, 2, 3] = Inr dss \<and>
                    map frame_drop_ratio dss = replicate (length [1, 2, 3 :: int]) 0)"
    by blast
  with g3 have s: "\<exists>dss. drop_cycles upstream_constants 0 0 0 [1, 2, 3] = Inr dss \<and>
           map frame_drop_ratio dss = replicate (length [1, 2, 3 :: int]) 0"
    by simp
  from m w g[rule_format, of 12] c g3 s show ?thesis by simp
qed

section \<open>A cycle of main on an accepted frame\<close>

lemma assign_slice_track:
  assumes "length rt = n * 3" "i < n"
  shows "\<exists>rt'. assign_slice rt (i * 3) 3 [a, b, c] = Inr rt' \<and> length rt' = n * 3"
proof -
  from assms have lo: "min (i * 3) (length rt) = i * 3"
    and hi: "min (i * 3 + 3) (length rt) = i * 3 + 3" by simp_all
  have b: "broadcast_to 3 [a, b, c] = Inr [a, b, c]" by (simp add: broadcast_to_def)
  show ?thesis
    unfolding assign_slice_def Let_def lo hi using assms by (simp add: b)
qed

lemma encode_tracks_ok:
  assumes w: "RADAR_TRACKS_WIDTH mc = 3"
  shows "length rt = RADAR_TRACKS_LEN mc * 3 \<Longrightarrow> \<exists>rt'. encode_tracks mc rt i ts = Inr rt'"
proof (induction ts arbitrary: rt i)
  case Nil
  show ?case by simp
next
  case (Cons t ts)
  show ?case
  proof (cases "i \<ge> RADAR_TRACKS_LEN mc")
    case True
    then show ?thesis by simp
  next
    case False
    then have "i < RADAR_TRACKS_LEN mc" by simp
    from assign_slice_track[OF Cons.prems this]
    obtain rt' where a: "assign_slice rt (i * 3) 3 [dRel t, yRel t, vRel t] = Inr rt'"
      and l: "length rt' = RADAR_TRACKS_LEN mc * 3" by blast
    from Cons.IH[OF l] obtain rt'' where "encode_tracks mc rt' (i + 1) ts = Inr rt''" by blast
    with a False show ?thesis by (simp add: w)
  qed
qed

lemma encode_radar_ok:
  assumes "RADAR_TRACKS_WIDTH mc = 3"
  shows "\<exists>rt. encode_radar mc sm = Inr rt"
proof -
  have "length (zeros (RADAR_TRACKS_LEN mc * RADAR_TRACKS_WIDTH mc)) = RADAR_TRACKS_LEN mc * 3"
    by (simp add: zeros_def assms)
  from encode_tracks_ok[OF assms this]
  show ?thesis by (auto simp: encode_radar_def Let_def)
qed

lemma wf_inputs_cycle:
  assumes "TRAFFIC_CONVENTION_LEN mc = 2" "LATERAL_CONTROL_PARAMS_LEN mc = 2"
  shows "wf_inputs mc (cycle_inputs tg (vec_desire mc d) ((zeros 2)[i := 1]) [v, sd] nf ni rt)"
  using assms
  by (simp add: wf_inputs_def cycle_inputs_def has_len_def length_vec_desire zeros_def)

lemma desire_cycle:
  "map_of (cycle_inputs tg vd tc lcp nf ni rt) ''desire'' = Some vd"
  by (simp add: cycle_inputs_def)

lemma model_cycle_result:
  assumes cm: "consistent_main tg mc" and we: "wf_engine mc execute" and wf: "wf_main mc s"
  shows "\<exists>s'. model_cycle tg mc execute steer_delay sm s = Inr s' \<and>
           wf_main mc s' \<and>
           last_vipc_frame_id s' = frame_id (meta_main s) \<and>
           run_count s' = run_count s + 1 \<and>
           meta_main s' = meta_main s \<and> meta_extra s' = meta_extra s \<and>
           vipc_client_main s' = vipc_client_main s \<and>
           cycle_effect mc steer_delay sm s s' (frame_id (meta_main s))"
proof -
  from cm have co: "consistent tg mc" and tcl: "TRAFFIC_CONVENTION_LEN mc = 2"
    and lcl: "LATERAL_CONTROL_PARAMS_LEN mc = 2" and rw: "RADAR_TRACKS_WIDTH mc = 3"
    and nl: "150 \<le> NAV_INSTRUCTION_LEN mc" and mf: "0 < MODEL_FREQ mc"
    by (simp_all add: consistent_main_def)
  from co have D: "0 < DESIRE_LEN mc" by (simp add: consistent_def)
  from wf have wm: "wf_state mc (model s)" and x0: "0 \<le> frame_dropped_filter_x s"
    and ln: "length (nav_instructions s) = NAV_INSTRUCTION_LEN mc"
    by (simp_all add: wf_main_def)
  let ?d = "max 0 (frame_id (meta_main s) - last_vipc_frame_id s - 1)"
  let ?tm = "case calib sm of None \<Rightarrow> model_transform_main s | Some (a, b) \<Rightarrow> a"
  let ?te = "case calib sm of None \<Rightarrow> model_transform_extra s | Some (a, b) \<Rightarrow> b"
  let ?seen = "case calib sm of None \<Rightarrow> live_calib_seen s | Some (a, b) \<Rightarrow> True"
  from encode_nav_ok[of "nav_instructions s" tg sm "nav_features s"] nl ln
  obtain nf ni where en: "encode_nav tg sm (nav_features s) (nav_instructions s) = Inr (nf, ni)"
    and lni: "length ni = NAV_INSTRUCTION_LEN mc" by auto
  from encode_radar_ok[OF rw] obtain rt where er: "encode_radar mc sm = Inr rt" by blast
  from track_dropped_ok[OF mf x0, of "frame_id (meta_main s)" "last_vipc_frame_id s" "run_count s"]
  obtain ds where td: "track_dropped mc (frame_id (meta_main s)) (last_vipc_frame_id s)
              (frame_dropped_filter_x s) (run_count s) = Inr ds"
    and dv: "vipc_dropped_frames ds = ?d" and dp: "prepare_only ds = (?d > 0)"
    and dr: "new_run_count ds = run_count s + 1" and dx: "0 \<le> filter_x ds" by blast
  let ?inp = "cycle_inputs tg (vec_desire mc (sm_desire sm))
                ((zeros 2)[(if isRHD sm then 1 else 0) := 1]) [max (vEgo sm) 0, steer_delay] nf ni rt"
  have wi: "wf_inputs mc ?inp" by (rule wf_inputs_cycle[OF tcl lcl])
  have di: "map_of ?inp ''desire'' = Some (vec_desire mc (sm_desire sm))" by (rule desire_cycle)
  have ti: "map_of ?inp ''traffic_convention'' = Some ((zeros 2)[(if isRHD sm then 1 else 0) := 1])"
    and li: "map_of ?inp ''lateral_control_params'' = Some [max (vEgo sm) 0, steer_delay]"
    by (simp_all add: cycle_inputs_def)
  show ?thesis
  proof (cases "0 < frame_id (meta_main s) - last_vipc_frame_id s - 1")
    case True
    then have po: "prepare_only ds" and dd: "?d = frame_id (meta_main s) - last_vipc_frame_id s - 1"
      using dp by simp_all
    from run_prepare_only[OF wm D wi di, of execute "buf_main s" "buf_extra s" ?tm ?te]
    obtain m' where r: "run mc execute (model s) (buf_main s) (buf_extra s) ?tm ?te ?inp True
        = Inr (m', AList.update ''desire'' ((vec_desire mc (sm_desire sm))[0 := 0]) ?inp, None)"
      and f: "wf_state mc m'"
        "desire_20Hz m' = tl (desire_20Hz (model s))
           @ [pulse ((vec_desire mc (sm_desire sm))[0 := 0]) (prev_desire (model s))]"
        "full_features_20Hz m' = full_features_20Hz (model s)"
        "prev_desired_curv_20hz m' = prev_desired_curv_20hz (model s)"
        "map_of (inputs m') ''features_buffer'' = map_of (inputs (model s)) ''features_buffer''"
        "map_of (inputs m') ''prev_desired_curv'' = map_of (inputs (model s)) ''prev_desired_curv''"
      and g: "prev_desire m' = (vec_desire mc (sm_desire sm))[0 := 0]"
        "map_of (inputs m') ''desire'' = Some (pool_rows (desire_20Hz m') (DESIRE_LEN mc))"
        "map_of (inputs m') ''traffic_convention'' = map_of ?inp ''traffic_convention''"
        "map_of (inputs m') ''lateral_control_params'' = map_of ?inp ''lateral_control_params''"
      by blast
    define s' where "s' = s\<lparr>model := m',
                  frame_dropped_filter_x := filter_x ds,
                  last_vipc_frame_id := frame_id (meta_main s),
                  run_count := new_run_count ds,
                  model_transform_main := ?tm,
                  model_transform_extra := ?te,
                  live_calib_seen := ?seen,
                  nav_features := nf,
                  nav_instructions := ni,
                  events := events s @ [SkippingModelEval (vipc_dropped_frames ds)]\<rparr>"
    have mcy: "model_cycle tg mc execute steer_delay sm s = Inr s'"
      unfolding model_cycle_def Let_def s'_def
      by (simp add: en er td po r publish_def)
    have "wf_main mc s'" using f(1) dx lni by (simp add: wf_main_def s'_def)
    moreover have "skipped s s' (frame_id (meta_main s) - last_vipc_frame_id s - 1)"
      using f dv dd by (simp add: skipped_def s'_def)
    moreover have "encoded mc steer_delay sm s s'"
      unfolding encoded_def using g(1) f(2) g(2) g(3)[unfolded ti] g(4)[unfolded li]
      by (simp add: s'_def)
    ultimately show ?thesis using mcy True dr by (simp add: s'_def cycle_effect_def)
  next
    case False
    then have po: "\<not> prepare_only ds" and dd: "?d = 0" using dp by simp_all
    from run_execute[OF wm D wi we di, of "buf_main s" "buf_extra s" ?tm ?te]
    obtain m' ins where r: "run mc execute (model s) (buf_main s) (buf_extra s) ?tm ?te ?inp False
        = Inr (m', AList.update ''desire'' ((vec_desire mc (sm_desire sm))[0 := 0]) ?inp,
               Some (execute (buf_main s) ?tm (buf_extra s) ?te ins))"
      and f: "wf_state mc m'"
        "full_features_20Hz m' = tl (full_features_20Hz (model s))
           @ [hidden_state (execute (buf_main s) ?tm (buf_extra s) ?te ins)]"
      and g: "prev_desire m' = (vec_desire mc (sm_desire sm))[0 := 0]"
        "desire_20Hz m' = tl (desire_20Hz (model s))
           @ [pulse ((vec_desire mc (sm_desire sm))[0 := 0]) (prev_desire (model s))]"
        "map_of (inputs m') ''desire'' = Some (pool_rows (desire_20Hz m') (DESIRE_LEN mc))"
        "map_of (inputs m') ''traffic_convention'' = map_of ?inp ''traffic_convention''"
        "map_of (inputs m') ''lateral_control_params'' = map_of ?inp ''lateral_control_params''"
      by blast
    let ?out = "execute (buf_main s) ?tm (buf_extra s) ?te ins"
    define s' where "s' = s\<lparr>model := m',
                  frame_dropped_filter_x := filter_x ds,
                  last_vipc_frame_id := frame_id (meta_main s),
                  run_count := new_run_count ds,
                  model_transform_main := ?tm,
                  model_transform_extra := ?te,
                  live_calib_seen := ?seen,
                  nav_features := nf,
                  nav_instructions := ni,
                  events := events s @ publish s (frameId sm) ds ?seen (Some ?out)\<rparr>"
    have mcy: "model_cycle tg mc execute steer_delay sm s = Inr s'"
      unfolding model_cycle_def Let_def s'_def
      by (simp add: en er td po r)
    have "wf_main mc s'" using f(1) dx lni by (simp add: wf_main_def s'_def)
    moreover have "published s s' (frame_id (meta_main s))"
      unfolding published_def s'_def publish_def Let_def
      using f(2) dv dd by simp
    moreover have "encoded mc steer_delay sm s s'"
      unfolding encoded_def using g(1) g(2) g(3) g(4)[unfolded ti] g(5)[unfolded li]
      by (simp add: s'_def)
    ultimately show ?thesis using mcy False dr by (simp add: s'_def cycle_effect_def)
  qed
qed

lemma await_frames_single:
  assumes p: "pending (vipc_client_main s) = Some (b, m) # q"
    and e: "meta_main s = meta_extra s"
    and a: "timestamp_sof (meta_extra s) + 25000000 \<le> timestamp_sof m"
  shows "await_frames False s =
           (True, s\<lparr>buf_main := Some b, meta_main := m,
                    vipc_client_main := (vipc_client_main s)\<lparr>pending := q, attrs := m\<rparr>,
                    buf_extra := Some b, meta_extra := m\<rparr>)"
proof -
  let ?c = "(vipc_client_main s)\<lparr>pending := q, attrs := m\<rparr>"
  have r: "recv (vipc_client_main s) = (Some b, ?c)" by (simp add: recv_def p)
  have stop: "recv_main (meta_extra s) (Some b, m, ?c) = (Some b, m, ?c)"
    using a by (subst recv_main.simps) simp
  have "recv_main (meta_extra s) (buf_main s, meta_main s, vipc_client_main s) = (Some b, m, ?c)"
    by (subst recv_main.simps) (simp add: e r stop)
  then show ?thesis by (simp add: await_frames_def Let_def)
qed

lemma cycle_effect_cong:
  assumes "model s1 = model s" "events s1 = events s" "last_vipc_frame_id s1 = last_vipc_frame_id s"
  shows "cycle_effect mc sd sm s1 s' fid = cycle_effect mc sd sm s s' fid"
  using assms by (simp add: cycle_effect_def skipped_def published_def encoded_def)

lemma main_iteration_single:
  assumes cm: "consistent_main tg mc" and we: "wf_engine mc execute" and wf: "wf_main mc s"
    and p: "pending (vipc_client_main s) = Some (b, m) # q"
    and e: "meta_main s = meta_extra s"
    and a: "timestamp_sof (meta_extra s) + 25000000 \<le> timestamp_sof m"
  shows "\<exists>s'. main_iteration tg mc execute steer_delay False sm s = Inr s' \<and>
           wf_main mc s' \<and>
           last_vipc_frame_id s' = frame_id m \<and>
           run_count s' = run_count s + 1 \<and>
           meta_main s' = m \<and> meta_extra s' = m \<and>
           pending (vipc_client_main s') = q \<and>
           cycle_effect mc steer_delay sm s s' (frame_id m)"
proof -
  define s1 where "s1 = s\<lparr>buf_main := Some b, meta_main := m,
                    vipc_client_main := (vipc_client_main s)\<lparr>pending := q, attrs := m\<rparr>,
                    buf_extra := Some b, meta_extra := m\<rparr>"
  have aw: "await_frames False s = (True, s1)"
    unfolding s1_def by (rule await_frames_single[OF p e a])
  have wf1: "wf_main mc s1" using wf by (simp add: wf_main_def s1_def)
  have sel: "meta_main s1 = m" "meta_extra s1 = m" "run_count s1 = run_count s"
    "pending (vipc_client_main s1) = q"
    "model s1 = model s" "events s1 = events s" "last_vipc_frame_id s1 = last_vipc_frame_id s"
    by (simp_all add: s1_def)
  from model_cycle_result[OF cm we wf1, of steer_delay sm]
  obtain s' where mcy: "model_cycle tg mc execute steer_delay sm s1 = Inr s'"
    and f: "wf_main mc s'" "last_vipc_frame_id s' = frame_id (meta_main s1)"
      "run_count s' = run_count s1 + 1"
      "meta_main s' = meta_main s1" "meta_extra s' = meta_extra s1"
      "vipc_client_main s' = vipc_client_main s1"
    and c: "cycle_effect mc steer_delay sm s1 s' (frame_id (meta_main s1))"
    by blast
  have c': "cycle_effect mc steer_delay sm s s' (frame_id m)"
    using c cycle_effect_cong[OF sel(5,6,7)] by (simp add: sel(1))
  have "main_iteration tg mc execute steer_delay False sm s = Inr s'"
    by (simp add: main_iteration_def aw mcy)
  with f c' show ?thesis by (simp add: sel)
qed

lemma cycle_effect_published:
  "fid - last_vipc_frame_id s - 1 \<le> 0 \<Longrightarrow> cycle_effect mc sd sm s s' fid \<Longrightarrow> published s s' fid"
  by (simp add: cycle_effect_def)

lemma cycle_effect_skipped:
  "0 < fid - last_vipc_frame_id s - 1 \<Longrightarrow> cycle_effect mc sd sm s s' fid \<Longrightarrow>
   skipped s s' (fid - last_vipc_frame_id s - 1)"
  by (simp add: cycle_effect_def)

lemma cycle_effect_encoded:
  "cycle_effect mc sd sm s s' fid \<Longrightarrow> encoded mc sd sm s s'"
  by (simp add: cycle_effect_def)

lemma gap_cycles:
  assumes "consistent_main tg mc" and "wf_engine mc execute" and "wf_main mc s0"
    and "meta_main s0 = meta_extra s0" and "10 \<le> run_count s0"
    and "pending (vipc_client_main s0) =
           [Some (b1, m1), Some (b2, m2), Some (b3, m3), Some (b4, m4), Some (b5, m5)]"
    and "map frame_id [m1, m2, m3, m4, m5] = [100, 101, 102, 105, 106]"
    and "timestamp_sof (meta_extra s0) + 25000000 \<le> timestamp_sof m1"
    and "timestamp_sof m1 + 25000000 \<le> timestamp_sof m2"
    and "timestamp_sof m2 + 25000000 \<le> timestamp_sof m3"
    and "timestamp_sof m3 + 25000000 \<le> timestamp_sof m4"
    and "timestamp_sof m4 + 25000000 \<le> timestamp_sof m5"
  shows "\<exists>s1 s2 s3 s4 s5.
           main_iteration tg mc execute steer_delay False sm1 s0 = Inr s1 \<and>
           main_iteration tg mc execute steer_delay False sm2 s1 = Inr s2 \<and>
           main_iteration tg mc execute steer_delay False sm3 s2 = Inr s3 \<and>
           main_iteration tg mc execute steer_delay False sm4 s3 = Inr s4 \<and>
           main_iteration tg mc execute steer_delay False sm5 s4 = Inr s5 \<and>
           encoded mc steer_delay sm2 s1 s2 \<and> published s1 s2 101 \<and>
           encoded mc steer_delay sm3 s2 s3 \<and> published s2 s3 102 \<and>
           wf_main mc s3 \<and> last_vipc_frame_id s3 = 102 \<and> 10 \<le> run_count s3 \<and>
           encoded mc steer_delay sm4 s3 s4 \<and> skipped s3 s4 2 \<and>
           meta_main s4 = m4 \<and> last_vipc_frame_id s4 = 105 \<and>
           encoded mc steer_delay sm5 s4 s5 \<and> published s4 s5 106"
proof -
  from assms(7) have id: "frame_id m1 = 100" "frame_id m2 = 101" "frame_id m3 = 102"
    "frame_id m4 = 105" "frame_id m5 = 106" by simp_all
  from main_iteration_single[OF assms(1,2,3) assms(6) assms(4,8), of steer_delay sm1]
  obtain s1 where i1: "main_iteration tg mc execute steer_delay False sm1 s0 = Inr s1"
    and f1: "wf_main mc s1" "last_vipc_frame_id s1 = frame_id m1" "run_count s1 = run_count s0 + 1"
      "meta_main s1 = m1" "meta_extra s1 = m1"
      "pending (vipc_client_main s1) = [Some (b2, m2), Some (b3, m3), Some (b4, m4), Some (b5, m5)]"
    by blast
  have e1: "meta_main s1 = meta_extra s1"
    and a1: "timestamp_sof (meta_extra s1) + 25000000 \<le> timestamp_sof m2"
    using f1 assms(9) by simp_all
  from main_iteration_single[OF assms(1,2) f1(1) f1(6) e1 a1, of steer_delay sm2]
  obtain s2 where i2: "main_iteration tg mc execute steer_delay False sm2 s1 = Inr s2"
    and f2: "wf_main mc s2" "last_vipc_frame_id s2 = frame_id m2" "run_count s2 = run_count s1 + 1"
      "meta_main s2 = m2" "meta_extra s2 = m2"
      "pending (vipc_client_main s2) = [Some (b3, m3), Some (b4, m4), Some (b5, m5)]"
    and c2: "cycle_effect mc steer_delay sm2 s1 s2 (frame_id m2)"
    by blast
  have p2: "published s1 s2 101"
    by (rule cycle_effect_published[OF _ c2[unfolded id]]) (simp add: f1(2) id)
  have n2: "encoded mc steer_delay sm2 s1 s2" by (rule cycle_effect_encoded[OF c2])
  have e2: "meta_main s2 = meta_extra s2"
    and a2: "timestamp_sof (meta_extra s2) + 25000000 \<le> timestamp_sof m3"
    using f2 assms(10) by simp_all
  from main_iteration_single[OF assms(1,2) f2(1) f2(6) e2 a2, of steer_delay sm3]
  obtain s3 where i3: "main_iteration tg mc execute steer_delay False sm3 s2 = Inr s3"
    and f3: "wf_main mc s3" "last_vipc_frame_id s3 = frame_id m3" "run_count s3 = run_count s2 + 1"
      "meta_main s3 = m3" "meta_extra s3 = m3"
      "pending (vipc_client_main s3) = [Some (b4, m4), Some (b5, m5)]"
    and c3: "cycle_effect mc steer_delay sm3 s2 s3 (frame_id m3)"
    by blast
  have p3: "published s2 s3 102"
    by (rule cycle_effect_published[OF _ c3[unfolded id]]) (simp add: f2(2) id)
  have n3: "encoded mc steer_delay sm3 s2 s3" by (rule cycle_effect_encoded[OF c3])
  have e3: "meta_main s3 = meta_extra s3"
    and a3: "timestamp_sof (meta_extra s3) + 25000000 \<le> timestamp_sof m4"
    using f3 assms(11) by simp_all
  from main_iteration_single[OF assms(1,2) f3(1) f3(6) e3 a3, of steer_delay sm4]
  obtain s4 where i4: "main_iteration tg mc execute steer_delay False sm4 s3 = Inr s4"
    and f4: "wf_main mc s4" "last_vipc_frame_id s4 = frame_id m4" "run_count s4 = run_count s3 + 1"
      "meta_main s4 = m4" "meta_extra s4 = m4"
      "pending (vipc_client_main s4) = [Some (b5, m5)]"
    and c4: "cycle_effect mc steer_delay sm4 s3 s4 (frame_id m4)"
    by blast
  have l3: "last_vipc_frame_id s3 = 102" using f3(2) id by simp
  have "skipped s3 s4 (105 - last_vipc_frame_id s3 - 1)"
    by (rule cycle_effect_skipped[OF _ c4[unfolded id]]) (simp add: l3)
  then have k4: "skipped s3 s4 2" by (simp add: l3)
  have n4: "encoded mc steer_delay sm4 s3 s4" by (rule cycle_effect_encoded[OF c4])
  have e4: "meta_main s4 = meta_extra s4"
    and a4: "timestamp_sof (meta_extra s4) + 25000000 \<le> timestamp_sof m5"
    using f4 assms(12) by simp_all
  from main_iteration_single[OF assms(1,2) f4(1) f4(6) e4 a4, of steer_delay sm5]
  obtain s5 where i5: "main_iteration tg mc execute steer_delay False sm5 s4 = Inr s5"
    and c5: "cycle_effect mc steer_delay sm5 s4 s5 (frame_id m5)"
    by blast
  have p5: "published s4 s5 106"
    by (rule cycle_effect_published[OF _ c5[unfolded id]]) (simp add: f4(2) id)
  have n5: "encoded mc steer_delay sm5 s4 s5" by (rule cycle_effect_encoded[OF c5])
  have rc: "10 \<le> run_count s3" using assms(5) f1(3) f2(3) f3(3) by simp
  have l4: "last_vipc_frame_id s4 = 105" using f4(2) id(4) by simp
  show ?thesis
    apply (rule exI[of _ s1], rule exI[of _ s2], rule exI[of _ s3])
    apply (rule exI[of _ s4], rule exI[of _ s5])
    apply (intro conjI)
    apply (rule i1 i2 i3 i4 i5 n2 p2 n3 p3 f3(1) l3 rc n4 k4 f4(4) l4 n5 p5)+
    done
qed

lemma vec_desire_upstream_1: "(vec_desire upstream_constants 1)[0 := 0] = [0, 1, 0, 0, 0, 0, 0, 0]"
  by (simp add: vec_desire_def upstream_constants_def zeros_8)

lemma consistent_main_example: "consistent_main all_enabled upstream_constants"
  using consistent_example by (simp add: consistent_main_def upstream_constants_def)

lemma wf_main_example: "wf_main upstream_constants example_stream"
  using wf_state_init[OF consistent_example]
  by (simp add: wf_main_def example_stream_def main_init_def zeros_def)

lemma example_stream_cycles:
  "\<exists>s1 s2 s3 s4 s5.
     main_iteration all_enabled upstream_constants (example_engine upstream_constants) (1 / 5)
       False (example_sm []) example_stream = Inr s1 \<and>
     main_iteration all_enabled upstream_constants (example_engine upstream_constants) (1 / 5)
       False (example_sm []) s1 = Inr s2 \<and>
     main_iteration all_enabled upstream_constants (example_engine upstream_constants) (1 / 5)
       False (example_sm []) s2 = Inr s3 \<and>
     main_iteration all_enabled upstream_constants (example_engine upstream_constants) (1 / 5)
       False (example_desire 1) s3 = Inr s4 \<and>
     main_iteration all_enabled upstream_constants (example_engine upstream_constants) (1 / 5)
       False (example_sm []) s4 = Inr s5 \<and>
     encoded upstream_constants (1 / 5) (example_sm []) s1 s2 \<and> published s1 s2 101 \<and>
     encoded upstream_constants (1 / 5) (example_sm []) s2 s3 \<and> published s2 s3 102 \<and>
     wf_main upstream_constants s3 \<and> last_vipc_frame_id s3 = 102 \<and> 10 \<le> run_count s3 \<and>
     encoded upstream_constants (1 / 5) (example_desire 1) s3 s4 \<and> skipped s3 s4 2 \<and>
     meta_main s4 = example_frame 105 300000000 \<and> last_vipc_frame_id s4 = 105 \<and>
     encoded upstream_constants (1 / 5) (example_sm []) s4 s5 \<and> published s4 s5 106"
proof -
  have h4: "meta_main example_stream = meta_extra example_stream"
    by (simp add: example_stream_def main_init_def)
  have h5: "10 \<le> run_count example_stream" by (simp add: example_stream_def)
  have h6: "pending (vipc_client_main example_stream) =
     [Some (1, example_frame 100 50000000), Some (2, example_frame 101 100000000),
      Some (3, example_frame 102 150000000), Some (4, example_frame 105 300000000),
      Some (5, example_frame 106 350000000)]"
    by (simp add: example_stream_def main_init_def)
  have h7: "map frame_id [example_frame 100 50000000, example_frame 101 100000000,
      example_frame 102 150000000, example_frame 105 300000000, example_frame 106 350000000]
     = [100, 101, 102, 105, 106]"
    by (simp add: example_frame_def)
  have h8: "timestamp_sof (meta_extra example_stream) + 25000000
              \<le> timestamp_sof (example_frame 100 50000000)"
    by (simp add: example_stream_def main_init_def FrameMeta_default_def example_frame_def)
  have h9: "timestamp_sof (example_frame 100 50000000) + 25000000
              \<le> timestamp_sof (example_frame 101 100000000)"
    and h10: "timestamp_sof (example_frame 101 100000000) + 25000000
              \<le> timestamp_sof (example_frame 102 150000000)"
    and h11: "timestamp_sof (example_frame 102 150000000) + 25000000
              \<le> timestamp_sof (example_frame 105 300000000)"
    and h12: "timestamp_sof (example_frame 105 300000000) + 25000000
              \<le> timestamp_sof (example_frame 106 350000000)"
    by (simp_all add: example_frame_def)
  show ?thesis
    by (rule gap_cycles[OF consistent_main_example wf_engine_example wf_main_example
          h4 h5 h6 h7 h8 h9 h10 h11 h12])
qed

text \<open>
  Claim C4, as stated, fails on the buffers of the input side. On the stream with frames
  100, 101, 102 and 105, let the maneuver index become 1 in the cycle that sees frame 105:
  that cycle only logs the skip of 2 frames, and yet \<^verbatim>\<open>prev_desire\<close> and the last
  row of the desire history, all zero after the cycle on frame 102, hold the one-hot
  vector of index 1 after it.
\<close>

theorem skipped_cycle_rewrites_desire:
  "map_option (prev_desire \<circ> model)
     (final (main_iterations all_enabled upstream_constants (example_engine upstream_constants)
        (1 / 5) False [example_sm [], example_sm [], example_sm []] example_stream))
     = Some [0, 0, 0, 0, 0, 0, 0, 0] \<and>
   map_option (last \<circ> desire_20Hz \<circ> model)
     (final (main_iterations all_enabled upstream_constants (example_engine upstream_constants)
        (1 / 5) False [example_sm [], example_sm [], example_sm []] example_stream))
     = Some [0, 0, 0, 0, 0, 0, 0, 0] \<and>
   map_option (last \<circ> events)
     (final (main_iterations all_enabled upstream_constants (example_engine upstream_constants)
        (1 / 5) False [example_sm [], example_sm [], example_sm [], example_desire 1]
        example_stream))
     = Some (SkippingModelEval 2) \<and>
   map_option (prev_desire \<circ> model)
     (final (main_iterations all_enabled upstream_constants (example_engine upstream_constants)
        (1 / 5) False [example_sm [], example_sm [], example_sm [], example_desire 1]
        example_stream))
     = Some [0, 1, 0, 0, 0, 0, 0, 0] \<and>
   map_option (last \<circ> desire_20Hz \<circ> model)
     (final (main_iterations all_enabled upstream_constants (example_engine upstream_constants)
        (1 / 5) False [example_sm [], example_sm [], example_sm [], example_desire 1]
        example_stream))
     = Some [0, 1, 0, 0, 0, 0, 0, 0]"
proof -
  from example_stream_cycles obtain s1 s2 s3 s4 where
    i1: "main_iteration all_enabled upstream_constants (example_engine upstream_constants) (1 / 5)
       False (example_sm []) example_stream = Inr s1"
    and i2: "main_iteration all_enabled upstream_constants (example_engine upstream_constants) (1 / 5)
       False (example_sm []) s1 = Inr s2"
    and i3: "main_iteration all_enabled upstream_constants (example_engine upstream_constants) (1 / 5)
       False (example_sm []) s2 = Inr s3"
    and i4: "main_iteration all_enabled upstream_constants (example_engine upstream_constants) (1 / 5)
       False (example_desire 1) s3 = Inr s4"
    and n2: "encoded upstream_constants (1 / 5) (example_sm []) s1 s2"
    and n3: "encoded upstream_constants (1 / 5) (example_sm []) s2 s3"
    and n4: "encoded upstream_constants (1 / 5) (example_desire 1) s3 s4"
    and k4: "skipped s3 s4 2"
    by blast
  have r3: "main_iterations all_enabled upstream_constants (example_engine upstream_constants)
        (1 / 5) False [example_sm [], example_sm [], example_sm []] example_stream = Inr s3"
    by (simp add: i1 i2 i3)
  have r4: "main_iterations all_enabled upstream_constants (example_engine upstream_constants)
        (1 / 5) False [example_sm [], example_sm [], example_sm [], example_desire 1]
        example_stream = Inr s4"
    by (simp add: i1 i2 i3 i4)
  have d0: "sm_desire (example_sm []) = 0" and d1: "sm_desire (example_desire 1) = 1"
    by (simp_all add: example_sm_def example_desire_def)
  have c0: "(vec_desire upstream_constants 0)[0 := 0] = [0, 0, 0, 0, 0, 0, 0, 0]"
    by (simp add: vec_desire_upstream_0)
  from n2 have p2: "prev_desire (model s2) = [0, 0, 0, 0, 0, 0, 0, 0]"
    by (simp add: encoded_def d0 c0)
  from n3 have p3: "prev_desire (model s3) = [0, 0, 0, 0, 0, 0, 0, 0]"
    by (simp add: encoded_def d0 c0)
  from n3 have "last (desire_20Hz (model s3))
      = pulse ((vec_desire upstream_constants 0)[0 := 0]) (prev_desire (model s2))"
    by (simp add: encoded_def d0)
  then have h3: "last (desire_20Hz (model s3)) = [0, 0, 0, 0, 0, 0, 0, 0]"
    by (simp add: c0 p2 pulse_def)
  from n4 have p4: "prev_desire (model s4) = [0, 1, 0, 0, 0, 0, 0, 0]"
    by (simp add: encoded_def d1 vec_desire_upstream_1)
  from n4 have "last (desire_20Hz (model s4))
      = pulse ((vec_desire upstream_constants 1)[0 := 0]) (prev_desire (model s3))"
    by (simp add: encoded_def d1)
  then have h4: "last (desire_20Hz (model s4)) = [0, 1, 0, 0, 0, 0, 0, 0]"
    by (simp add: vec_desire_upstream_1 p3 pulse_def)
  from k4 have e4: "last (events s4) = SkippingModelEval 2" by (simp add: skipped_def)
  show ?thesis
    unfolding r3 r4 by (simp add: final_def p3 h3 e4 p4 h4)
qed

text \<open>
  Claim C4, amended. In single-camera mode, after the warm-up, let the main stream deliver
  frames with ids 100, 101, 102, 105 and 106, each at least 25 ms after the one before, so
  that each is accepted in its own cycle. The cycles on 101 and 102 publish. The cycle on
  105 computes a raw dropped count of 2 and \<^verbatim>\<open>prepare_only\<close>, logs the skip, sends none
  of the three messages and leaves the feature and curvature histories and the two inputs
  built from them as they were; \<^verbatim>\<open>prev_desire\<close>, the desire history and the bound
  \<^verbatim>\<open>desire\<close>, \<^verbatim>\<open>traffic_convention\<close> and \<^verbatim>\<open>lateral_control_params\<close> inputs
  are rewritten from the inputs of that cycle, as in every cycle. The cycle on 106
  publishes again, with a dropped count of 0.
\<close>

theorem gap_scenario:
  assumes "consistent_main tg mc" and "wf_engine mc execute" and "wf_main mc s0"
    and "meta_main s0 = meta_extra s0" and "10 \<le> run_count s0"
    and "pending (vipc_client_main s0) =
           [Some (b1, m1), Some (b2, m2), Some (b3, m3), Some (b4, m4), Some (b5, m5)]"
    and "map frame_id [m1, m2, m3, m4, m5] = [100, 101, 102, 105, 106]"
    and "timestamp_sof (meta_extra s0) + 25000000 \<le> timestamp_sof m1"
    and "timestamp_sof m1 + 25000000 \<le> timestamp_sof m2"
    and "timestamp_sof m2 + 25000000 \<le> timestamp_sof m3"
    and "timestamp_sof m3 + 25000000 \<le> timestamp_sof m4"
    and "timestamp_sof m4 + 25000000 \<le> timestamp_sof m5"
  shows "\<exists>s1 s2 s3 s4 s5 ds.
           main_iteration tg mc execute steer_delay False sm1 s0 = Inr s1 \<and>
           main_iteration tg mc execute steer_delay False sm2 s1 = Inr s2 \<and>
           main_iteration tg mc execute steer_delay False sm3 s2 = Inr s3 \<and>
           main_iteration tg mc execute steer_delay False sm4 s3 = Inr s4 \<and>
           main_iteration tg mc execute steer_delay False sm5 s4 = Inr s5 \<and>
           main_iterations tg mc execute steer_delay False [sm1, sm2, sm3, sm4, sm5] s0 = Inr s5 \<and>
           published s1 s2 101 \<and> published s2 s3 102 \<and>
           meta_main s4 = m4 \<and> 10 \<le> run_count s3 \<and>
           track_dropped mc (frame_id m4) (last_vipc_frame_id s3)
             (frame_dropped_filter_x s3) (run_count s3) = Inr ds \<and>
           vipc_dropped_frames ds = 2 \<and> prepare_only ds \<and>
           skipped s3 s4 2 \<and>
           encoded mc steer_delay sm4 s3 s4 \<and>
           last_vipc_frame_id s4 = 105 \<and>
           published s4 s5 106"
proof -
  from assms(7) have id4: "frame_id m4 = 105" by simp
  from gap_cycles[OF assms, of steer_delay sm1 sm2 sm3 sm4 sm5]
  obtain s1 s2 s3 s4 s5 where
    i1: "main_iteration tg mc execute steer_delay False sm1 s0 = Inr s1"
    and i2: "main_iteration tg mc execute steer_delay False sm2 s1 = Inr s2"
    and i3: "main_iteration tg mc execute steer_delay False sm3 s2 = Inr s3"
    and i4: "main_iteration tg mc execute steer_delay False sm4 s3 = Inr s4"
    and i5: "main_iteration tg mc execute steer_delay False sm5 s4 = Inr s5"
    and p2: "published s1 s2 101" and p3: "published s2 s3 102"
    and w3: "wf_main mc s3" and l3: "last_vipc_frame_id s3 = 102" and rc: "10 \<le> run_count s3"
    and n4: "encoded mc steer_delay sm4 s3 s4" and k4: "skipped s3 s4 2"
    and m4: "meta_main s4 = m4" and l4: "last_vipc_frame_id s4 = 105"
    and p5: "published s4 s5 106"
    by blast
  have all: "main_iterations tg mc execute steer_delay False [sm1, sm2, sm3, sm4, sm5] s0 = Inr s5"
    by (simp add: i1 i2 i3 i4 i5)
  from assms(1) have mf: "0 < MODEL_FREQ mc" by (simp add: consistent_main_def)
  from w3 have x3: "0 \<le> frame_dropped_filter_x s3" by (simp add: wf_main_def)
  from track_dropped_ok[OF mf x3, of "frame_id m4" "last_vipc_frame_id s3" "run_count s3"]
  obtain ds where td: "track_dropped mc (frame_id m4) (last_vipc_frame_id s3)
             (frame_dropped_filter_x s3) (run_count s3) = Inr ds"
    and dv0: "vipc_dropped_frames ds = max 0 (frame_id m4 - last_vipc_frame_id s3 - 1)"
    and dp0: "prepare_only ds = (max 0 (frame_id m4 - last_vipc_frame_id s3 - 1) > 0)"
    by blast
  have dv: "vipc_dropped_frames ds = 2" using dv0 by (simp add: id4 l3)
  have dp: "prepare_only ds" using dp0 by (simp add: id4 l3)
  show ?thesis
    apply (rule exI[of _ s1], rule exI[of _ s2], rule exI[of _ s3])
    apply (rule exI[of _ s4], rule exI[of _ s5], rule exI[of _ ds])
    apply (intro conjI)
    apply (rule i1 i2 i3 i4 i5 all p2 p3 m4 rc td dv dp k4 n4 l4 p5)+
    done
qed

theorem gap_scenario_witness:
  "consistent_main all_enabled upstream_constants \<and>
   wf_engine upstream_constants (example_engine upstream_constants :: (nat option, unit) engine) \<and>
   wf_main upstream_constants example_stream \<and>
   meta_main example_stream = meta_extra example_stream \<and>
   10 \<le> run_count example_stream \<and>
   pending (vipc_client_main example_stream) =
     [Some (1, example_frame 100 50000000), Some (2, example_frame 101 100000000),
      Some (3, example_frame 102 150000000), Some (4, example_frame 105 300000000),
      Some (5, example_frame 106 350000000)] \<and>
   map frame_id [example_frame 100 50000000, example_frame 101 100000000,
      example_frame 102 150000000, example_frame 105 300000000, example_frame 106 350000000]
     = [100, 101, 102, 105, 106] \<and>
   timestamp_sof (meta_extra example_stream) + 25000000 \<le> timestamp_sof (example_frame 100 50000000) \<and>
   timestamp_sof (example_frame 100 50000000) + 25000000 \<le> timestamp_sof (example_frame 101 100000000) \<and>
   timestamp_sof (example_frame 101 100000000) + 25000000 \<le> timestamp_sof (example_frame 102 150000000) \<and>
   timestamp_sof (example_frame 102 150000000) + 25000000 \<le> timestamp_sof (example_frame 105 300000000) \<and>
   timestamp_sof (example_frame 105 300000000) + 25000000 \<le> timestamp_sof (example_frame 106 350000000) \<and>
   (\<exists>s1 s2 s3 s4 s5 ds.
      main_iteration all_enabled upstream_constants (example_engine upstream_constants) (1 / 5)
        False (example_sm []) example_stream = Inr s1 \<and>
      main_iteration all_enabled upstream_constants (example_engine upstream_constants) (1 / 5)
        False (example_sm []) s1 = Inr s2 \<and>
      main_iteration all_enabled upstream_constants (example_engine upstream_constants) (1 / 5)
        False (example_sm []) s2 = Inr s3 \<and>
      main_iteration all_enabled upstream_constants (example_engine upstream_constants) (1 / 5)
        False (example_desire 1) s3 = Inr s4 \<and>
      main_iteration all_enabled upstream_constants (example_engine upstream_constants) (1 / 5)
        False (example_sm []) s4 = Inr s5 \<and>
      main_iterations all_enabled upstream_constants (example_engine upstream_constants) (1 / 5)
        False [example_sm [], example_sm [], example_sm [], example_desire 1, example_sm []]
        example_stream = Inr s5 \<and>
      published s1 s2 101 \<and> published s2 s3 102 \<and>
      meta_main s4 = example_frame 105 300000000 \<and> 10 \<le> run_count s3 \<and>
      track_dropped upstream_constants (frame_id (example_frame 105 300000000))
        (last_vipc_frame_id s3) (frame_dropped_filter_x s3) (run_count s3) = Inr ds \<and>
      vipc_dropped_frames ds = 2 \<and> prepare_only ds \<and>
      skipped s3 s4 2 \<and>
      encoded upstream_constants (1 / 5) (example_desire 1) s3 s4 \<and>
      last_vipc_frame_id s4 = 105 \<and>
      published s4 s5 106)"
proof -
  have h1: "consistent_main all_enabled upstream_constants" by (rule consistent_main_example)
  have h2: "wf_engine upstream_constants (example_engine upstream_constants :: (nat option, unit) engine)"
    by (rule wf_engine_example)
  have h3: "wf_main upstream_constants example_stream" by (rule wf_main_example)
  have h4: "meta_main example_stream = meta_extra example_stream"
    by (simp add: example_stream_def main_init_def)
  have h5: "10 \<le> run_count example_stream" by (simp add: example_stream_def)
  have h6: "pending (vipc_client_main example_stream) =
     [Some (1, example_frame 100 50000000), Some (2, example_frame 101 100000000),
      Some (3, example_frame 102 150000000), Some (4, example_frame 105 300000000),
      Some (5, example_frame 106 350000000)]"
    by (simp add: example_stream_def main_init_def)
  have h7: "map frame_id [example_frame 100 50000000, example_frame 101 100000000,
      example_frame 102 150000000, example_frame 105 300000000, example_frame 106 350000000]
     = [100, 101, 102, 105, 106]"
    by (simp add: example_frame_def)
  have h8: "timestamp_sof (meta_extra example_stream) + 25000000
              \<le> timestamp_sof (example_frame 100 50000000)"
    by (simp add: example_stream_def main_init_def FrameMeta_default_def example_frame_def)
  have h9: "timestamp_sof (example_frame 100 50000000) + 25000000
              \<le> timestamp_sof (example_frame 101 100000000)"
    and h10: "timestamp_sof (example_frame 101 100000000) + 25000000
              \<le> timestamp_sof (example_frame 102 150000000)"
    and h11: "timestamp_sof (example_frame 102 150000000) + 25000000
              \<le> timestamp_sof (example_frame 105 300000000)"
    and h12: "timestamp_sof (example_frame 105 300000000) + 25000000
              \<le> timestamp_sof (example_frame 106 350000000)"
    by (simp_all add: example_frame_def)
  note c = gap_scenario[OF h1 h2 h3 h4 h5 h6 h7 h8 h9 h10 h11 h12,
      of "1 / 5" "example_sm []" "example_sm []" "example_sm []" "example_desire 1" "example_sm []"]
  show ?thesis
    by (intro conjI) (rule h1 h2 h3 h4 h5 h6 h7 h8 h9 h10 h11 h12 c)+
qed

end
